theory Spec2Isabelle
  imports Main "HOL-Library.Sublist"
begin

section \<open>JavaScript values\<close>

text \<open>
  The peer runtime of \<^verbatim>\<open>lib/peer.js\<close> handles dynamically typed data: message bodies
  parsed from JSON, discovery candidates, addresses and ports. They are modelled by one
  datatype of JavaScript values. \<open>JBuf\<close> is a Node \<^verbatim>\<open>Buffer\<close> (its bytes), \<open>JDate\<close> a
  \<^verbatim>\<open>Date\<close> (milliseconds since the epoch). Numbers are integers; floating point is not
  modelled.
\<close>

type_synonym buffer = string

datatype jsv =
    JUndefined
  | JNull
  | JBool bool
  | JNum int
  | JStr string
  | JDate nat
  | JBuf buffer
  | JArr "jsv list"
  | JObj "(string \<times> jsv) list"

text \<open>Truthiness, as \<^verbatim>\<open>if(v)\<close>, \<^verbatim>\<open>!v\<close> and \<^verbatim>\<open>a || b\<close> test it.\<close>

fun truthy :: "jsv \<Rightarrow> bool" where
  "truthy JUndefined = False"
| "truthy JNull = False"
| "truthy (JBool b) = b"
| "truthy (JNum n) = (n \<noteq> 0)"
| "truthy (JStr s) = (s \<noteq> [])"
| "truthy (JDate d) = True"
| "truthy (JBuf b) = True"
| "truthy (JArr xs) = True"
| "truthy (JObj fs) = True"

definition js_or :: "jsv \<Rightarrow> jsv \<Rightarrow> jsv" where
  "js_or a b = (if truthy a then a else b)"

fun nullish :: "jsv \<Rightarrow> bool" where
  "nullish JUndefined = True"
| "nullish JNull = True"
| "nullish v = False"

text \<open>
  \<^verbatim>\<open>v.k\<close> for the property names the runtime reads (\<^verbatim>\<open>address\<close>, \<^verbatim>\<open>signature\<close>,
  \<^verbatim>\<open>publicKey\<close>, \<^verbatim>\<open>iv\<close>, ...; never \<^verbatim>\<open>length\<close> or an index): \<open>None\<close> is the TypeError
  of reading a property of \<^verbatim>\<open>undefined\<close> or \<^verbatim>\<open>null\<close>; a value without the property
  gives \<^verbatim>\<open>undefined\<close>.
\<close>

fun get :: "jsv \<Rightarrow> string \<Rightarrow> jsv option" where
  "get JUndefined k = None"
| "get JNull k = None"
| "get (JObj fs) k = (case map_of fs k of None \<Rightarrow> Some JUndefined | Some v \<Rightarrow> Some v)"
| "get v k = Some JUndefined"

text \<open>
  \<^verbatim>\<open>v.hasOwnProperty(k)\<close>, for the same property names. \<open>None\<close> is the TypeError: of
  reading the method from \<^verbatim>\<open>undefined\<close> or \<^verbatim>\<open>null\<close>, and of calling it on an object that
  has an own key \<^verbatim>\<open>hasOwnProperty\<close> (\<^verbatim>\<open>JSON.parse\<close> makes one from such a key), whose
  value shadows the method and is no function.
\<close>

fun hasOwnProperty :: "jsv \<Rightarrow> string \<Rightarrow> bool option" where
  "hasOwnProperty JUndefined k = None"
| "hasOwnProperty JNull k = None"
| "hasOwnProperty (JObj fs) k =
     (if map_of fs ''hasOwnProperty'' \<noteq> None then None else Some (map_of fs k \<noteq> None))"
| "hasOwnProperty v k = Some False"

text \<open>\<^verbatim>\<open>typeof v == "object"\<close> (true of \<^verbatim>\<open>null\<close>).\<close>

fun typeof_object :: "jsv \<Rightarrow> bool" where
  "typeof_object JNull = True"
| "typeof_object (JDate d) = True"
| "typeof_object (JBuf b) = True"
| "typeof_object (JArr xs) = True"
| "typeof_object (JObj fs) = True"
| "typeof_object v = False"

fun typeof_string :: "jsv \<Rightarrow> bool" where
  "typeof_string (JStr s) = True"
| "typeof_string v = False"

text \<open>Setting a property of an object keeps the position of an existing key.\<close>

fun set_field :: "(string \<times> jsv) list \<Rightarrow> string \<Rightarrow> jsv \<Rightarrow> (string \<times> jsv) list" where
  "set_field [] k v = [(k, v)]"
| "set_field ((k', v') # fs) k v =
     (if k' = k then (k, v) # fs else (k', v') # set_field fs k v)"

text \<open>
  Strict equality \<^verbatim>\<open>===\<close> of a value with a primitive constant. Two objects are equal
  only when they are the same object, which the constants compared here never are.
\<close>

fun strict_eq :: "jsv \<Rightarrow> jsv \<Rightarrow> bool" where
  "strict_eq JUndefined JUndefined = True"
| "strict_eq JNull JNull = True"
| "strict_eq (JBool a) (JBool b) = (a = b)"
| "strict_eq (JNum a) (JNum b) = (a = b)"
| "strict_eq (JStr a) (JStr b) = (a = b)"
| "strict_eq a b = False"

section \<open>Strings: the address patterns\<close>

text \<open>
  The three regular expressions of \<^verbatim>\<open>discover\<close> and \<^verbatim>\<open>getPeerList\<close>. In a JavaScript
  pattern \<^verbatim>\<open>.\<close> matches no line terminator and \<^verbatim>\<open>$\<close> only the end of the input.
\<close>

definition line_terminator :: "char \<Rightarrow> bool" where
  "line_terminator c = (c = CHR 0x0A \<or> c = CHR 0x0D)"

definition one_line :: "string \<Rightarrow> bool" where
  "one_line s = list_all (\<lambda>c. \<not> line_terminator c) s"

definition is_digit :: "char \<Rightarrow> bool" where
  "is_digit c = (c \<in> set ''0123456789'')"

definition is_f :: "char \<Rightarrow> bool" where
  "is_f c = (c = CHR ''f'' \<or> c = CHR ''F'')"

text \<open>\<^verbatim>\<open>/^::ffff:(.*)$/i\<close> matches.\<close>

definition ffff_match :: "string \<Rightarrow> bool" where
  "ffff_match s =
     (case s of
        c1 # c2 # c3 # c4 # c5 # c6 # c7 # rest \<Rightarrow>
          c1 = CHR '':'' \<and> c2 = CHR '':'' \<and> is_f c3 \<and> is_f c4 \<and> is_f c5 \<and> is_f c6
          \<and> c7 = CHR '':'' \<and> one_line rest
      | _ \<Rightarrow> False)"

text \<open>\<^verbatim>\<open>s.replace(/^::ffff:(.*)$/i, "$1")\<close>\<close>

definition strip_ffff :: "string \<Rightarrow> string" where
  "strip_ffff s = (if ffff_match s then drop 7 s else s)"

fun contains :: "string \<Rightarrow> string \<Rightarrow> bool" where
  "contains sub [] = (sub = [])"
| "contains sub (c # cs) = (take (length sub) (c # cs) = sub \<or> contains sub cs)"

text \<open>\<^verbatim>\<open>/^(.*)\:\/\/(.*)$/i.test(s)\<close>\<close>

definition hasProtocol :: "string \<Rightarrow> bool" where
  "hasProtocol s = (one_line s \<and> contains ''://'' s)"

text \<open>\<^verbatim>\<open>/^(.*)\:[0-9]+$/i.test(s)\<close>: a colon and a non-empty run of digits end the string.\<close>

definition hasPort :: "string \<Rightarrow> bool" where
  "hasPort s =
     (let r = rev s; ds = takeWhile is_digit r; rest = dropWhile is_digit r
      in ds \<noteq> [] \<and> (case rest of [] \<Rightarrow> False | c # pre \<Rightarrow> c = CHR '':'' \<and> one_line pre))"

text \<open>\<^verbatim>\<open>s.indexOf(":") > -1\<close>\<close>

definition has_colon :: "string \<Rightarrow> bool" where
  "has_colon s = (CHR '':'' \<in> set s)"

section \<open>Messages\<close>

text \<open>
  \<^verbatim>\<open>lib/message.js\<close> (the class \<^verbatim>\<open>PeerMessage\<close>) is not among the sources. A message is
  what \<^verbatim>\<open>peer.js\<close> reads and writes of it: a header with \<^verbatim>\<open>type\<close>, \<^verbatim>\<open>hash\<close>,
  \<^verbatim>\<open>timestamp\<close>, \<^verbatim>\<open>signature\<close> and an optional \<^verbatim>\<open>confirm\<close>, and a body. The
  constructor, the table of type codes and the type names are parameters of the model
  (see \<open>env\<close>). A message and its header are taken to own these properties and no
  other, so that \<^verbatim>\<open>message.hasOwnProperty\<close> and \<^verbatim>\<open>message.header.hasOwnProperty\<close> are the
  inherited method; the body and the \<^verbatim>\<open>confirm\<close> header are values as they were parsed.
\<close>

record header =
  htype :: jsv
  hash :: jsv
  timestamp :: jsv
  hsignature :: jsv
  confirm :: "jsv option"

record PeerMessage =
  header :: header
  body :: jsv

text \<open>
  What \<^verbatim>\<open>broadcast\<close> sends and what a connection's \<^verbatim>\<open>unconfirmedMessages\<close> holds: a
  \<^verbatim>\<open>PeerMessage\<close> instance or a string.
\<close>

datatype bmsg = PM PeerMessage | Txt string

section \<open>The world outside peer.js\<close>

text \<open>
  Everything \<^verbatim>\<open>peer.js\<close> calls but does not define is a field of the environment: the
  clock and the random generator, \<^verbatim>\<open>node-rsa\<close>, \<^verbatim>\<open>crypto\<close>, \<^verbatim>\<open>Buffer\<close>, \<^verbatim>\<open>url\<close>,
  \<^verbatim>\<open>JSON\<close>, the coercions of the language, and \<^verbatim>\<open>PeerMessage\<close>. A call that can throw
  returns an option, \<open>None\<close> being the exception; \<^verbatim>\<open>JSON.stringify\<close> returns a string or
  \<^verbatim>\<open>undefined\<close> (\<open>None\<close>). Theorems hold for every environment.
\<close>

datatype rsa_key = NodeRSA jsv

record parsed_url =
  u_protocol :: jsv
  u_hostname :: jsv
  u_host :: jsv
  u_href :: jsv
  u_port :: jsv

record env =
  now :: nat
  randomBytes :: "nat \<Rightarrow> buffer"
  NodeRSA_new :: "jsv \<Rightarrow> rsa_key option"
  exportKey_public :: "rsa_key \<Rightarrow> jsv option"
  Buffer_from_base64 :: "jsv \<Rightarrow> buffer option"
  toString_base64 :: "buffer \<Rightarrow> string"
  value_toString_base64 :: "jsv \<Rightarrow> string option"
  ring_verify :: "jsv \<Rightarrow> buffer \<Rightarrow> bool option"
  key_verify :: "rsa_key \<Rightarrow> buffer \<Rightarrow> buffer \<Rightarrow> bool option"
  key_encrypt :: "rsa_key \<Rightarrow> buffer \<Rightarrow> buffer option"
  private_sign :: "string option \<Rightarrow> buffer option"
  private_decrypt :: "buffer \<Rightarrow> buffer option"
  aes_encrypt :: "buffer option \<Rightarrow> buffer option \<Rightarrow> string option \<Rightarrow> buffer option"
  aes_decrypt :: "buffer option \<Rightarrow> buffer option \<Rightarrow> buffer \<Rightarrow> buffer option"
  JSON_stringify :: "jsv \<Rightarrow> string option"
  JSON_parse_utf8 :: "buffer \<Rightarrow> jsv option"
  template_string :: "jsv \<Rightarrow> string"
  parseInt :: "jsv \<Rightarrow> jsv"
  coerce_eq :: "jsv \<Rightarrow> jsv \<Rightarrow> bool"
  Date_toString :: "nat \<Rightarrow> string"
  Date_toISOString :: "nat \<Rightarrow> string"
  value_toString :: "jsv \<Rightarrow> string option"
  url_parse :: "string \<Rightarrow> parsed_url"
  url_format :: "jsv \<Rightarrow> jsv \<Rightarrow> jsv \<Rightarrow> string"
  PeerMessage_new :: "jsv option \<Rightarrow> jsv option \<Rightarrow> PeerMessage"
  PeerMessage_from :: "bmsg \<Rightarrow> PeerMessage option"
  PEER_MESSAGE_TYPES :: "string \<Rightarrow> jsv"
  PEER_MESSAGE_STRING :: "jsv \<Rightarrow> string"

text \<open>\<^verbatim>\<open>new Date(new Date().toUTCString())\<close>: the clock, cut to whole seconds.\<close>

definition utc_now :: "env \<Rightarrow> nat" where
  "utc_now E = (now E div 1000) * 1000"

text \<open>
  Loose equality \<^verbatim>\<open>a == b\<close>. Values of one primitive type compare by value,
  \<^verbatim>\<open>undefined\<close> and \<^verbatim>\<open>null\<close> equal each other and nothing else, a \<^verbatim>\<open>Date\<close> meets a
  string as its \<^verbatim>\<open>toString()\<close>; every other pair is left to the coercion rules of the
  language (\<open>coerce_eq\<close>).
\<close>

fun loose_eq :: "env \<Rightarrow> jsv \<Rightarrow> jsv \<Rightarrow> bool" where
  "loose_eq E (JBool a) (JBool b) = (a = b)"
| "loose_eq E (JNum a) (JNum b) = (a = b)"
| "loose_eq E (JStr a) (JStr b) = (a = b)"
| "loose_eq E (JStr a) (JDate d) = (a = Date_toString E d)"
| "loose_eq E (JDate d) (JStr a) = (Date_toString E d = a)"
| "loose_eq E a b =
     (if nullish a \<or> nullish b then nullish a \<and> nullish b else coerce_eq E a b)"

section \<open>The state of a peer\<close>

text \<open>
  The fields \<^verbatim>\<open>peer.js\<close> hangs on the transport's connection object. A field that the
  code tests with \<^verbatim>\<open>hasOwnProperty\<close>, or that is absent until some step sets it, is an
  option. \<open>remoteAddress\<close> and \<open>remotePort\<close> (\<^verbatim>\<open>connection.socket.remotePort\<close>) are
  the transport's own.
\<close>

record connection =
  trusted :: bool
  connected :: bool
  unconfirmedMessages :: "bmsg list"
  requireConfirmation_c :: bool
  originalAddress :: "jsv option"
  originalPort :: "jsv option"
  parsedAddress :: "string option"
  remoteAddress :: jsv
  remotePort :: jsv
  active_c :: "nat option"
  peerPublicKey :: "rsa_key option"
  peerPublicKeySignature :: "buffer option"
  iv :: "buffer option"
  key :: "buffer option"
  peerIv :: "buffer option"
  peerKey :: "buffer option"

text \<open>
  The transport's request object, as far as \<^verbatim>\<open>setupConnection\<close> looks into it: the
  \<^verbatim>\<open>x-forwarded-for\<close> header and \<^verbatim>\<open>request.connection.remoteAddress\<close>, each present
  when the whole chain of \<^verbatim>\<open>hasOwnProperty\<close> tests holds.
\<close>

record request =
  xForwardedFor :: "jsv option"
  connection_remoteAddress :: "jsv option"

text \<open>A row of \<^verbatim>\<open>self.peers\<close>. The connection is a reference into the store \<open>conns\<close>.\<close>

record peer_entry =
  request :: "request option"
  connection :: nat
  created :: nat
  active :: nat

text \<open>
  The peer. Connection objects are shared between \<^verbatim>\<open>self.peers\<close>, the event
  handlers and the timers, so they live in a store indexed by reference.
  \<open>discoveryRange\<close> is \<^verbatim>\<open>self.range\<close>: \<open>None\<close> when it is no array, else its
  (integer) elements.
\<close>

record peer =
  peers :: "peer_entry list"
  conns :: "nat \<Rightarrow> connection"
  discoveryAddresses :: "jsv list"
  discovering :: bool
  requireConfirmation :: bool
  signature :: buffer
  publicKey :: rsa_key
  port :: jsv
  publicAddress :: jsv
  discoveryRange :: "int list option"

text \<open>
  What a call does to the outside: frames handed to \<^verbatim>\<open>connection.sendUTF\<close>,
  \<^verbatim>\<open>connection.close()\<close>, events emitted to the embedder, timers set, dials started.
  A frame is recorded by the object that was serialised. Diagnostic logging is not
  modelled, nor are the callbacks that run when the transport reports a write error.
\<close>

datatype wire = ToString PeerMessage | Stringified PeerMessage | Unserialised bmsg

datatype task = RetryBroadcast nat PeerMessage | Rediscover

datatype action =
    SendUTF nat wire
  | Close nat
  | Emit string "PeerMessage option" "nat option"
  | SetTimeout task nat
  | ClientConnect string string jsv

datatype retval = RFalse | RUndefined | RThis

datatype completion = Return retval | Throw | OutOfFuel

type_synonym outcome = "peer \<times> action list \<times> completion"

definition conn_update :: "nat \<Rightarrow> (connection \<Rightarrow> connection) \<Rightarrow> peer \<Rightarrow> peer" where
  "conn_update c f s = s\<lparr>conns := (conns s)(c := f (conns s c))\<rparr>"

section \<open>isOwnSignature, inDiscoveryAddresses, isConnectedTo\<close>

definition own_signature :: "env \<Rightarrow> peer \<Rightarrow> string" where
  "own_signature E s = toString_base64 E (signature s)"

text \<open>\<open>None\<close>: \<^verbatim>\<open>s.toString("base64")\<close> threw (a number takes the argument as a radix).\<close>

definition isOwnSignature :: "env \<Rightarrow> peer \<Rightarrow> jsv \<Rightarrow> bool option" where
  "isOwnSignature E s v =
     (if \<not> truthy v then Some False
      else case v of
             JStr t \<Rightarrow> Some (t = own_signature E s)
           | JBuf b \<Rightarrow> Some (toString_base64 E b = own_signature E s)
           | _ \<Rightarrow> (case value_toString_base64 E v of
                     None \<Rightarrow> None
                   | Some t \<Rightarrow> Some (t = own_signature E s)))"

definition inDiscoveryAddresses :: "env \<Rightarrow> peer \<Rightarrow> jsv \<Rightarrow> bool" where
  "inDiscoveryAddresses E s p =
     list_ex (\<lambda>q. JSON_stringify E q = JSON_stringify E p) (discoveryAddresses s)"

text \<open>\<open>None\<close>: the parameter \<^verbatim>\<open>{ address, signature }\<close> cannot be destructured.\<close>

definition isConnectedTo :: "env \<Rightarrow> peer \<Rightarrow> jsv \<Rightarrow> bool option" where
  "isConnectedTo E s p =
     (case get p ''signature'' of
        None \<Rightarrow> None
      | Some sg \<Rightarrow>
          Some (loose_eq E (JStr (own_signature E s)) sg
                \<or> list_ex (\<lambda>e. case peerPublicKeySignature (conns s (connection e)) of
                                  None \<Rightarrow> False
                                | Some b \<Rightarrow> loose_eq E (JStr (toString_base64 E b)) sg)
                     (peers s)))"

section \<open>getPeerList\<close>

text \<open>
  One row of the list. \<open>None\<close> is the TypeError of \<^verbatim>\<open>originalAddress.slice(0).replace\<close>
  on an address that is no string.
\<close>

definition peer_record :: "env \<Rightarrow> peer \<Rightarrow> peer_entry \<Rightarrow> string \<Rightarrow> jsv option" where
  "peer_record E s e sig64 =
     (let c = conns s (connection e) in
      case originalAddress c of
        Some (JStr a) \<Rightarrow>
          Some (JObj
            [(''address'', JStr (strip_ffff a @
                (if has_colon a then []
                 else CHR '':'' # template_string E
                        (case originalPort c of None \<Rightarrow> JUndefined | Some p \<Rightarrow> p)))),
             (''signature'', JStr sig64),
             (''created'', JDate (created e)),
             (''active'', JDate (active e)),
             (''trusted'', JBool (trusted c))])
      | _ \<Rightarrow> None)"

text \<open>The loop over \<^verbatim>\<open>this.peers\<close>, with the list built so far.\<close>

fun getPeerList_loop ::
  "env \<Rightarrow> peer \<Rightarrow> jsv list \<Rightarrow> peer_entry list \<Rightarrow> jsv list \<Rightarrow> jsv list option" where
  "getPeerList_loop E s omit [] peerList = Some peerList"
| "getPeerList_loop E s omit (e # es) peerList =
     (let c = conns s (connection e) in
      case peerPublicKeySignature c of
        None \<Rightarrow> getPeerList_loop E s omit es peerList
      | Some b \<Rightarrow>
          if originalAddress c = None then getPeerList_loop E s omit es peerList
          else
            let peerPublicKeySignatureBase64 = toString_base64 E b in
            if JStr peerPublicKeySignatureBase64 \<notin> set omit then
              (case peer_record E s e peerPublicKeySignatureBase64 of
                 None \<Rightarrow> None
               | Some r \<Rightarrow> getPeerList_loop E s omit es (peerList @ [r]))
            else getPeerList_loop E s omit es peerList)"

text \<open>
  \<^verbatim>\<open>getPeerList(signaturesToOmit)\<close>; an argument that is falsy or no array counts as
  the empty list. \<open>None\<close> is a thrown TypeError.
\<close>

definition getPeerList :: "env \<Rightarrow> peer \<Rightarrow> jsv \<Rightarrow> jsv list option" where
  "getPeerList E s signaturesToOmit =
     getPeerList_loop E s (case signaturesToOmit of JArr xs \<Rightarrow> xs | _ \<Rightarrow> []) (peers s) []"

section \<open>broadcast\<close>

text \<open>
  The argument of \<^verbatim>\<open>broadcast(options)\<close>: a \<^verbatim>\<open>PeerMessage\<close>, a string, an object
  \<^verbatim>\<open>{ message, connection }\<close> (either property may be missing), or anything else.
\<close>

datatype bval = VMsg PeerMessage | VJs jsv

datatype boptions =
    OptMessage PeerMessage
  | OptString string
  | OptObject "bval option" "nat option"
  | OptOther

text \<open>\<^verbatim>\<open>let { message=msg, connection=false } = options || {}\<close>; \<open>None\<close> is \<^verbatim>\<open>false\<close>.\<close>

definition options_message :: "env \<Rightarrow> boptions \<Rightarrow> bval option" where
  "options_message E options =
     (case options of
        OptMessage m \<Rightarrow> Some (VMsg m)
      | OptString str \<Rightarrow>
          Some (VMsg (PeerMessage_new E (Some (PEER_MESSAGE_TYPES E ''message'')) (Some (JStr str))))
      | OptObject m c \<Rightarrow> m
      | OptOther \<Rightarrow> None)"

definition options_connection :: "boptions \<Rightarrow> nat option" where
  "options_connection options = (case options of OptObject m c \<Rightarrow> c | _ \<Rightarrow> None)"

text \<open>
  The body of the \<^verbatim>\<open>try\<close> in the trusted branch: sign, encrypt, send. An exception
  leaves the copy as far as it was changed and sends nothing.
\<close>

definition sign_encrypt_send ::
  "env \<Rightarrow> connection \<Rightarrow> nat \<Rightarrow> PeerMessage \<Rightarrow> PeerMessage \<times> action list" where
  "sign_encrypt_send E k c copy =
     (case private_sign E (JSON_stringify E (body copy)) of
        None \<Rightarrow> (copy, [])
      | Some sg \<Rightarrow>
          let signed = copy\<lparr>header := (header copy)\<lparr>hsignature := JStr (toString_base64 E sg)\<rparr>\<rparr> in
          case aes_encrypt E (key k) (iv k) (JSON_stringify E (body signed)) of
            None \<Rightarrow> (signed, [])
          | Some ct \<Rightarrow>
              let sent = signed\<lparr>body := JStr (toString_base64 E ct)\<rparr>
              in (sent, [SendUTF c (Stringified sent)]))"

text \<open>
  One turn of the loop over \<^verbatim>\<open>toSendTo\<close>. The retry timer holds the copy object itself,
  so when it fires it sees the copy as the \<^verbatim>\<open>try\<close> block left it.
\<close>

definition broadcast_one :: "env \<Rightarrow> peer \<Rightarrow> nat \<Rightarrow> bmsg \<Rightarrow> outcome" where
  "broadcast_one E s c message =
     (let k = conns s c in
      if connected k then
        if trusted k then
          (case PeerMessage_from E message of
             None \<Rightarrow> (s, [], Throw)
           | Some messageCopyToSend \<Rightarrow>
               let retry = (requireConfirmation s
                            \<and> \<not> strict_eq (htype (header messageCopyToSend))
                                           (PEER_MESSAGE_TYPES E ''confirm''));
                   s1 = conn_update c
                          (\<lambda>k. k\<lparr>unconfirmedMessages := unconfirmedMessages k @ [message]\<rparr>) s;
                   (copy, sent) = sign_encrypt_send E k c messageCopyToSend
               in (s1,
                   (if retry then [SetTimeout (RetryBroadcast c copy) 30000] else []) @ sent,
                   Return RUndefined))
        else
          (case message of
             Txt t \<Rightarrow> (s, [], Throw)
           | PM m \<Rightarrow>
               if loose_eq E (htype (header m)) (PEER_MESSAGE_TYPES E ''helo'')
               then (s, [SendUTF c (Unserialised message)], Return RUndefined)
               else (s, [], Return RUndefined))
      else (s, [], Return RUndefined))"

fun broadcast_loop :: "env \<Rightarrow> bmsg \<Rightarrow> nat list \<Rightarrow> peer \<Rightarrow> outcome" where
  "broadcast_loop E message [] s = (s, [], Return RThis)"
| "broadcast_loop E message (c # cs) s =
     (case broadcast_one E s c message of
        (s1, a1, Return r) \<Rightarrow>
          (case broadcast_loop E message cs s1 of (s2, a2, r2) \<Rightarrow> (s2, a1 @ a2, r2))
      | (s1, a1, r1) \<Rightarrow> (s1, a1, r1))"

text \<open>
  \<^verbatim>\<open>var toSendTo = !connection ? this.peers : [{ connection }]\<close>: the connections the loop
  goes through.
\<close>

definition toSendTo :: "peer \<Rightarrow> boptions \<Rightarrow> nat list" where
  "toSendTo s options =
     (case options_connection options of None \<Rightarrow> map connection (peers s) | Some c \<Rightarrow> [c])"

text \<open>
  \<^verbatim>\<open>broadcast(options)\<close>. A message that is neither a string nor a \<^verbatim>\<open>PeerMessage\<close> is
  replaced by the JSON text of \<^verbatim>\<open>{ message }\<close>.
\<close>

definition broadcast :: "env \<Rightarrow> peer \<Rightarrow> boptions \<Rightarrow> outcome" where
  "broadcast E s options =
     (if peers s = [] then (s, [], Return RFalse)
      else
        case options_message E options of
          None \<Rightarrow> (s, [], Return RFalse)
        | Some (VMsg m) \<Rightarrow> broadcast_loop E (PM m) (toSendTo s options) s
        | Some (VJs v) \<Rightarrow>
            if \<not> truthy v then (s, [], Return RFalse)
            else
              case (case v of JStr t \<Rightarrow> Some t
                            | _ \<Rightarrow> JSON_stringify E (JObj [(''message'', v)])) of
                None \<Rightarrow> (s, [], Return RFalse)
              | Some t \<Rightarrow> broadcast_loop E (Txt t) (toSendTo s options) s)"

subsection \<open>The retry timer\<close>

text \<open>\<^verbatim>\<open>v.toString()\<close>; \<open>None\<close> is the TypeError on \<^verbatim>\<open>undefined\<close> or \<^verbatim>\<open>null\<close>.\<close>

definition js_toString :: "env \<Rightarrow> jsv \<Rightarrow> string option" where
  "js_toString E v =
     (case v of
        JUndefined \<Rightarrow> None
      | JNull \<Rightarrow> None
      | JStr t \<Rightarrow> Some t
      | JDate d \<Rightarrow> Some (Date_toString E d)
      | _ \<Rightarrow> value_toString E v)"



section \<open>discover\<close>

text \<open>
  The test-and-push that \<^verbatim>\<open>discoverOne\<close> makes for every expanded candidate \<open>d\<close>. The
  flag is false when \<^verbatim>\<open>isOwnSignature\<close> threw.
\<close>

definition enqueue_candidate :: "env \<Rightarrow> peer \<Rightarrow> jsv \<Rightarrow> peer \<times> bool" where
  "enqueue_candidate E s d =
     (let inDiscoveryAddresses' = inDiscoveryAddresses E s d in
      case isConnectedTo E s d of
        None \<Rightarrow> (s, False)
      | Some isConnectedTo' \<Rightarrow>
          (case isOwnSignature E s (case get d ''signature'' of None \<Rightarrow> JUndefined | Some g \<Rightarrow> g) of
             None \<Rightarrow> (s, False)
           | Some isOwnSignature' \<Rightarrow>
               if \<not> inDiscoveryAddresses' \<and> \<not> isConnectedTo' \<and> \<not> isOwnSignature'
               then (s\<lparr>discoveryAddresses := discoveryAddresses s @ [d]\<rparr>, True)
               else (s, True)))"

text \<open>The candidate built for one port: \<^verbatim>\<open>{ address: url.format(parsedAddress), signature }\<close>.\<close>

definition port_candidate :: "env \<Rightarrow> jsv \<Rightarrow> jsv \<Rightarrow> jsv \<Rightarrow> jsv \<Rightarrow> jsv" where
  "port_candidate E protocol hst sg prt =
     JObj [(''address'', JStr (url_format E protocol hst prt)), (''signature'', sg)]"

text \<open>\<^verbatim>\<open>for(let i=self.range[0]; i<=self.range[1]; i++)\<close>, over the ports still to do.\<close>

fun expand_range :: "env \<Rightarrow> (jsv \<Rightarrow> jsv) \<Rightarrow> int list \<Rightarrow> peer \<Rightarrow> peer \<times> bool" where
  "expand_range E mk [] s = (s, True)"
| "expand_range E mk (i # ports) s =
     (case enqueue_candidate E s (mk (JNum i)) of
        (s', True) \<Rightarrow> expand_range E mk ports s'
      | (s', False) \<Rightarrow> (s', False))"

text \<open>
  The port expansion of a candidate without a port: over the configured range when
  \<^verbatim>\<open>self.range\<close> is an array of two numbers in order, with the own port otherwise.
\<close>

definition expand_ports :: "env \<Rightarrow> (jsv \<Rightarrow> jsv) \<Rightarrow> peer \<Rightarrow> peer \<times> bool" where
  "expand_ports E mk s =
     (case discoveryRange s of
        Some [lo, hi] \<Rightarrow>
          if lo \<le> hi then expand_range E mk [lo..hi] s
          else enqueue_candidate E s (mk (port s))
      | _ \<Rightarrow> enqueue_candidate E s (mk (port s)))"

text \<open>
  What \<^verbatim>\<open>discoverOne\<close> does with the candidate it took from the queue, after the
  \<^verbatim>\<open>isConnectedTo\<close> test and up to the point where it either calls \<^verbatim>\<open>next()\<close> and returns
  (\<open>Expanded\<close>) or starts a dial (\<open>Dialling\<close>, with the address, port and URL the
  \<^verbatim>\<open>connect\<close> handler will store on the connection). \<open>Failed\<close> is a thrown TypeError.
\<close>

datatype step = Expanded peer | Dialling peer action | Failed peer

definition host_and_port :: "env \<Rightarrow> bool \<Rightarrow> bool \<Rightarrow> parsed_url \<Rightarrow> (jsv \<times> jsv) option" where
  "host_and_port E hasProtocol' hasPort' tmp =
     (if \<not> hasProtocol' \<and> hasPort' then
        (case js_toString E (u_protocol tmp) of
           None \<Rightarrow> None
         | Some pr \<Rightarrow> Some (JStr (butlast pr), parseInt E (js_or (u_hostname tmp) (u_host tmp))))
      else if hasProtocol' \<and> \<not> hasPort' then
        Some (js_or (js_or (u_hostname tmp) (u_host tmp)) (u_href tmp), JNull)
      else if \<not> hasProtocol' \<and> \<not> hasPort' then
        Some (u_href tmp, JNull)
      else
        Some (js_or (u_hostname tmp) (u_host tmp), js_or (u_port tmp) JNull))"

definition candidate_step :: "env \<Rightarrow> peer \<Rightarrow> jsv \<Rightarrow> step" where
  "candidate_step E s peerToDiscover =
     (case get peerToDiscover ''address'' of
        Some (JStr a) \<Rightarrow>
          let address = strip_ffff a;
              hasProtocol' = hasProtocol address;
              hasPort' = hasPort address;
              tmp = url_parse E address
          in (case host_and_port E hasProtocol' hasPort' tmp of
                None \<Rightarrow> Failed s
              | Some (hst, prt) \<Rightarrow>
                  let protocol = (if hasProtocol' then u_protocol tmp else JStr ''wss:'');
                      sg = (case get peerToDiscover ''signature'' of
                              None \<Rightarrow> JUndefined | Some g \<Rightarrow> g)
                  in if \<not> hasPort' then
                       (case expand_ports E (port_candidate E protocol hst sg) s of
                          (s', True) \<Rightarrow> Expanded s'
                        | (s', False) \<Rightarrow> Failed s')
                     else
                       Dialling s
                         (ClientConnect (url_format E protocol hst prt) address prt))
      | _ \<Rightarrow> Failed s)"

text \<open>
  \<^verbatim>\<open>discoverOne\<close> and its inner \<^verbatim>\<open>next\<close>. \<^verbatim>\<open>next()\<close> calls \<^verbatim>\<open>discoverOne\<close> again while
  the queue is not empty, and an expansion may keep refilling the queue, so the recursion
  carries fuel; \<open>OutOfFuel\<close> stands for a call that does not return. After
  \<^verbatim>\<open>if(self.isConnectedTo(peerToDiscover)) next();\<close> the function goes on with the same
  candidate.
\<close>

fun discoverOne :: "nat \<Rightarrow> env \<Rightarrow> peer \<Rightarrow> outcome"
  and discover_next :: "nat \<Rightarrow> env \<Rightarrow> peer \<Rightarrow> outcome" where
  "discoverOne 0 E s = (s, [], OutOfFuel)"
| "discoverOne (Suc n) E s =
     (case discoveryAddresses s of
        [] \<Rightarrow> (s, [], Throw)
      | peerToDiscover # queue \<Rightarrow>
          let s0 = s\<lparr>discoveryAddresses := queue\<rparr> in
          case isConnectedTo E s0 peerToDiscover of
            None \<Rightarrow> (s0, [], Throw)
          | Some connected' \<Rightarrow>
              (case (if connected' then discover_next n E s0 else (s0, [], Return RUndefined)) of
                 (s1, a1, Return r) \<Rightarrow>
                   (case candidate_step E s1 peerToDiscover of
                      Expanded s2 \<Rightarrow>
                        (case discover_next n E s2 of
                           (s3, a3, Return r3) \<Rightarrow> (s3, a1 @ a3, Return RUndefined)
                         | (s3, a3, r3) \<Rightarrow> (s3, a1 @ a3, r3))
                    | Dialling s2 a \<Rightarrow> (s2, a1 @ [a], Return RUndefined)
                    | Failed s2 \<Rightarrow> (s2, a1, Throw))
               | (s1, a1, r1) \<Rightarrow> (s1, a1, r1)))"
| "discover_next n E s =
     (if discoveryAddresses s \<noteq> [] then discoverOne n E s
      else (s, [Emit ''discovered'' None None], Return RUndefined))"

definition discover :: "nat \<Rightarrow> env \<Rightarrow> peer \<Rightarrow> outcome" where
  "discover n E s =
     (if discoveryAddresses s = []
      then (s\<lparr>discovering := False\<rparr>, [Emit ''discovered'' None None], Return RFalse)
      else
        case discoverOne n E (s\<lparr>discovering := True\<rparr>) of
          (s', a, r) \<Rightarrow>
            (s', Emit ''discovering'' None None # a,
             case r of Return v \<Rightarrow> Return RUndefined | _ \<Rightarrow> r))"

section \<open>setupConnection and the connection's event handlers\<close>

text \<open>
  \<^verbatim>\<open>setupConnection({ connection, request })\<close> for the connection object at reference
  \<open>c\<close>. The row is pushed on \<^verbatim>\<open>self.peers\<close> before any HELO is exchanged. The HELO is
  sent inside a \<^verbatim>\<open>try\<close>; an exception there is logged and nothing is sent.
\<close>

definition helo_message :: "env \<Rightarrow> peer \<Rightarrow> PeerMessage option" where
  "helo_message E s =
     (case exportKey_public E (publicKey s) of
        None \<Rightarrow> None
      | Some pem \<Rightarrow>
          Some ((PeerMessage_new E None None)
                  \<lparr>body := JObj [(''publicKey'', pem), (''signature'', JStr (own_signature E s))]\<rparr>))"

definition setupConnection :: "env \<Rightarrow> peer \<Rightarrow> nat \<Rightarrow> request option \<Rightarrow> outcome" where
  "setupConnection E s c req =
     (let created' = utc_now E;
          s1 = conn_update c (\<lambda>k. k\<lparr>trusted := False, connected := True,
                 unconfirmedMessages := [], requireConfirmation_c := False\<rparr>) s;
          k1 = conns s1 c;
          address =
            (if originalAddress k1 \<noteq> None then Some (originalAddress k1)
             else case req of
                    None \<Rightarrow>
                      (case remoteAddress k1 of
                         JStr a \<Rightarrow> Some (Some (JStr (strip_ffff a))) | _ \<Rightarrow> None)
                  | Some r \<Rightarrow>
                      (case xForwardedFor r of
                         Some v \<Rightarrow> Some (Some v)
                       | None \<Rightarrow>
                           (case connection_remoteAddress r of
                              Some v \<Rightarrow> Some (Some v)
                            | None \<Rightarrow>
                                (case remoteAddress k1 of
                                   JStr a \<Rightarrow> Some (Some (JStr (strip_ffff a)))
                                 | _ \<Rightarrow> None))))
      in case address of
           None \<Rightarrow> (s1, [], Throw)
         | Some a \<Rightarrow>
             let s2 = conn_update c (\<lambda>k. k\<lparr>originalAddress := a,
                        originalPort := (case originalPort k of
                                           None \<Rightarrow> Some (remotePort k) | Some p \<Rightarrow> Some p)\<rparr>) s1;
                 s3 = s2\<lparr>peers := peers s2 @
                        [\<lparr>request = req, connection = c, created = created', active = created'\<rparr>]\<rparr>
             in (s3,
                 (case helo_message E s3 of
                    None \<Rightarrow> [] | Some helo \<Rightarrow> [SendUTF c (ToString helo)]),
                 Return RUndefined))"

text \<open>The \<^verbatim>\<open>error\<close> handler of a connection.\<close>

definition on_error :: "env \<Rightarrow> peer \<Rightarrow> nat \<Rightarrow> outcome" where
  "on_error E s c =
     (conn_update c (\<lambda>k. k\<lparr>trusted := False, active_c := Some (utc_now E)\<rparr>) s, [],
      Return RUndefined)"

text \<open>
  The \<^verbatim>\<open>close\<close> handler of a connection, called with the close code. On a code other
  than 1000 it reads \<^verbatim>\<open>this.peerPublicKeySignature.toString('base64')\<close>; with the field
  absent that is a TypeError, thrown after the first two assignments.
\<close>

definition on_close :: "env \<Rightarrow> peer \<Rightarrow> nat \<Rightarrow> int \<Rightarrow> outcome" where
  "on_close E s c code =
     (let s1 = conn_update c (\<lambda>k. k\<lparr>trusted := False, active_c := Some (utc_now E)\<rparr>) s;
          k = conns s1 c
      in if code \<noteq> 1000 then
           (case peerPublicKeySignature k of
              None \<Rightarrow> (s1, [], Throw)
            | Some b \<Rightarrow>
                (s1\<lparr>discoveryAddresses := discoveryAddresses s1 @
                      [JObj [(''address'', (case originalAddress k of
                                              None \<Rightarrow> JUndefined | Some a \<Rightarrow> a)),
                             (''signature'', JStr (toString_base64 E b))]]\<rparr>,
                 (if \<not> discovering s1 then [SetTimeout Rediscover 60000] else []),
                 Return RUndefined))
         else (s1, [], Return RUndefined))"

text \<open>
  The dialler's handlers in \<^verbatim>\<open>discoverOne\<close>: \<^verbatim>\<open>connectFailed\<close> calls \<^verbatim>\<open>next()\<close>;
  \<^verbatim>\<open>connect\<close> stores the dialled address on the new connection, sets it up and calls
  \<^verbatim>\<open>next()\<close>.
\<close>

definition on_connectFailed :: "nat \<Rightarrow> env \<Rightarrow> peer \<Rightarrow> outcome" where
  "on_connectFailed n E s = discover_next n E s"

definition on_connect :: "nat \<Rightarrow> env \<Rightarrow> peer \<Rightarrow> nat \<Rightarrow> string \<Rightarrow> string \<Rightarrow> jsv \<Rightarrow> outcome" where
  "on_connect n E s c url address prt =
     (let s1 = conn_update c (\<lambda>k. k\<lparr>originalAddress := Some (JStr address),
                 originalPort := Some prt, parsedAddress := Some url\<rparr>) s
      in case setupConnection E s1 c None of
           (s2, a2, Return r) \<Rightarrow>
             (case discover_next n E s2 of (s3, a3, r3) \<Rightarrow> (s3, a2 @ a3, r3))
         | (s2, a2, r2) \<Rightarrow> (s2, a2, r2))"

section \<open>receive\<close>

text \<open>
  The first loop of \<^verbatim>\<open>receive\<close>: the first row of \<^verbatim>\<open>this.peers\<close> whose connection has
  the same \<^verbatim>\<open>originalAddress\<close> (by JSON text) as the receiving connection gets the
  current time as \<^verbatim>\<open>active\<close>.
\<close>

fun touch_active :: "env \<Rightarrow> peer \<Rightarrow> nat \<Rightarrow> peer_entry list \<Rightarrow> peer_entry list" where
  "touch_active E s c [] = []"
| "touch_active E s c (p # ps) =
     (case (originalAddress (conns s c), originalAddress (conns s (connection p))) of
        (Some a, Some b) \<Rightarrow>
          if JSON_stringify E a = JSON_stringify E b then p\<lparr>active := utc_now E\<rparr> # ps
          else p # touch_active E s c ps
      | _ \<Rightarrow> p # touch_active E s c ps)"

subsection \<open>HELO\<close>

text \<open>
  The branch taken after a verified HELO: the connection is marked trusted, fresh session
  material is drawn, and the TRUSTED message is built, signed and sent. These statements
  are outside the \<^verbatim>\<open>try\<close>: an exception leaves the connection trusted.
\<close>

definition helo_trust :: "env \<Rightarrow> peer \<Rightarrow> nat \<Rightarrow> rsa_key \<Rightarrow> buffer \<Rightarrow> outcome" where
  "helo_trust E s c peerPublicKey' peerPublicKeySignature' =
     (let iv' = randomBytes E 16;
          key' = randomBytes E 32;
          s1 = conn_update c (\<lambda>k. k\<lparr>trusted := True,
                 peerPublicKey := Some peerPublicKey',
                 peerPublicKeySignature := Some peerPublicKeySignature',
                 iv := Some iv', key := Some key'\<rparr>) s
      in case key_encrypt E peerPublicKey' iv' of
           None \<Rightarrow> (s1, [], Throw)
         | Some encryptedIV \<Rightarrow>
       (case key_encrypt E peerPublicKey' key' of
           None \<Rightarrow> (s1, [], Throw)
         | Some encryptedKey \<Rightarrow>
       (case getPeerList E s1 (JArr [JStr (toString_base64 E peerPublicKeySignature')]) of
           None \<Rightarrow> (s1, [], Throw)
         | Some knownPeers \<Rightarrow>
             let trusted_body = JObj
                   [(''key'', JStr (toString_base64 E encryptedKey)),
                    (''iv'', JStr (toString_base64 E encryptedIV)),
                    (''peers'', JArr knownPeers),
                    (''listening'', JObj [(''port'', port s1), (''address'', publicAddress s1)]),
                    (''requireConfirmation'', JBool (requireConfirmation s1))];
                 m0 = PeerMessage_new E None None
             in case private_sign E (JSON_stringify E trusted_body) of
                  None \<Rightarrow> (s1, [], Throw)
                | Some sg \<Rightarrow>
                    (s1,
                     [SendUTF c (ToString
                        (m0\<lparr>header := (header m0)\<lparr>htype := PEER_MESSAGE_TYPES E ''trusted'',
                                                    hsignature := JBuf sg\<rparr>,
                            body := trusted_body\<rparr>))],
                     Return RUndefined))))"

text \<open>
  The HELO branch. Every exception inside the \<^verbatim>\<open>try\<close> (a body without the fields, a key
  or signature that does not parse, a verification that throws) ends in
  \<^verbatim>\<open>return false\<close>. An own signature closes the connection. A signature that does not
  verify falls through the final \<^verbatim>\<open>if\<close>, which has no \<^verbatim>\<open>else\<close>.
\<close>

definition receive_helo :: "env \<Rightarrow> peer \<Rightarrow> nat \<Rightarrow> PeerMessage \<Rightarrow> outcome" where
  "receive_helo E s c message =
     (case get (body message) ''publicKey'' of
        None \<Rightarrow> (s, [], Return RFalse)
      | Some pem \<Rightarrow>
     (case NodeRSA_new E pem of
        None \<Rightarrow> (s, [], Return RFalse)
      | Some peerPublicKey' \<Rightarrow>
     (case Buffer_from_base64 E
             (case get (body message) ''signature'' of None \<Rightarrow> JUndefined | Some g \<Rightarrow> g) of
        None \<Rightarrow> (s, [], Return RFalse)
      | Some peerPublicKeySignature' \<Rightarrow>
     (case isOwnSignature E s (JStr (toString_base64 E peerPublicKeySignature')) of
        None \<Rightarrow> (s, [], Return RFalse)
      | Some True \<Rightarrow> (s, [Close c], Return RUndefined)
      | Some False \<Rightarrow>
     (case ring_verify E pem peerPublicKeySignature' of
        None \<Rightarrow> (s, [], Return RFalse)
      | Some keyIsSigned \<Rightarrow>
          if keyIsSigned then helo_trust E s c peerPublicKey' peerPublicKeySignature'
          else (s, [], Return RUndefined))))))"

subsection \<open>TRUSTED\<close>

text \<open>\<^verbatim>\<open>s.indexOf("::ffff:") === 0\<close> on a string.\<close>

definition starts_ffff :: "string \<Rightarrow> bool" where
  "starts_ffff t = (take 7 t = ''::ffff:'')"

text \<open>
  One entry of the gossiped \<^verbatim>\<open>peers\<close> array: the IPv4 prefix is cut from its address,
  then the entry is pushed unless it is queued, connected or the peer itself (tested in
  this order, each test only if the ones before failed). The flag is false on a TypeError.
\<close>

definition gossip_entry :: "env \<Rightarrow> peer \<Rightarrow> jsv \<Rightarrow> peer \<times> bool" where
  "gossip_entry E s e =
     (case (case e of
              JObj fs \<Rightarrow>
                (case map_of fs ''address'' of
                   Some (JStr t) \<Rightarrow>
                     Some (if starts_ffff t
                           then JObj (set_field fs ''address'' (JStr (drop 7 t))) else e)
                 | Some (JArr xs) \<Rightarrow>
                     Some (if xs \<noteq> [] \<and> strict_eq (hd xs) (JStr ''::ffff:'')
                           then JObj (set_field fs ''address'' (JArr (drop 7 xs))) else e)
                 | _ \<Rightarrow> None)
            | _ \<Rightarrow> None) of
        None \<Rightarrow> (s, False)
      | Some e' \<Rightarrow>
          if inDiscoveryAddresses E s e' then (s, True)
          else
            (case isConnectedTo E s e' of
               None \<Rightarrow> (s, False)
             | Some True \<Rightarrow> (s, True)
             | Some False \<Rightarrow>
                 (case isOwnSignature E s
                         (case get e' ''signature'' of None \<Rightarrow> JUndefined | Some g \<Rightarrow> g) of
                    None \<Rightarrow> (s, False)
                  | Some True \<Rightarrow> (s, True)
                  | Some False \<Rightarrow>
                      (s\<lparr>discoveryAddresses := discoveryAddresses s @ [e']\<rparr>, True))))"

fun gossip_loop :: "env \<Rightarrow> jsv list \<Rightarrow> peer \<Rightarrow> peer \<times> bool" where
  "gossip_loop E [] s = (s, True)"
| "gossip_loop E (e # es) s =
     (case gossip_entry E s e of
        (s', True) \<Rightarrow> gossip_loop E es s'
      | (s', False) \<Rightarrow> (s', False))"

text \<open>
  The \<^verbatim>\<open>listening\<close> part of a TRUSTED body. False: \<^verbatim>\<open>listening.hasOwnProperty\<close> threw.
  The body itself has answered \<^verbatim>\<open>hasOwnProperty("iv")\<close> before, so its method is not
  shadowed here.
\<close>

definition set_listening :: "env \<Rightarrow> peer \<Rightarrow> nat \<Rightarrow> jsv \<Rightarrow> peer \<times> bool" where
  "set_listening E s c b =
     (case get b ''listening'' of
        Some l \<Rightarrow>
          if hasOwnProperty b ''listening'' = Some True \<and> typeof_object l then
            (case hasOwnProperty l ''address'' of
               None \<Rightarrow> (s, False)
             | Some has_address \<Rightarrow>
                 let s1 = (if has_address
                           then conn_update c (\<lambda>k. k\<lparr>originalAddress := get l ''address''\<rparr>) s
                           else s)
                 in if hasOwnProperty l ''port'' = Some True then
                      (case get l ''port'' of
                         Some (JNum n) \<Rightarrow>
                           (conn_update c (\<lambda>k. k\<lparr>originalPort := Some (JNum n)\<rparr>) s1, True)
                       | Some v \<Rightarrow>
                           (conn_update c (\<lambda>k. k\<lparr>originalPort := Some (parseInt E v)\<rparr>) s1, True)
                       | None \<Rightarrow> (s1, True))
                    else (s1, True))
          else (s, True)
      | None \<Rightarrow> (s, True))"

text \<open>
  The TRUSTED branch, on a connection already trusted. The session material is decrypted
  in a \<^verbatim>\<open>try\<close> whose handler returns false; \<^verbatim>\<open>peerIv\<close> stays assigned when only the key
  fails. Everything after it is unguarded.
\<close>

definition receive_trusted :: "nat \<Rightarrow> env \<Rightarrow> peer \<Rightarrow> nat \<Rightarrow> PeerMessage \<Rightarrow> outcome" where
  "receive_trusted n E s c message =
     (let b = body message in
      case hasOwnProperty b ''iv'' of
        None \<Rightarrow> (s, [], Throw)
      | Some has_iv \<Rightarrow>
      if \<not> (has_iv \<and> hasOwnProperty b ''key'' = Some True) then (s, [], Return RFalse)
      else
      (case Option.bind (Option.bind (get b ''iv'') (Buffer_from_base64 E)) (private_decrypt E) of
        None \<Rightarrow> (s, [], Return RFalse)
      | Some peerIv' \<Rightarrow>
      let s1 = conn_update c (\<lambda>k. k\<lparr>peerIv := Some peerIv'\<rparr>) s in
      (case Option.bind (Option.bind (get b ''key'') (Buffer_from_base64 E)) (private_decrypt E) of
        None \<Rightarrow> (s1, [], Return RFalse)
      | Some peerKey' \<Rightarrow>
      let s2 = conn_update c (\<lambda>k. k\<lparr>peerKey := Some peerKey'\<rparr>) s1;
          a2 = [Emit ''connection'' None (Some c)];
          s3 = (case get b ''requireConfirmation'' of
                  Some (JBool rc) \<Rightarrow>
                    if hasOwnProperty b ''requireConfirmation'' = Some True
                    then conn_update c (\<lambda>k. k\<lparr>requireConfirmation_c := rc\<rparr>) s2 else s2
                | _ \<Rightarrow> s2)
      in case set_listening E s3 c b of
           (s4, False) \<Rightarrow> (s4, a2, Throw)
         | (s4, True) \<Rightarrow>
             (case get b ''peers'' of
                Some (JArr ps) \<Rightarrow>
                  if hasOwnProperty b ''peers'' = Some True then
                    (case gossip_loop E ps s4 of
                       (s5, False) \<Rightarrow> (s5, a2, Throw)
                     | (s5, True) \<Rightarrow>
                         if length (discoveryAddresses s5) > length (discoveryAddresses s4)
                         then (case discover n E s5 of
                                 (s6, a6, Return r) \<Rightarrow> (s6, a2 @ a6, Return RUndefined)
                               | (s6, a6, r6) \<Rightarrow> (s6, a2 @ a6, r6))
                         else (s5, a2, Return RUndefined))
                  else (s4, a2, Return RUndefined)
              | _ \<Rightarrow> (s4, a2, Return RUndefined)))))"

subsection \<open>CONFIRM\<close>

text \<open>
  \<^verbatim>\<open>entry.header.timestamp.toISOString()\<close>: only a \<^verbatim>\<open>Date\<close> has the method; \<open>None\<close> is the
  TypeError.
\<close>

definition js_toISOString :: "env \<Rightarrow> jsv \<Rightarrow> string option" where
  "js_toISOString E v = (case v of JDate d \<Rightarrow> Some (Date_toISOString E d) | _ \<Rightarrow> None)"

text \<open>
  The scan for the confirmed message, over the reversed list (the loop runs from the last
  index down): the first entry met whose hash equals \<open>h\<close> and whose timestamp, as ISO
  text, equals \<open>t\<close> is spliced out and the loop stops. \<open>None\<close> is a TypeError (an entry
  that is a string has no header); nothing has been removed then.
\<close>

fun splice_confirmed :: "env \<Rightarrow> string \<Rightarrow> string \<Rightarrow> bmsg list \<Rightarrow> bmsg list option" where
  "splice_confirmed E h t [] = Some []"
| "splice_confirmed E h t (Txt x # es) = None"
| "splice_confirmed E h t (PM e # es) =
     (if loose_eq E (hash (header e)) (JStr h) then
        (case js_toISOString E (timestamp (header e)) of
           None \<Rightarrow> None
         | Some isoText \<Rightarrow>
             if isoText = t then Some es
             else map_option ((#) (PM e)) (splice_confirmed E h t es))
      else map_option ((#) (PM e)) (splice_confirmed E h t es))"

definition confirm_unconfirmed :: "env \<Rightarrow> string \<Rightarrow> string \<Rightarrow> bmsg list \<Rightarrow> bmsg list option" where
  "confirm_unconfirmed E h t ms = map_option rev (splice_confirmed E h t (rev ms))"

text \<open>
  The \<^verbatim>\<open>confirm\<close> header, when it passes the chain of tests of the CONFIRM branch: an
  object with a string \<^verbatim>\<open>hash\<close> and a string \<^verbatim>\<open>timestamp\<close>. The outer option is the
  TypeError of \<^verbatim>\<open>hasOwnProperty\<close> on \<^verbatim>\<open>null\<close> or on an object that shadows the method.
  The first test of the chain, \<^verbatim>\<open>message.hasOwnProperty("header")\<close>, holds of every
  message of this model: the record always carries its header.
\<close>

definition confirm_header :: "PeerMessage \<Rightarrow> (string \<times> string) option option" where
  "confirm_header message =
     (case confirm (header message) of
        None \<Rightarrow> Some None
      | Some cf \<Rightarrow>
          if typeof_object cf then
            (case hasOwnProperty cf ''hash'' of
               None \<Rightarrow> None
             | Some has_hash \<Rightarrow>
                 (case (get cf ''hash'', get cf ''timestamp'') of
                    (Some (JStr h), Some (JStr t)) \<Rightarrow> Some (Some (h, t))
                  | _ \<Rightarrow> Some None))
          else Some None)"

text \<open>The CONFIRM branch, on a trusted connection.\<close>

definition receive_confirm :: "env \<Rightarrow> peer \<Rightarrow> nat \<Rightarrow> PeerMessage \<Rightarrow> outcome" where
  "receive_confirm E s c message =
     (if \<not> requireConfirmation s then (s, [], Return RUndefined)
      else
        case confirm_header message of
          None \<Rightarrow> (s, [], Throw)
        | Some None \<Rightarrow> (s, [], Return RUndefined)
        | Some (Some (h, t)) \<Rightarrow>
            (case confirm_unconfirmed E h t (unconfirmedMessages (conns s c)) of
               None \<Rightarrow> (s, [], Throw)
             | Some ms \<Rightarrow>
                 (conn_update c (\<lambda>k. k\<lparr>unconfirmedMessages := ms\<rparr>) s, [], Return RUndefined)))"

subsection \<open>PEERS\<close>

definition receive_peers :: "env \<Rightarrow> peer \<Rightarrow> nat \<Rightarrow> outcome" where
  "receive_peers E s c =
     (case getPeerList E s JUndefined of
        None \<Rightarrow> (s, [], Throw)
      | Some l \<Rightarrow>
          let peers_body = JObj [(''peers'', JArr l)];
              m0 = PeerMessage_new E None None
          in case private_sign E (JSON_stringify E peers_body) of
               None \<Rightarrow> (s, [], Throw)
             | Some sg \<Rightarrow>
                 (s,
                  [SendUTF c (ToString
                     (m0\<lparr>header := (header m0)\<lparr>htype := PEER_MESSAGE_TYPES E ''peers'',
                                                 hsignature := JBuf sg\<rparr>,
                         body := peers_body\<rparr>))],
                  Return RUndefined))"

subsection \<open>Data frames\<close>

text \<open>
  The first half of the \<^verbatim>\<open>try\<close> of the last branch: decode body and signature, decrypt
  with the peer's key and IV, verify the signature over the plaintext, parse the
  plaintext. \<open>None\<close> when any step throws or the signature does not verify (the code then
  throws itself); the handler only logs.
\<close>

definition open_frame :: "env \<Rightarrow> connection \<Rightarrow> PeerMessage \<Rightarrow> jsv option" where
  "open_frame E k message =
     (case Buffer_from_base64 E (body message) of
        None \<Rightarrow> None
      | Some encryptedMessageBody \<Rightarrow>
     (case Buffer_from_base64 E (hsignature (header message)) of
        None \<Rightarrow> None
      | Some messageSignature \<Rightarrow>
     (case aes_decrypt E (peerKey k) (peerIv k) encryptedMessageBody of
        None \<Rightarrow> None
      | Some decryptedMessageBody \<Rightarrow>
     (case peerPublicKey k of
        None \<Rightarrow> None
      | Some pk \<Rightarrow>
     (case key_verify E pk decryptedMessageBody messageSignature of
        Some True \<Rightarrow> JSON_parse_utf8 E decryptedMessageBody
      | _ \<Rightarrow> None)))))"

definition confirmationMsg :: "env \<Rightarrow> PeerMessage \<Rightarrow> PeerMessage" where
  "confirmationMsg E message =
     (let m0 = PeerMessage_new E (Some (PEER_MESSAGE_TYPES E ''confirm'')) None
      in m0\<lparr>header := (header m0)\<lparr>confirm :=
              Some (JObj [(''hash'', hash (header message)),
                          (''timestamp'', timestamp (header message))])\<rparr>\<rparr>)"

text \<open>
  The last branch: a frame of any other type on a trusted connection. An exception of the
  confirmation's \<^verbatim>\<open>broadcast\<close> is caught by the same handler, after what it did.
\<close>

definition receive_data :: "env \<Rightarrow> peer \<Rightarrow> nat \<Rightarrow> PeerMessage \<Rightarrow> outcome" where
  "receive_data E s c message =
     (case open_frame E (conns s c) message of
        None \<Rightarrow> (s, [], Return RUndefined)
      | Some b \<Rightarrow>
          let message' = message\<lparr>body := b\<rparr> in
          case (if requireConfirmation_c (conns s c)
                then broadcast E s (OptObject (Some (VMsg (confirmationMsg E message'))) (Some c))
                else (s, [], Return RUndefined)) of
            (s1, a1, Return r) \<Rightarrow>
              (s1,
               a1 @ [Emit ''message'' (Some message') (Some c)] @
               (if typeof_string (htype (header message'))
                then [Emit (PEER_MESSAGE_STRING E (htype (header message'))) (Some message') (Some c)]
                else []),
               Return RUndefined)
          | (s1, a1, r1) \<Rightarrow> (s1, a1, Return RUndefined))"

subsection \<open>The dispatcher\<close>

text \<open>
  \<^verbatim>\<open>receive({ connection, message })\<close> for the text of one frame. The type name computed
  for the log is left out. A frame that is no HELO is looked at only when the connection
  is trusted.
\<close>

definition receive :: "nat \<Rightarrow> env \<Rightarrow> peer \<Rightarrow> nat \<Rightarrow> string \<Rightarrow> outcome" where
  "receive n E s c raw =
     (if raw = [] then (s, [], Return RFalse)
      else
        case PeerMessage_from E (Txt raw) of
          None \<Rightarrow> (s, [], Throw)
        | Some message \<Rightarrow>
            let s1 = s\<lparr>peers := touch_active E s c (peers s)\<rparr>;
                ty = htype (header message)
            in if loose_eq E ty (PEER_MESSAGE_TYPES E ''helo'') then receive_helo E s1 c message
               else if trusted (conns s1 c) then
                 if loose_eq E ty (PEER_MESSAGE_TYPES E ''trusted'')
                 then receive_trusted n E s1 c message
                 else if loose_eq E ty (PEER_MESSAGE_TYPES E ''confirm'')
                 then receive_confirm E s1 c message
                 else if loose_eq E ty (PEER_MESSAGE_TYPES E ''peers'')
                 then receive_peers E s1 c
                 else receive_data E s1 c message
               else (s1, [], Return RUndefined))"

section \<open>Predicates for stating the claims\<close>

text \<open>
  An entry of \<^verbatim>\<open>unconfirmedMessages\<close> is confirmed by the pair \<open>(h, t)\<close> of a CONFIRM's
  \<^verbatim>\<open>confirm\<close> header: it is a message whose hash equals \<open>h\<close> and whose timestamp, as
  ISO text, equals \<open>t\<close>.
\<close>

definition confirms :: "env \<Rightarrow> string \<Rightarrow> string \<Rightarrow> bmsg \<Rightarrow> bool" where
  "confirms E h t e =
     (case e of
        PM p \<Rightarrow> loose_eq E (hash (header p)) (JStr h)
                \<and> js_toISOString E (timestamp (header p)) = Some t
      | Txt x \<Rightarrow> False)"




text \<open>
  The frames an action list writes on the connection \<open>c\<close>, and the retry timers it sets
  for \<open>c\<close> (the message each holds and its delay), in order.
\<close>

fun frame_on :: "nat \<Rightarrow> action \<Rightarrow> wire list" where
  "frame_on c (SendUTF c' w) = (if c' = c then [w] else [])"
| "frame_on c a = []"

definition frames_on :: "nat \<Rightarrow> action list \<Rightarrow> wire list" where
  "frames_on c acts = concat (map (frame_on c) acts)"

fun timer_on :: "nat \<Rightarrow> action \<Rightarrow> (PeerMessage \<times> nat) list" where
  "timer_on c (SetTimeout (RetryBroadcast c' m) d) = (if c' = c then [(m, d)] else [])"
| "timer_on c a = []"

definition timers_on :: "nat \<Rightarrow> action list \<Rightarrow> (PeerMessage \<times> nat) list" where
  "timers_on c acts = concat (map (timer_on c) acts)"

text \<open>
  The values a candidate's \<^verbatim>\<open>signature\<close> takes in the data model: absent, \<^verbatim>\<open>null\<close> or a
  string.
\<close>

definition signature_value :: "jsv \<Rightarrow> bool" where
  "signature_value g = (case g of JUndefined \<Rightarrow> True | JNull \<Rightarrow> True | JStr t \<Rightarrow> True | _ \<Rightarrow> False)"

text \<open>
  The ports a candidate without a port is expanded to: those of the configured range
  \<open>[lo, hi]\<close> when there is one with \<open>lo \<le> hi\<close>, else the peer's own listening port.
\<close>

definition expansion_ports :: "peer \<Rightarrow> jsv list" where
  "expansion_ports s =
     (case discoveryRange s of
        Some [lo, hi] \<Rightarrow> if lo \<le> hi then map JNum [lo..hi] else [port s]
      | _ \<Rightarrow> [port s])"

text \<open>
  The candidate \<^verbatim>\<open>discoverOne\<close> builds for the (normalised, port-less) address, the
  signature \<open>sg\<close> and one port: scheme and host are taken from the parsed address, the
  scheme being \<^verbatim>\<open>wss:\<close> when the address names none.
\<close>

definition expansion_of :: "env \<Rightarrow> string \<Rightarrow> jsv \<Rightarrow> jsv \<Rightarrow> jsv" where
  "expansion_of E address sg prt =
     (let tmp = url_parse E address in
      if hasProtocol address
      then port_candidate E (u_protocol tmp)
             (js_or (js_or (u_hostname tmp) (u_host tmp)) (u_href tmp)) sg prt
      else port_candidate E (JStr ''wss:'') (u_href tmp) sg prt)"

section \<open>A concrete environment and a concrete peer\<close>

text \<open>
  The theorems below hold for every environment and every state. To run them on an
  input, here is one small environment: keys and buffers are their own text, the ring
  signature of a key \<open>K\<close> is \<open>ring:K\<close>, a signature over \<open>x\<close> is \<open>sig:x\<close>, the
  ciphertext of \<open>x\<close> is \<open>enc:x\<close>; the type codes are 0 to 4; eight frames parse; one
  URL (\<open>wss://hostb:3\<close>) parses into its parts, and an address without a scheme parses,
  as \<^verbatim>\<open>url.parse\<close> has it, into a \<^verbatim>\<open>href\<close> with every other part \<^verbatim>\<open>null\<close>.
\<close>

definition digit_text :: "jsv \<Rightarrow> string" where
  "digit_text v =
     (case v of
        JNum i \<Rightarrow> (if 0 \<le> i \<and> i \<le> 9 then [''0123456789'' ! nat i] else ''n'')
      | JStr t \<Rightarrow> t
      | _ \<Rightarrow> ''undefined'')"

definition messageM :: PeerMessage where
  "messageM =
     \<lparr>header = \<lparr>htype = JNum 4, hash = JStr ''h0'', timestamp = JDate 3000,
                 hsignature = JNull, confirm = None\<rparr>,
      body = JStr ''hello''\<rparr>"

text \<open>The frames the concrete environment parses.\<close>

definition heloA :: PeerMessage where
  "heloA =
     \<lparr>header = \<lparr>htype = JNum 0, hash = JStr ''ha'', timestamp = JDate 3000,
                 hsignature = JNull, confirm = None\<rparr>,
      body = JObj [(''publicKey'', JStr ''KA''), (''signature'', JStr ''ring:KA'')]\<rparr>"

definition heloB :: PeerMessage where
  "heloB =
     \<lparr>header = \<lparr>htype = JNum 0, hash = JStr ''hb'', timestamp = JDate 3000,
                 hsignature = JNull, confirm = None\<rparr>,
      body = JObj [(''publicKey'', JStr ''KB''), (''signature'', JStr ''ring:KB'')]\<rparr>"

definition heloX :: PeerMessage where
  "heloX =
     \<lparr>header = \<lparr>htype = JNum 0, hash = JStr ''hx'', timestamp = JDate 3000,
                 hsignature = JNull, confirm = None\<rparr>,
      body = JObj [(''publicKey'', JStr ''KX''), (''signature'', JStr ''forged'')]\<rparr>"

definition heloC :: PeerMessage where
  "heloC =
     \<lparr>header = \<lparr>htype = JNum 0, hash = JStr ''hc0'', timestamp = JDate 3000,
                 hsignature = JNull, confirm = None\<rparr>,
      body = JObj [(''publicKey'', JStr ''KC''), (''signature'', JStr ''ring:KC'')]\<rparr>"

definition trustedB :: PeerMessage where
  "trustedB =
     \<lparr>header = \<lparr>htype = JNum 1, hash = JStr ''ht'', timestamp = JDate 3000,
                 hsignature = JNull, confirm = None\<rparr>,
      body = JObj [(''key'', JStr ''keyB''), (''iv'', JStr ''ivB''), (''peers'', JArr []),
                   (''listening'', JObj [(''port'', JNum 6), (''address'', JStr ''10.0.0.2'')]),
                   (''requireConfirmation'', JBool True)]\<rparr>"

definition trustedC :: PeerMessage where
  "trustedC =
     \<lparr>header = \<lparr>htype = JNum 1, hash = JStr ''hc1'', timestamp = JDate 3000,
                 hsignature = JNull, confirm = None\<rparr>,
      body = JObj [(''key'', JStr ''keyC''), (''iv'', JStr ''ivC''), (''peers'', JArr []),
                   (''listening'', JObj [(''port'', JNum 6), (''address'', JStr ''10.0.0.3'')]),
                   (''requireConfirmation'', JBool True)]\<rparr>"

definition confirmM :: PeerMessage where
  "confirmM =
     \<lparr>header = \<lparr>htype = JNum 2, hash = JStr ''hc'', timestamp = JDate 4000,
                 hsignature = JNull,
                 confirm = Some (JObj [(''hash'', JStr ''h0''),
                                       (''timestamp'', JStr ''1970-01-01T00:00:03.000Z'')])\<rparr>,
      body = JStr []\<rparr>"

definition dataX :: PeerMessage where
  "dataX =
     \<lparr>header = \<lparr>htype = JNum 4, hash = JStr ''hd'', timestamp = JDate 4000,
                 hsignature = JStr ''sig:hello'', confirm = None\<rparr>,
      body = JStr ''garbled''\<rparr>"

definition frames0 :: "string \<Rightarrow> PeerMessage option" where
  "frames0 raw =
     (if raw = ''HELO-A'' then Some heloA
      else if raw = ''HELO-B'' then Some heloB
      else if raw = ''HELO-X'' then Some heloX
      else if raw = ''TRUSTED-B'' then Some trustedB
      else if raw = ''CONFIRM-M'' then Some confirmM
      else if raw = ''DATA-X'' then Some dataX
      else if raw = ''HELO-C'' then Some heloC
      else if raw = ''TRUSTED-C'' then Some trustedC
      else None)"

definition env0 :: env where
  "env0 =
     \<lparr>now = 3456,
      randomBytes = (\<lambda>n. replicate n (CHR ''r'')),
      NodeRSA_new = (\<lambda>v. case v of JStr t \<Rightarrow> Some (NodeRSA v) | _ \<Rightarrow> None),
      exportKey_public = (\<lambda>k. case k of NodeRSA v \<Rightarrow> Some v),
      Buffer_from_base64 = (\<lambda>v. case v of JStr t \<Rightarrow> Some t | _ \<Rightarrow> None),
      toString_base64 = (\<lambda>b. b),
      value_toString_base64 = (\<lambda>v. None),
      ring_verify = (\<lambda>pem sg. case pem of JStr t \<Rightarrow> Some (sg = ''ring:'' @ t) | _ \<Rightarrow> None),
      key_verify = (\<lambda>k d sg. Some (sg = ''sig:'' @ d)),
      key_encrypt = (\<lambda>k b. Some b),
      private_sign = (\<lambda>t. case t of None \<Rightarrow> None | Some x \<Rightarrow> Some (''sig:'' @ x)),
      private_decrypt = (\<lambda>b. Some b),
      aes_encrypt = (\<lambda>k i t. case (k, i, t) of
                       (Some k', Some i', Some x) \<Rightarrow> Some (''enc:'' @ x) | _ \<Rightarrow> None),
      aes_decrypt = (\<lambda>k i d. case (k, i) of
                       (Some k', Some i') \<Rightarrow>
                         (if take 4 d = ''enc:'' then Some (drop 4 d) else None)
                     | _ \<Rightarrow> None),
      JSON_stringify = (\<lambda>v. case v of
                          JUndefined \<Rightarrow> None
                        | JStr t \<Rightarrow> Some t
                        | JObj [(k1, JStr a), (k2, g)] \<Rightarrow> Some (a @ ''|'' @ digit_text g)
                        | _ \<Rightarrow> Some ''{}''),
      JSON_parse_utf8 = (\<lambda>b. if b = ''hello'' then Some (JStr ''hello'') else None),
      template_string = digit_text,
      parseInt = (\<lambda>v. v),
      coerce_eq = (\<lambda>a b. False),
      Date_toString = (\<lambda>d. if d div 1000 = 3 then ''Thu Jan 01 1970 00:00:03'' else ''other''),
      Date_toISOString = (\<lambda>d. if d = 3000 then ''1970-01-01T00:00:03.000Z'' else ''other''),
      value_toString = (\<lambda>v. None),
      url_parse = (\<lambda>a. if a = ''wss://hostb:3''
                         then \<lparr>u_protocol = JStr ''wss:'', u_hostname = JStr ''hostb'',
                                u_host = JStr ''hostb:3'', u_href = JStr a, u_port = JStr ''3''\<rparr>
                         else \<lparr>u_protocol = JNull, u_hostname = JNull, u_host = JNull,
                                u_href = JStr a, u_port = JNull\<rparr>),
      url_format = (\<lambda>pr h p. digit_text pr @ ''//'' @ digit_text h @
                      (case p of JNum i \<Rightarrow> '':'' @ digit_text p
                               | JStr t \<Rightarrow> '':'' @ t | _ \<Rightarrow> [])),
      PeerMessage_new = (\<lambda>ty b.
         \<lparr>header = \<lparr>htype = (case ty of None \<Rightarrow> JNum 0 | Some t \<Rightarrow> t), hash = JStr ''hn'',
                     timestamp = JDate 3000, hsignature = JNull, confirm = None\<rparr>,
          body = (case b of None \<Rightarrow> JObj [] | Some v \<Rightarrow> v)\<rparr>),
      PeerMessage_from = (\<lambda>m. case m of PM p \<Rightarrow> Some p | Txt raw \<Rightarrow> frames0 raw),
      PEER_MESSAGE_TYPES = (\<lambda>name.
         if name = ''helo'' then JNum 0 else if name = ''trusted'' then JNum 1
         else if name = ''confirm'' then JNum 2 else if name = ''peers'' then JNum 3
         else if name = ''message'' then JNum 4 else JUndefined),
      PEER_MESSAGE_STRING = digit_text\<rparr>"

text \<open>A connection object as the transport hands it over, and a peer that has none yet.\<close>

definition conn0 :: connection where
  "conn0 =
     \<lparr>trusted = False, connected = True, unconfirmedMessages = [],
      requireConfirmation_c = False, originalAddress = None, originalPort = None,
      parsedAddress = None, remoteAddress = JStr ''::ffff:10.0.0.2'', remotePort = JNum 5,
      active_c = None, peerPublicKey = None, peerPublicKeySignature = None,
      iv = None, key = None, peerIv = None, peerKey = None\<rparr>"

definition peerA :: peer where
  "peerA =
     \<lparr>peers = [], conns = (\<lambda>c. conn0), discoveryAddresses = [], discovering = False,
      requireConfirmation = True, signature = ''ring:KA'', publicKey = NodeRSA (JStr ''KA''),
      port = JNum 7, publicAddress = JStr ''10.0.0.1'', discoveryRange = Some [3, 5]\<rparr>"

text \<open>
  States the concrete peer passes through: after \<^verbatim>\<open>setupConnection\<close> of its first
  connection, after a verified HELO of peer B on it, after that connection closed
  normally, and (instead) after B's TRUSTED message.
\<close>

definition peerA_setup :: peer where
  "peerA_setup = fst (setupConnection env0 peerA 0 None)"

definition peerA_trusting :: peer where
  "peerA_trusting = fst (receive 0 env0 peerA_setup 0 ''HELO-B'')"

definition peerA_closed :: peer where
  "peerA_closed = fst (on_close env0 peerA_trusting 0 1000)"

definition peerA_connected :: peer where
  "peerA_connected = fst (receive 0 env0 peerA_trusting 0 ''TRUSTED-B'')"

text \<open>
  The connected peer after it broadcast the message \<open>messageM\<close> once, and after it
  broadcast the same message object a second time.
\<close>

definition peerA_sent_once :: peer where
  "peerA_sent_once = fst (broadcast env0 peerA_connected (OptMessage messageM))"

definition peerA_sent_twice :: peer where
  "peerA_sent_twice = fst (broadcast env0 peerA_sent_once (OptMessage messageM))"

text \<open>
  The message \<open>messageM\<close> as \<^verbatim>\<open>broadcast\<close> leaves its copy after signing and encrypting, and
  the copy of that copy which a retry makes and sends.
\<close>

definition sentM :: PeerMessage where
  "sentM = messageM\<lparr>header := (header messageM)\<lparr>hsignature := JStr ''sig:hello''\<rparr>,
                      body := JStr ''enc:hello''\<rparr>"

definition resentM :: PeerMessage where
  "resentM = messageM\<lparr>header := (header messageM)\<lparr>hsignature := JStr ''sig:enc:hello''\<rparr>,
                        body := JStr ''enc:enc:hello''\<rparr>"

text \<open>
  A second connection, from peer C at 10.0.0.3. The transport hands its object over while
  the first connection has not yet received a HELO (\<open>peerA_setup\<close>); C then completes the
  handshake (\<open>peerA_mixed\<close>: the first connection untrusted, the second trusted), and after
  it B does on the first connection (\<open>peerA_pair\<close>: both trusted).
\<close>

definition conn1 :: connection where
  "conn1 = conn0\<lparr>remoteAddress := JStr ''::ffff:10.0.0.3''\<rparr>"

definition peerA_second :: peer where
  "peerA_second =
     fst (setupConnection env0 (peerA_setup\<lparr>conns := (conns peerA_setup)(1 := conn1)\<rparr>) 1 None)"

definition peerA_second_trusting :: peer where
  "peerA_second_trusting = fst (receive 0 env0 peerA_second 1 ''HELO-C'')"

definition peerA_mixed :: peer where
  "peerA_mixed = fst (receive 0 env0 peerA_second_trusting 1 ''TRUSTED-C'')"





text \<open>The concrete peer with one candidate queued that names a host and no port.\<close>

definition peerA_queued :: peer where
  "peerA_queued =
     peerA\<lparr>discoveryAddresses := [JObj [(''address'', JStr ''hostb''), (''signature'', JNull)]]\<rparr>"

text \<open>
  The same peer during a discovery pass, and the peer during a pass whose queue holds the
  IPv6 loopback address, which has no port, before a candidate that has one.
\<close>

definition peerA_discovering :: peer where
  "peerA_discovering = peerA_queued\<lparr>discovering := True\<rparr>"

definition peerA_v6 :: peer where
  "peerA_v6 =
     peerA\<lparr>discoveryAddresses :=
             [JObj [(''address'', JStr ''::1''), (''signature'', JNull)],
              JObj [(''address'', JStr ''wss://hostb:3''), (''signature'', JNull)]],
           discovering := True\<rparr>"

section \<open>The concrete peer, evaluated\<close>

lemmas env0_simps = env0_def frames0_def heloA_def heloB_def heloX_def trustedB_def
  heloC_def trustedC_def confirmM_def dataX_def digit_text_def utc_now_def own_signature_def

lemma peerA_setup_eval:
  "peers peerA_setup = [\<lparr>request = None, connection = 0, created = 3000, active = 3000\<rparr>]"
  "conns peerA_setup 0 =
     conn0\<lparr>originalAddress := Some (JStr ''10.0.0.2''), originalPort := Some (JNum 5)\<rparr>"
  "signature peerA_setup = ''ring:KA''"
  "requireConfirmation peerA_setup = True"
  "discoveryAddresses peerA_setup = []"
  "discovering peerA_setup = False"
  "port peerA_setup = JNum 7"
  "publicAddress peerA_setup = JStr ''10.0.0.1''"
  by (simp_all add: peerA_setup_def setupConnection_def conn_update_def peerA_def conn0_def
      Let_def strip_ffff_def ffff_match_def is_f_def one_line_def line_terminator_def
      env0_simps helo_message_def)

lemma peerA_setup_touch:
  "touch_active env0 peerA_setup 0 (peers peerA_setup) = peers peerA_setup"
  by (simp add: peerA_setup_eval conn0_def env0_simps)

lemma peerA_trusting_eval:
  "peers peerA_trusting = [\<lparr>request = None, connection = 0, created = 3000, active = 3000\<rparr>]"
  "conns peerA_trusting 0 =
     conn0\<lparr>originalAddress := Some (JStr ''10.0.0.2''), originalPort := Some (JNum 5),
       trusted := True, peerPublicKey := Some (NodeRSA (JStr ''KB'')),
       peerPublicKeySignature := Some ''ring:KB'', iv := Some (replicate 16 (CHR ''r'')),
       key := Some (replicate 32 (CHR ''r''))\<rparr>"
  "signature peerA_trusting = ''ring:KA''"
  "requireConfirmation peerA_trusting = True"
  "discoveryAddresses peerA_trusting = []"
  "discovering peerA_trusting = False"
  by (simp_all add: peerA_trusting_def receive_def receive_helo_def helo_trust_def
      isOwnSignature_def getPeerList_def peerA_setup_eval peerA_setup_touch
      conn_update_def conn0_def Let_def env0_simps)

lemma peerA_closed_eval:
  "peers peerA_closed = [\<lparr>request = None, connection = 0, created = 3000, active = 3000\<rparr>]"
  "conns peerA_closed 0 =
     conn0\<lparr>originalAddress := Some (JStr ''10.0.0.2''), originalPort := Some (JNum 5),
       trusted := False, peerPublicKey := Some (NodeRSA (JStr ''KB'')),
       peerPublicKeySignature := Some ''ring:KB'', iv := Some (replicate 16 (CHR ''r'')),
       key := Some (replicate 32 (CHR ''r'')), active_c := Some 3000\<rparr>"
  by (simp_all add: peerA_closed_def on_close_def peerA_trusting_eval
      conn_update_def conn0_def Let_def env0_simps)

lemma peerA_closed_list:
  "getPeerList env0 peerA_closed JUndefined =
     Some [JObj [(''address'', JStr ''10.0.0.2:5''), (''signature'', JStr ''ring:KB''),
                 (''created'', JDate 3000), (''active'', JDate 3000),
                 (''trusted'', JBool False)]]"
  by (simp add: getPeerList_def peer_record_def has_colon_def peerA_closed_eval conn0_def
      Let_def env0_simps strip_ffff_def ffff_match_def)

section \<open>getPeerList: where an entry comes from\<close>

text \<open>
  Every row the loop adds is the record of a peer-table row whose connection carries a
  peer signature and an address, and whose signature is not among the omitted ones. The
  induction runs over the rows still to visit, for any list built so far.
\<close>

lemma getPeerList_loop_entries:
  "getPeerList_loop E s omit es acc = Some l \<Longrightarrow> r \<in> set l \<Longrightarrow>
   r \<in> set acc \<or>
   (\<exists>e\<in>set es. \<exists>b. peerPublicKeySignature (conns s (connection e)) = Some b
      \<and> originalAddress (conns s (connection e)) \<noteq> None
      \<and> JStr (toString_base64 E b) \<notin> set omit
      \<and> peer_record E s e (toString_base64 E b) = Some r)"
proof (induction es arbitrary: acc)
  case Nil
  then show ?case by simp
next
  case (Cons e es)
  show ?case
  proof (cases "peerPublicKeySignature (conns s (connection e))")
    case None
    with Cons.prems have "getPeerList_loop E s omit es acc = Some l" by simp
    from Cons.IH[OF this Cons.prems(2)] show ?thesis by auto
  next
    case (Some b)
    show ?thesis
    proof (cases "originalAddress (conns s (connection e)) = None
                  \<or> JStr (toString_base64 E b) \<in> set omit")
      case True
      with Some Cons.prems have "getPeerList_loop E s omit es acc = Some l"
        by (auto simp: Let_def split: if_splits)
      from Cons.IH[OF this Cons.prems(2)] show ?thesis by auto
    next
      case False
      with Some Cons.prems obtain r'
        where r': "peer_record E s e (toString_base64 E b) = Some r'"
          and loop: "getPeerList_loop E s omit es (acc @ [r']) = Some l"
        by (auto simp: Let_def split: option.splits if_splits)
      from Cons.IH[OF loop Cons.prems(2)] False Some r' show ?thesis by auto
    qed
  qed
qed

lemma peer_record_fields:
  "peer_record E s e g = Some r \<Longrightarrow>
   get r ''signature'' = Some (JStr g) \<and>
   get r ''trusted'' = Some (JBool (trusted (conns s (connection e))))"
  by (auto simp: peer_record_def Let_def split: option.splits jsv.splits)

text \<open>
  Claim C2, as the code has it. \<^verbatim>\<open>getPeerList\<close> does not test the trusted flag: it lists
  every row of the peer table whose connection has \<^verbatim>\<open>peerPublicKeySignature\<close> (set when
  a HELO was verified) and \<^verbatim>\<open>originalAddress\<close>. For every list it returns and every
  entry of it: the entry's signature is that connection's, it is not a member of the
  omitted signatures, and the entry's \<^verbatim>\<open>trusted\<close> field is the connection's trusted flag
  at the time of the call, whatever that flag is.
\<close>

theorem getPeerList_entry_provenance:
  assumes "getPeerList E s signaturesToOmit = Some l" and "r \<in> set l"
  shows "\<exists>e\<in>set (peers s). \<exists>b.
           peerPublicKeySignature (conns s (connection e)) = Some b
         \<and> originalAddress (conns s (connection e)) \<noteq> None
         \<and> get r ''signature'' = Some (JStr (toString_base64 E b))
         \<and> (\<forall>xs. signaturesToOmit = JArr xs \<longrightarrow> JStr (toString_base64 E b) \<notin> set xs)
         \<and> get r ''trusted'' = Some (JBool (trusted (conns s (connection e))))"
proof -
  let ?omit = "case signaturesToOmit of JArr xs \<Rightarrow> xs | _ \<Rightarrow> []"
  from assms have "getPeerList_loop E s ?omit (peers s) [] = Some l"
    by (simp add: getPeerList_def)
  from getPeerList_loop_entries[OF this assms(2)]
  obtain e b where e: "e \<in> set (peers s)"
    and b: "peerPublicKeySignature (conns s (connection e)) = Some b"
    and a: "originalAddress (conns s (connection e)) \<noteq> None"
    and o: "JStr (toString_base64 E b) \<notin> set ?omit"
    and r: "peer_record E s e (toString_base64 E b) = Some r"
    by auto
  from o have "\<forall>xs. signaturesToOmit = JArr xs \<longrightarrow> JStr (toString_base64 E b) \<notin> set xs"
    by auto
  with e b a peer_record_fields[OF r] show ?thesis by blast
qed

text \<open>
  The theorem at the concrete peer after its connection to B closed: the one entry listed
  comes from the row of connection 0.
\<close>

theorem getPeerList_entry_provenance_witness:
  "getPeerList env0 peerA_closed JUndefined =
     Some [JObj [(''address'', JStr ''10.0.0.2:5''), (''signature'', JStr ''ring:KB''),
                 (''created'', JDate 3000), (''active'', JDate 3000),
                 (''trusted'', JBool False)]]
   \<and> (\<exists>e\<in>set (peers peerA_closed). \<exists>b.
         peerPublicKeySignature (conns peerA_closed (connection e)) = Some b
       \<and> originalAddress (conns peerA_closed (connection e)) \<noteq> None
       \<and> get (JObj [(''address'', JStr ''10.0.0.2:5''), (''signature'', JStr ''ring:KB''),
                 (''created'', JDate 3000), (''active'', JDate 3000),
                 (''trusted'', JBool False)]) ''signature'' = Some (JStr (toString_base64 env0 b))
       \<and> (\<forall>xs. JUndefined = JArr xs \<longrightarrow> JStr (toString_base64 env0 b) \<notin> set xs)
       \<and> get (JObj [(''address'', JStr ''10.0.0.2:5''), (''signature'', JStr ''ring:KB''),
                 (''created'', JDate 3000), (''active'', JDate 3000),
                 (''trusted'', JBool False)]) ''trusted''
           = Some (JBool (trusted (conns peerA_closed (connection e)))))"
  using getPeerList_entry_provenance [OF peerA_closed_list,
      of "JObj [(''address'', JStr ''10.0.0.2:5''), (''signature'', JStr ''ring:KB''),
                 (''created'', JDate 3000), (''active'', JDate 3000),
                 (''trusted'', JBool False)]"] peerA_closed_list
  by simp

text \<open>
  Claim C2 as the specification states it fails. Peer A sets up a connection, verifies
  the HELO of B on it and then sees the connection close normally: the close handler
  clears the trusted flag, the row stays in the peer table, and \<^verbatim>\<open>getPeerList()\<close> still
  lists it, with \<^verbatim>\<open>trusted: false\<close>.
\<close>

theorem getPeerList_lists_untrusted:
  "getPeerList env0 peerA_closed JUndefined =
     Some [JObj [(''address'', JStr ''10.0.0.2:5''), (''signature'', JStr ''ring:KB''),
                 (''created'', JDate 3000), (''active'', JDate 3000),
                 (''trusted'', JBool False)]]
   \<and> map connection (peers peerA_closed) = [0]
   \<and> \<not> trusted (conns peerA_closed 0)"
  using peerA_closed_list by (simp add: peerA_closed_eval conn0_def)

lemma peerA_trusting_touch:
  "touch_active env0 peerA_trusting 0 (peers peerA_trusting) = peers peerA_trusting"
  by (simp add: peerA_trusting_eval conn0_def env0_simps)

lemma peerA_connected_eval:
  "peers peerA_connected = [\<lparr>request = None, connection = 0, created = 3000, active = 3000\<rparr>]"
  "conns peerA_connected 0 =
     conn0\<lparr>originalAddress := Some (JStr ''10.0.0.2''), originalPort := Some (JNum 6),
       trusted := True, peerPublicKey := Some (NodeRSA (JStr ''KB'')),
       peerPublicKeySignature := Some ''ring:KB'', iv := Some (replicate 16 (CHR ''r'')),
       key := Some (replicate 32 (CHR ''r'')), peerIv := Some ''ivB'', peerKey := Some ''keyB'',
       requireConfirmation_c := True\<rparr>"
  "signature peerA_connected = ''ring:KA''"
  "requireConfirmation peerA_connected = True"
  "discoveryAddresses peerA_connected = []"
  by (simp_all add: peerA_connected_def receive_def receive_trusted_def set_listening_def
      peerA_trusting_eval peerA_trusting_touch
      conn_update_def conn0_def Let_def env0_simps)

lemma peerA_connected_touch:
  "touch_active env0 peerA_connected 0 (peers peerA_connected) = peers peerA_connected"
  by (simp add: peerA_connected_eval conn0_def env0_simps)

lemma peerA_setup_outcome:
  "setupConnection env0 peerA 0 None =
     (peerA_setup, fst (snd (setupConnection env0 peerA 0 None)), Return RUndefined)"
proof -
  have "snd (snd (setupConnection env0 peerA 0 None)) = Return RUndefined"
    by (simp add: setupConnection_def conn_update_def peerA_def conn0_def Let_def)
  then show ?thesis
    by (metis peerA_setup_def prod.collapse)
qed

lemma env0_frames:
  "PeerMessage_from env0 (Txt ''HELO-A'') = Some heloA"
  "PeerMessage_from env0 (Txt ''HELO-B'') = Some heloB"
  "PeerMessage_from env0 (Txt ''HELO-X'') = Some heloX"
  "PeerMessage_from env0 (Txt ''TRUSTED-B'') = Some trustedB"
  "PeerMessage_from env0 (Txt ''CONFIRM-M'') = Some confirmM"
  "PeerMessage_from env0 (Txt ''DATA-X'') = Some dataX"
  "PeerMessage_from env0 (PM m) = Some m"
  by (simp_all add: env0_def frames0_def)

lemma env0_types:
  "PEER_MESSAGE_TYPES env0 ''helo'' = JNum 0"
  "PEER_MESSAGE_TYPES env0 ''trusted'' = JNum 1"
  "PEER_MESSAGE_TYPES env0 ''confirm'' = JNum 2"
  "PEER_MESSAGE_TYPES env0 ''peers'' = JNum 3"
  "PEER_MESSAGE_TYPES env0 ''message'' = JNum 4"
  by (simp_all add: env0_def)

lemma env0_base64:
  "toString_base64 env0 b = b"
  "Buffer_from_base64 env0 (JStr t) = Some t"
  "NodeRSA_new env0 (JStr t) = Some (NodeRSA (JStr t))"
  "ring_verify env0 (JStr t) sg = Some (sg = ''ring:'' @ t)"
  by (simp_all add: env0_def)

lemma peerA_setup_own:
  "isOwnSignature env0 peerA_setup (JStr ''forged'') = Some False"
  "isOwnSignature env0 peerA_setup (JStr ''ring:KA'') = Some True"
  by (simp_all add: isOwnSignature_def own_signature_def env0_base64 peerA_setup_eval)

section \<open>Facts about receive used by several claims\<close>

lemma touch_active_connections:
  "map connection (touch_active E s c ps) = map connection ps"
  by (induction ps) (auto split: option.splits)

lemma own_signature_peers: "own_signature E (s\<lparr>peers := ps\<rparr>) = own_signature E s"
  by (simp add: own_signature_def)

lemma isOwnSignature_peers:
  "isOwnSignature E (s\<lparr>peers := ps\<rparr>) v = isOwnSignature E s v"
  by (simp add: isOwnSignature_def own_signature_peers cong: jsv.case_cong option.case_cong)

lemma setupConnection_peers:
  "setupConnection E s0 c req = (s, a, Return r) \<Longrightarrow>
   \<exists>t. peers s = peers s0 @ [\<lparr>request = req, connection = c, created = t, active = t\<rparr>]"
  by (auto simp: setupConnection_def Let_def conn_update_def split: option.splits if_splits)

section \<open>HELO: a signature that does not verify, and the own signature\<close>

text \<open>
  Claim C1, as the code has it. For every incoming HELO that parses, is not the receiver's
  own signature, and whose ring-signature verification returns false, \<^verbatim>\<open>receive\<close>
  sends no reply and does not close the connection: it produces no action at all and
  leaves every connection object as it was (open, its trusted flag unchanged). Only the
  \<^verbatim>\<open>active\<close> time of a peer-table row is refreshed.
\<close>

theorem receive_helo_unverified:
  assumes "raw \<noteq> []"
    and "PeerMessage_from E (Txt raw) = Some message"
    and "loose_eq E (htype (header message)) (PEER_MESSAGE_TYPES E ''helo'')"
    and "get (body message) ''publicKey'' = Some pem"
    and "NodeRSA_new E pem = Some k"
    and "get (body message) ''signature'' = Some g"
    and "Buffer_from_base64 E g = Some b"
    and "isOwnSignature E s (JStr (toString_base64 E b)) = Some False"
    and "ring_verify E pem b = Some False"
  shows "receive n E s c raw =
           (s\<lparr>peers := touch_active E s c (peers s)\<rparr>, [], Return RUndefined)
       \<and> conns (fst (receive n E s c raw)) = conns s
       \<and> map connection (peers (fst (receive n E s c raw))) = map connection (peers s)"
proof -
  let ?s1 = "s\<lparr>peers := touch_active E s c (peers s)\<rparr>"
  have "receive_helo E ?s1 c message = (?s1, [], Return RUndefined)"
    using assms(4-9) by (simp add: receive_helo_def isOwnSignature_peers)
  then have "receive n E s c raw = (?s1, [], Return RUndefined)"
    using assms(1-3) by (simp add: receive_def Let_def)
  then show ?thesis by (simp add: touch_active_connections)
qed

text \<open>The theorem at the concrete peer, on the HELO with the forged signature.\<close>

theorem receive_helo_unverified_witness:
  "PeerMessage_from env0 (Txt ''HELO-X'') = Some heloX
   \<and> isOwnSignature env0 peerA_setup (JStr ''forged'') = Some False
   \<and> ring_verify env0 (JStr ''KX'') ''forged'' = Some False
   \<and> receive 0 env0 peerA_setup 0 ''HELO-X'' =
        (peerA_setup\<lparr>peers := touch_active env0 peerA_setup 0 (peers peerA_setup)\<rparr>, [],
         Return RUndefined)
   \<and> conns (fst (receive 0 env0 peerA_setup 0 ''HELO-X'')) = conns peerA_setup"
proof -
  have ty: "loose_eq env0 (htype (header heloX)) (PEER_MESSAGE_TYPES env0 ''helo'')"
    by (simp add: env0_types heloX_def)
  have pk: "get (body heloX) ''publicKey'' = Some (JStr ''KX'')"
    and sg: "get (body heloX) ''signature'' = Some (JStr ''forged'')"
    by (simp_all add: heloX_def)
  have own: "isOwnSignature env0 peerA_setup (JStr (toString_base64 env0 ''forged'')) = Some False"
    by (simp add: env0_base64 peerA_setup_own)
  have bad: "ring_verify env0 (JStr ''KX'') ''forged'' = Some False"
    by (simp add: env0_base64)
  from receive_helo_unverified [where n = 0 and c = 0, OF _ env0_frames(3) ty pk
      env0_base64(3) sg env0_base64(2) own bad]
  show ?thesis using env0_frames(3) peerA_setup_own(1) bad by simp
qed

lemma peerA_setup_heloX:
  "snd (receive 0 env0 peerA_setup 0 ''HELO-X'') = ([], Return RUndefined)"
  by (simp add: receive_def receive_helo_def Let_def env0_frames env0_types env0_base64
      heloX_def peerA_setup_own isOwnSignature_peers)

text \<open>
  Claim C1 as the specification states it fails. Peer A has set up a connection and
  receives on it a HELO whose signature the ring key does not verify: \<^verbatim>\<open>receive\<close>
  returns without calling \<^verbatim>\<open>connection.close()\<close>.
\<close>

theorem receive_helo_unverified_not_closed:
  "ring_verify env0 (JStr ''KX'') ''forged'' = Some False
   \<and> PeerMessage_from env0 (Txt ''HELO-X'') = Some heloX
   \<and> snd (receive 0 env0 peerA_setup 0 ''HELO-X'') = ([], Return RUndefined)
   \<and> Close 0 \<notin> set (fst (snd (receive 0 env0 peerA_setup 0 ''HELO-X'')))"
  using peerA_setup_heloX by (simp add: env0_frames env0_base64)

text \<open>
  Claim C3, as the code has it. \<^verbatim>\<open>setupConnection\<close> pushes the connection's row on
  \<^verbatim>\<open>self.peers\<close> before any HELO arrives, and no code removes a row. When a HELO
  carrying the receiver's own ring signature then arrives on that connection,
  \<^verbatim>\<open>receive\<close> calls \<^verbatim>\<open>connection.close()\<close>, sends nothing and leaves the connection
  untrusted as it was; the peer table keeps the row, so it is one row longer than before
  the connection was set up.
\<close>

theorem receive_helo_self:
  assumes "setupConnection E s0 c req = (s, a0, Return r0)"
    and "raw \<noteq> []"
    and "PeerMessage_from E (Txt raw) = Some message"
    and "loose_eq E (htype (header message)) (PEER_MESSAGE_TYPES E ''helo'')"
    and "get (body message) ''publicKey'' = Some pem"
    and "NodeRSA_new E pem = Some k"
    and "get (body message) ''signature'' = Some g"
    and "Buffer_from_base64 E g = Some b"
    and "isOwnSignature E s (JStr (toString_base64 E b)) = Some True"
  shows "receive n E s c raw =
           (s\<lparr>peers := touch_active E s c (peers s)\<rparr>, [Close c], Return RUndefined)
       \<and> conns (fst (receive n E s c raw)) = conns s
       \<and> map connection (peers (fst (receive n E s c raw))) = map connection (peers s0) @ [c]
       \<and> length (peers (fst (receive n E s c raw))) = Suc (length (peers s0))"
proof -
  let ?s1 = "s\<lparr>peers := touch_active E s c (peers s)\<rparr>"
  have "receive_helo E ?s1 c message = (?s1, [Close c], Return RUndefined)"
    using assms(5-9) by (simp add: receive_helo_def isOwnSignature_peers)
  then have eq: "receive n E s c raw = (?s1, [Close c], Return RUndefined)"
    using assms(2-4) by (simp add: receive_def Let_def)
  from setupConnection_peers[OF assms(1)]
  have "map connection (peers s) = map connection (peers s0) @ [c]" by auto
  then have m: "map connection (peers ?s1) = map connection (peers s0) @ [c]"
    by (simp add: touch_active_connections)
  from m have "length (map connection (peers ?s1)) = Suc (length (peers s0))" by simp
  then have "length (peers ?s1) = Suc (length (peers s0))" by (simp only: length_map)
  with eq m show ?thesis by simp
qed

text \<open>The theorem at the concrete peer, on a HELO with its own signature.\<close>

theorem receive_helo_self_witness:
  "PeerMessage_from env0 (Txt ''HELO-A'') = Some heloA
   \<and> isOwnSignature env0 peerA_setup (JStr ''ring:KA'') = Some True
   \<and> receive 0 env0 peerA_setup 0 ''HELO-A'' =
        (peerA_setup\<lparr>peers := touch_active env0 peerA_setup 0 (peers peerA_setup)\<rparr>,
         [Close 0], Return RUndefined)
   \<and> map connection (peers (fst (receive 0 env0 peerA_setup 0 ''HELO-A''))) = [0]
   \<and> length (peers (fst (receive 0 env0 peerA_setup 0 ''HELO-A''))) = 1"
proof -
  have ty: "loose_eq env0 (htype (header heloA)) (PEER_MESSAGE_TYPES env0 ''helo'')"
    by (simp add: env0_types heloA_def)
  have pk: "get (body heloA) ''publicKey'' = Some (JStr ''KA'')"
    and sg: "get (body heloA) ''signature'' = Some (JStr ''ring:KA'')"
    by (simp_all add: heloA_def)
  have own: "isOwnSignature env0 peerA_setup (JStr (toString_base64 env0 ''ring:KA'')) = Some True"
    by (simp add: env0_base64 peerA_setup_own)
  from receive_helo_self [where n = 0, OF peerA_setup_outcome _ env0_frames(1) ty pk
      env0_base64(3) sg env0_base64(2) own]
  show ?thesis
    using env0_frames(1) peerA_setup_own(2)
    by (simp add: peerA_def peerA_setup_touch peerA_setup_eval)
qed

lemma peerA_setup_heloA:
  "receive 0 env0 peerA_setup 0 ''HELO-A'' = (peerA_setup, [Close 0], Return RUndefined)"
  by (simp add: receive_def receive_helo_def Let_def env0_frames env0_types env0_base64
      heloA_def peerA_setup_own peerA_setup_touch)

text \<open>
  Claim C3 as the specification states it fails. Peer A starts with an empty peer table,
  sets up a connection and receives its own HELO on it: the connection is closed, and the
  peer table has one row, also after the transport has reported the close (code 1000).
\<close>

theorem receive_helo_self_keeps_row:
  "peers peerA = []
   \<and> peerA_setup = fst (setupConnection env0 peerA 0 None)
   \<and> snd (receive 0 env0 peerA_setup 0 ''HELO-A'') = ([Close 0], Return RUndefined)
   \<and> length (peers (fst (receive 0 env0 peerA_setup 0 ''HELO-A''))) = 1
   \<and> length (peers (fst (on_close env0 (fst (receive 0 env0 peerA_setup 0 ''HELO-A'')) 0 1000))) = 1"
proof -
  have a: "peers peerA = []" by (simp add: peerA_def)
  have b: "peerA_setup = fst (setupConnection env0 peerA 0 None)" by (simp add: peerA_setup_def)
  have c: "snd (receive 0 env0 peerA_setup 0 ''HELO-A'') = ([Close 0], Return RUndefined)"
    by (simp add: peerA_setup_heloA)
  have d: "length (peers (fst (receive 0 env0 peerA_setup 0 ''HELO-A''))) = 1"
    by (simp add: peerA_setup_heloA peerA_setup_eval)
  have e: "length (peers (fst (on_close env0
              (fst (receive 0 env0 peerA_setup 0 ''HELO-A'')) 0 1000))) = 1"
    by (simp add: peerA_setup_heloA peerA_setup_eval on_close_def conn_update_def Let_def)
  show ?thesis by (intro conjI a b c d e)
qed

section \<open>Frames on a trusted connection: CONFIRM ignored, data frames dropped\<close>

text \<open>
  Claim C9. On a trusted connection, when the local peer's own \<^verbatim>\<open>requireConfirmation\<close> is
  false, a CONFIRM frame is discarded at once: \<^verbatim>\<open>receive\<close> returns without an action and
  without touching any connection, in particular that connection's
  \<^verbatim>\<open>unconfirmedMessages\<close>. The test reads the peer's flag, not the one the connection
  recorded for the remote side (\<open>requireConfirmation_c\<close>), which is arbitrary here.
\<close>

theorem receive_confirm_ignored:
  assumes "raw \<noteq> []"
    and "PeerMessage_from E (Txt raw) = Some message"
    and "\<not> loose_eq E (htype (header message)) (PEER_MESSAGE_TYPES E ''helo'')"
    and "trusted (conns s c)"
    and "\<not> loose_eq E (htype (header message)) (PEER_MESSAGE_TYPES E ''trusted'')"
    and "loose_eq E (htype (header message)) (PEER_MESSAGE_TYPES E ''confirm'')"
    and "\<not> requireConfirmation s"
  shows "receive n E s c raw =
           (s\<lparr>peers := touch_active E s c (peers s)\<rparr>, [], Return RUndefined)
       \<and> conns (fst (receive n E s c raw)) = conns s
       \<and> unconfirmedMessages (conns (fst (receive n E s c raw)) c)
           = unconfirmedMessages (conns s c)"
proof -
  let ?s1 = "s\<lparr>peers := touch_active E s c (peers s)\<rparr>"
  have "receive_confirm E ?s1 c message = (?s1, [], Return RUndefined)"
    using assms(7) by (simp add: receive_confirm_def)
  then have "receive n E s c raw = (?s1, [], Return RUndefined)"
    using assms(1-6) by (simp add: receive_def Let_def)
  then show ?thesis by simp
qed

text \<open>
  The theorem at the concrete peer, connected to B, with its own flag switched off while
  the connection's flag (B asked for confirmations) is on.
\<close>

theorem receive_confirm_ignored_witness:
  "PeerMessage_from env0 (Txt ''CONFIRM-M'') = Some confirmM
   \<and> trusted (conns (peerA_connected\<lparr>requireConfirmation := False\<rparr>) 0)
   \<and> requireConfirmation_c (conns (peerA_connected\<lparr>requireConfirmation := False\<rparr>) 0)
   \<and> snd (receive 0 env0 (peerA_connected\<lparr>requireConfirmation := False\<rparr>) 0 ''CONFIRM-M'')
        = ([], Return RUndefined)
   \<and> conns (fst (receive 0 env0 (peerA_connected\<lparr>requireConfirmation := False\<rparr>) 0 ''CONFIRM-M''))
        = conns peerA_connected"
proof -
  let ?s = "peerA_connected\<lparr>requireConfirmation := False\<rparr>"
  have t: "trusted (conns ?s 0)" and rc: "requireConfirmation_c (conns ?s 0)"
    by (simp_all add: peerA_connected_eval conn0_def)
  have ty: "\<not> loose_eq env0 (htype (header confirmM)) (PEER_MESSAGE_TYPES env0 ''helo'')"
    "\<not> loose_eq env0 (htype (header confirmM)) (PEER_MESSAGE_TYPES env0 ''trusted'')"
    "loose_eq env0 (htype (header confirmM)) (PEER_MESSAGE_TYPES env0 ''confirm'')"
    by (simp_all add: env0_types confirmM_def)
  have off: "\<not> requireConfirmation ?s" by simp
  from receive_confirm_ignored [where n = 0, OF _ env0_frames(5) ty(1) t ty(2) ty(3) off]
  show ?thesis using env0_frames(5) t rc by simp
qed

text \<open>
  Claim C6. For every frame received on a trusted connection whose type is none of HELO,
  TRUSTED, CONFIRM and PEERS: if decryption with the session key and IV fails, or the body
  signature does not verify against the peer's public key (the verification returns
  false or throws), or the plaintext does not deserialise, then \<^verbatim>\<open>receive\<close> drops the
  frame. It emits no event, sends nothing and does not close: the action list is empty,
  and every connection object is as before (in particular still trusted).
\<close>

theorem receive_data_dropped:
  assumes "raw \<noteq> []"
    and "PeerMessage_from E (Txt raw) = Some message"
    and "\<not> loose_eq E (htype (header message)) (PEER_MESSAGE_TYPES E ''helo'')"
    and "trusted (conns s c)"
    and "\<not> loose_eq E (htype (header message)) (PEER_MESSAGE_TYPES E ''trusted'')"
    and "\<not> loose_eq E (htype (header message)) (PEER_MESSAGE_TYPES E ''confirm'')"
    and "\<not> loose_eq E (htype (header message)) (PEER_MESSAGE_TYPES E ''peers'')"
    and "Buffer_from_base64 E (body message) = Some enc"
    and "Buffer_from_base64 E (hsignature (header message)) = Some sg"
    and "peerPublicKey (conns s c) = Some pk"
    and "aes_decrypt E (peerKey (conns s c)) (peerIv (conns s c)) enc = None
         \<or> (\<exists>dec. aes_decrypt E (peerKey (conns s c)) (peerIv (conns s c)) enc = Some dec
                \<and> (key_verify E pk dec sg \<noteq> Some True \<or> JSON_parse_utf8 E dec = None))"
  shows "receive n E s c raw =
           (s\<lparr>peers := touch_active E s c (peers s)\<rparr>, [], Return RUndefined)
       \<and> conns (fst (receive n E s c raw)) = conns s
       \<and> map connection (peers (fst (receive n E s c raw))) = map connection (peers s)"
proof -
  let ?s1 = "s\<lparr>peers := touch_active E s c (peers s)\<rparr>"
  have "open_frame E (conns s c) message = None"
    using assms(8-11) by (auto simp: open_frame_def split: option.splits bool.splits)
  then have "receive_data E ?s1 c message = (?s1, [], Return RUndefined)"
    by (simp add: receive_data_def)
  then have "receive n E s c raw = (?s1, [], Return RUndefined)"
    using assms(1-7) by (simp add: receive_def Let_def)
  then show ?thesis by (simp add: touch_active_connections)
qed

text \<open>
  The theorem at the concrete peer, connected to B, on a frame whose body does not
  decrypt under B's session key.
\<close>

theorem receive_data_dropped_witness:
  "PeerMessage_from env0 (Txt ''DATA-X'') = Some dataX
   \<and> trusted (conns peerA_connected 0)
   \<and> aes_decrypt env0 (peerKey (conns peerA_connected 0)) (peerIv (conns peerA_connected 0))
        ''garbled'' = None
   \<and> snd (receive 0 env0 peerA_connected 0 ''DATA-X'') = ([], Return RUndefined)
   \<and> conns (fst (receive 0 env0 peerA_connected 0 ''DATA-X'')) = conns peerA_connected"
proof -
  have t: "trusted (conns peerA_connected 0)"
    and pk: "peerPublicKey (conns peerA_connected 0) = Some (NodeRSA (JStr ''KB''))"
    by (simp_all add: peerA_connected_eval conn0_def)
  have ty: "\<not> loose_eq env0 (htype (header dataX)) (PEER_MESSAGE_TYPES env0 ''helo'')"
    "\<not> loose_eq env0 (htype (header dataX)) (PEER_MESSAGE_TYPES env0 ''trusted'')"
    "\<not> loose_eq env0 (htype (header dataX)) (PEER_MESSAGE_TYPES env0 ''confirm'')"
    "\<not> loose_eq env0 (htype (header dataX)) (PEER_MESSAGE_TYPES env0 ''peers'')"
    by (simp_all add: env0_types dataX_def)
  have enc: "Buffer_from_base64 env0 (body dataX) = Some ''garbled''"
    and sg: "Buffer_from_base64 env0 (hsignature (header dataX)) = Some ''sig:hello''"
    by (simp_all add: env0_base64 dataX_def)
  have bad: "aes_decrypt env0 (peerKey (conns peerA_connected 0))
               (peerIv (conns peerA_connected 0)) ''garbled'' = None"
    by (simp add: peerA_connected_eval conn0_def env0_def)
  from receive_data_dropped [where n = 0, OF _ env0_frames(6) ty(1) t ty(2) ty(3) ty(4)
      enc sg pk disjI1 [OF bad]]
  show ?thesis using env0_frames(6) t bad by simp
qed

section \<open>Frame properties: what each operation leaves alone\<close>

text \<open>
  The discovery engine changes nothing but the queue; \<^verbatim>\<open>broadcast\<close> changes nothing but
  the \<^verbatim>\<open>unconfirmedMessages\<close> lists; of all branches of \<^verbatim>\<open>receive\<close> only a verified
  HELO writes \<^verbatim>\<open>peerPublicKeySignature\<close>.
\<close>

lemma conn_update_conns:
  "conns (conn_update c f s) c' = (if c' = c then f (conns s c) else conns s c')"
  by (simp add: conn_update_def)

lemma enqueue_candidate_conns: "conns (fst (enqueue_candidate E s d)) = conns s"
  by (simp add: enqueue_candidate_def Let_def split: option.splits)

lemma expand_range_conns: "conns (fst (expand_range E mk ports s)) = conns s"
proof (induction ports arbitrary: s)
  case Nil
  then show ?case by simp
next
  case (Cons i ports)
  obtain s' ok where e: "enqueue_candidate E s (mk (JNum i)) = (s', ok)"
    by (cases "enqueue_candidate E s (mk (JNum i))")
  then have "conns s' = conns s" using enqueue_candidate_conns[of E s "mk (JNum i)"] by simp
  with e Cons.IH[of s'] show ?case by (cases ok) simp_all
qed

lemma expand_ports_conns: "conns (fst (expand_ports E mk s)) = conns s"
  by (simp add: expand_ports_def expand_range_conns enqueue_candidate_conns
      split: option.splits list.splits)

lemma step_of_pair:
  "(case x of (s', True) \<Rightarrow> Expanded s' | (s', False) \<Rightarrow> Failed s')
     = (if snd x then Expanded (fst x) else Failed (fst x))"
  by (cases x; cases "snd x") auto

lemma candidate_step_conns:
  "candidate_step E s p = Expanded s' \<Longrightarrow> conns s' = conns s"
  "candidate_step E s p = Dialling s' a \<Longrightarrow> conns s' = conns s"
  "candidate_step E s p = Failed s' \<Longrightarrow> conns s' = conns s"
  by (auto simp: candidate_step_def Let_def step_of_pair expand_ports_conns
      split: option.splits jsv.splits if_splits)

declare discoverOne.simps [simp del] discover_next.simps [simp del]

lemma discoverOne_conns: "discoverOne n E s = (s', a, r) \<Longrightarrow> conns s' = conns s"
proof (induction n arbitrary: s s' a r)
  case 0
  then show ?case by (simp add: discoverOne.simps)
next
  case (Suc n)
  have nxt: "\<And>s s' a r. discover_next n E s = (s', a, r) \<Longrightarrow> conns s' = conns s"
    using Suc.IH by (auto simp: discover_next.simps split: if_splits)
  from Suc.prems show ?case
    by (auto simp: discoverOne.simps Let_def split: list.splits option.splits prod.splits completion.splits
        step.splits if_splits dest!: nxt candidate_step_conns)
qed

lemma discover_next_conns: "discover_next n E s = (s', a, r) \<Longrightarrow> conns s' = conns s"
  using discoverOne_conns by (auto simp: discover_next.simps split: if_splits)

lemma discover_conns: "discover n E s = (s', a, r) \<Longrightarrow> conns s' = conns s"
  by (auto simp: discover_def split: if_splits prod.splits dest!: discoverOne_conns)

lemma gossip_entry_conns: "conns (fst (gossip_entry E s e)) = conns s"
  by (simp add: gossip_entry_def split: option.splits jsv.splits bool.splits)

lemma gossip_loop_conns: "gossip_loop E es s = (s', ok) \<Longrightarrow> conns s' = conns s"
proof (induction es arbitrary: s)
  case Nil
  then show ?case by simp
next
  case (Cons e es)
  obtain s1 ok1 where g: "gossip_entry E s e = (s1, ok1)" by (cases "gossip_entry E s e")
  then have "conns s1 = conns s" using gossip_entry_conns[of E s e] by simp
  with g Cons show ?case by (cases ok1) auto
qed

lemma set_listening_signature:
  "set_listening E s c b = (s', ok) \<Longrightarrow>
   peerPublicKeySignature (conns s' x) = peerPublicKeySignature (conns s x)"
  by (auto simp: set_listening_def conn_update_conns Let_def
      split: option.splits jsv.splits if_splits)

lemma broadcast_one_frame:
  "broadcast_one E s c m = (s', a, r) \<Longrightarrow>
   peers s' = peers s \<and> requireConfirmation s' = requireConfirmation s
   \<and> (\<forall>x. \<exists>ms. conns s' x = (conns s x)\<lparr>unconfirmedMessages := ms\<rparr>)"
proof -
  have keep: "\<And>k. \<exists>ms. k = k\<lparr>unconfirmedMessages := ms\<rparr>"
    by (rule_tac x = "unconfirmedMessages k" in exI) simp
  assume "broadcast_one E s c m = (s', a, r)"
  then show ?thesis
    using keep
    by (auto simp: broadcast_one_def Let_def conn_update_def
        split: if_splits option.splits bmsg.splits prod.splits)
qed

lemma broadcast_loop_frame:
  "broadcast_loop E m cs s = (s', a, r) \<Longrightarrow>
   peers s' = peers s \<and> requireConfirmation s' = requireConfirmation s
   \<and> (\<forall>x. \<exists>ms. conns s' x = (conns s x)\<lparr>unconfirmedMessages := ms\<rparr>)"
proof (induction cs arbitrary: s s' a r)
  case Nil
  have "\<And>k. \<exists>ms. k = k\<lparr>unconfirmedMessages := ms\<rparr>"
    by (rule_tac x = "unconfirmedMessages k" in exI) simp
  with Nil show ?case by auto
next
  case (Cons c cs)
  obtain s1 a1 r1 where one: "broadcast_one E s c m = (s1, a1, r1)"
    by (cases "broadcast_one E s c m") auto
  note f1 = broadcast_one_frame[OF one]
  show ?case
  proof (cases r1)
    case (Return v)
    obtain s2 a2 r2 where rest: "broadcast_loop E m cs s1 = (s2, a2, r2)"
      by (cases "broadcast_loop E m cs s1") auto
    note f2 = Cons.IH[OF rest]
    from Cons.prems one Return rest have "s' = s2" by simp
    moreover have "\<forall>x. \<exists>ms. conns s2 x = (conns s x)\<lparr>unconfirmedMessages := ms\<rparr>"
    proof
      fix x
      from f1 obtain ms1 where "conns s1 x = (conns s x)\<lparr>unconfirmedMessages := ms1\<rparr>" by blast
      moreover from f2 obtain ms2 where "conns s2 x = (conns s1 x)\<lparr>unconfirmedMessages := ms2\<rparr>"
        by blast
      ultimately have "conns s2 x = (conns s x)\<lparr>unconfirmedMessages := ms2\<rparr>" by simp
      then show "\<exists>ms. conns s2 x = (conns s x)\<lparr>unconfirmedMessages := ms\<rparr>" ..
    qed
    ultimately show ?thesis using f1 f2 by simp
  next
    case Throw
    with Cons.prems one have "s' = s1" by simp
    with f1 show ?thesis by simp
  next
    case OutOfFuel
    with Cons.prems one have "s' = s1" by simp
    with f1 show ?thesis by simp
  qed
qed

lemma broadcast_frame:
  "broadcast E s options = (s', a, r) \<Longrightarrow>
   peers s' = peers s \<and> requireConfirmation s' = requireConfirmation s
   \<and> (\<forall>x. \<exists>ms. conns s' x = (conns s x)\<lparr>unconfirmedMessages := ms\<rparr>)"
proof -
  have keep: "\<And>k. \<exists>ms. k = k\<lparr>unconfirmedMessages := ms\<rparr>"
    by (rule_tac x = "unconfirmedMessages k" in exI) simp
  assume "broadcast E s options = (s', a, r)"
  then show ?thesis
    using keep
    by (auto simp: broadcast_def simp del: broadcast_loop.simps
        split: if_splits option.splits bval.splits dest!: broadcast_loop_frame)
qed

lemma receive_trusted_signature:
  assumes "receive_trusted n E s c m = (s', a, r)"
  shows "peerPublicKeySignature (conns s' x) = peerPublicKeySignature (conns s x)"
proof -
  let ?b = "body m"
  let ?iv = "Option.bind (Option.bind (get ?b ''iv'') (Buffer_from_base64 E)) (private_decrypt E)"
  let ?key = "Option.bind (Option.bind (get ?b ''key'') (Buffer_from_base64 E)) (private_decrypt E)"
  show ?thesis
  proof (cases "hasOwnProperty ?b ''iv'' = Some True \<and> hasOwnProperty ?b ''key'' = Some True
                \<and> ?iv \<noteq> None")
    case False
    with assms have "s' = s"
      by (auto simp: receive_trusted_def Let_def split: option.splits if_splits)
    then show ?thesis by simp
  next
    case True
    then obtain peerIv' where iv: "?iv = Some peerIv'" by auto
    let ?s1 = "conn_update c (\<lambda>k. k\<lparr>peerIv := Some peerIv'\<rparr>) s"
    show ?thesis
    proof (cases ?key)
      case None
      with assms True iv have "s' = ?s1" by (simp add: receive_trusted_def Let_def)
      then show ?thesis by (simp add: conn_update_conns)
    next
      case (Some peerKey')
      let ?s2 = "conn_update c (\<lambda>k. k\<lparr>peerKey := Some peerKey'\<rparr>) ?s1"
      define s3 where "s3 = (case get ?b ''requireConfirmation'' of
                  Some (JBool rc) \<Rightarrow>
                    if hasOwnProperty ?b ''requireConfirmation'' = Some True
                    then conn_update c (\<lambda>k. k\<lparr>requireConfirmation_c := rc\<rparr>) ?s2 else ?s2
                | _ \<Rightarrow> ?s2)"
      have k3: "peerPublicKeySignature (conns s3 x) = peerPublicKeySignature (conns s x)"
        by (simp add: s3_def conn_update_conns split: option.splits jsv.splits)
      obtain s4 ok where l: "set_listening E s3 c ?b = (s4, ok)"
        by (cases "set_listening E s3 c ?b")
      from set_listening_signature[OF l] k3
      have k4: "peerPublicKeySignature (conns s4 x) = peerPublicKeySignature (conns s x)" by simp
      define tail where "tail =
             (case get ?b ''peers'' of
                Some (JArr ps) \<Rightarrow>
                  if hasOwnProperty ?b ''peers'' = Some True then
                    (case gossip_loop E ps s4 of
                       (s5, False) \<Rightarrow> (s5, [Emit ''connection'' None (Some c)], Throw)
                     | (s5, True) \<Rightarrow>
                         if length (discoveryAddresses s5) > length (discoveryAddresses s4)
                         then (case discover n E s5 of
                                 (s6, a6, Return r) \<Rightarrow> (s6, [Emit ''connection'' None (Some c)] @ a6, Return RUndefined)
                               | (s6, a6, r6) \<Rightarrow> (s6, [Emit ''connection'' None (Some c)] @ a6, r6))
                         else (s5, [Emit ''connection'' None (Some c)], Return RUndefined))
                  else (s4, [Emit ''connection'' None (Some c)], Return RUndefined)
              | _ \<Rightarrow> (s4, [Emit ''connection'' None (Some c)], Return RUndefined))"
      have kt: "conns (fst tail) = conns s4"
        by (auto simp: tail_def split: option.splits jsv.splits prod.splits bool.splits
            completion.splits dest!: gossip_loop_conns discover_conns)
      have "receive_trusted n E s c m =
              (if ok then tail else (s4, [Emit ''connection'' None (Some c)], Throw))"
        using True iv Some l
        by (simp add: receive_trusted_def Let_def s3_def[symmetric] tail_def[symmetric])
      with assms have "s' = (if ok then fst tail else s4)" by (auto split: if_splits)
      with kt k4 show ?thesis by (simp split: if_splits)
    qed
  qed
qed

lemma receive_confirm_signature:
  "receive_confirm E s c m = (s', a, r) \<Longrightarrow>
   peerPublicKeySignature (conns s' x) = peerPublicKeySignature (conns s x)"
  by (auto simp: receive_confirm_def conn_update_conns split: if_splits option.splits prod.splits)

lemma receive_peers_signature:
  "receive_peers E s c = (s', a, r) \<Longrightarrow>
   peerPublicKeySignature (conns s' x) = peerPublicKeySignature (conns s x)"
  by (auto simp: receive_peers_def Let_def split: option.splits)

lemma receive_data_signature:
  assumes "receive_data E s c m = (s', a, r)"
  shows "peerPublicKeySignature (conns s' x) = peerPublicKeySignature (conns s x)"
proof (cases "open_frame E (conns s c) m")
  case None
  with assms show ?thesis by (simp add: receive_data_def)
next
  case (Some b)
  let ?m = "m\<lparr>body := b\<rparr>"
  show ?thesis
  proof (cases "requireConfirmation_c (conns s c)")
    case False
    with assms Some show ?thesis by (simp add: receive_data_def Let_def)
  next
    case True
    obtain s1 a1 r1
      where bc: "broadcast E s (OptObject (Some (VMsg (confirmationMsg E ?m))) (Some c)) = (s1, a1, r1)"
      by (cases "broadcast E s (OptObject (Some (VMsg (confirmationMsg E ?m))) (Some c))") auto
    from broadcast_frame[OF bc] obtain ms
      where "conns s1 x = (conns s x)\<lparr>unconfirmedMessages := ms\<rparr>" by blast
    then have "peerPublicKeySignature (conns s1 x) = peerPublicKeySignature (conns s x)" by simp
    moreover from assms Some True bc have "s' = s1"
      by (cases r1) (simp_all add: receive_data_def Let_def)
    ultimately show ?thesis by simp
  qed
qed

lemma helo_trust_signature:
  "helo_trust E s c k b' = (s', a, r) \<Longrightarrow>
   peerPublicKeySignature (conns s' x) =
     (if x = c then Some b' else peerPublicKeySignature (conns s x))"
  by (auto simp: helo_trust_def Let_def conn_update_conns split: option.splits)

lemma receive_helo_signature:
  assumes "receive_helo E s c m = (s', a, r)"
    and "peerPublicKeySignature (conns s x) = None"
    and "peerPublicKeySignature (conns s' x) = Some b"
  shows "x = c \<and> (\<exists>pem. get (body m) ''publicKey'' = Some pem \<and> ring_verify E pem b = Some True)"
  using assms
  by (auto simp: receive_helo_def split: option.splits bool.splits if_splits
      dest!: helo_trust_signature[where x = x])

lemma setupConnection_signature:
  "setupConnection E s0 c req = (s, a, r) \<Longrightarrow>
   peerPublicKeySignature (conns s x) = peerPublicKeySignature (conns s0 x)"
  by (auto simp: setupConnection_def Let_def conn_update_conns split: option.splits if_splits)

lemma receive_signature:
  assumes "receive n E s0 c' raw = (s, a, r)"
    and "peerPublicKeySignature (conns s0 c) = None"
    and "peerPublicKeySignature (conns s c) = Some b"
  shows "c' = c \<and> (\<exists>message pem. PeerMessage_from E (Txt raw) = Some message
           \<and> loose_eq E (htype (header message)) (PEER_MESSAGE_TYPES E ''helo'')
           \<and> get (body message) ''publicKey'' = Some pem
           \<and> ring_verify E pem b = Some True)"
proof -
  from assms have raw: "raw \<noteq> []" by (auto simp: receive_def)
  with assms obtain message where m: "PeerMessage_from E (Txt raw) = Some message"
    by (cases "PeerMessage_from E (Txt raw)") (auto simp: receive_def)
  let ?s1 = "s0\<lparr>peers := touch_active E s0 c' (peers s0)\<rparr>"
  have s1: "peerPublicKeySignature (conns ?s1 c) = None" using assms(2) by simp
  show ?thesis
  proof (cases "loose_eq E (htype (header message)) (PEER_MESSAGE_TYPES E ''helo'')")
    case True
    with assms(1) raw m have "receive_helo E ?s1 c' message = (s, a, r)"
      by (simp add: receive_def Let_def)
    from receive_helo_signature[OF this s1 assms(3)] m True show ?thesis by auto
  next
    case False
    have "peerPublicKeySignature (conns s c) = peerPublicKeySignature (conns ?s1 c)"
      using assms(1) raw m False
      by (auto simp: receive_def Let_def split: if_splits
          dest: receive_trusted_signature receive_confirm_signature receive_peers_signature
                receive_data_signature)
    with s1 assms(3) show ?thesis by simp
  qed
qed

section \<open>The close handler\<close>

text \<open>
  Claim C10. On a close code other than 1000 the close handler builds the candidate to
  re-enqueue from \<^verbatim>\<open>this.peerPublicKeySignature.toString('base64')\<close>. When the field is
  absent the handler throws (after clearing the trusted flag) and nothing is re-enqueued;
  when it is present the handler returns, having appended the candidate. The field is
  absent on a connection \<^verbatim>\<open>setupConnection\<close> has just set up (if it was absent
  before), and a call of \<^verbatim>\<open>receive\<close> after which it is present where it was absent
  before was a HELO on that very connection whose signature the ring key verified.
\<close>

theorem on_close_reenqueue_needs_signature:
  assumes "code \<noteq> 1000"
  shows "(peerPublicKeySignature (conns s c) = None \<longrightarrow>
            on_close E s c code =
              (conn_update c (\<lambda>k. k\<lparr>trusted := False, active_c := Some (utc_now E)\<rparr>) s, [], Throw)
          \<and> discoveryAddresses (fst (on_close E s c code)) = discoveryAddresses s)
       \<and> (\<forall>b. peerPublicKeySignature (conns s c) = Some b \<longrightarrow>
            snd (snd (on_close E s c code)) = Return RUndefined
          \<and> discoveryAddresses (fst (on_close E s c code)) =
              discoveryAddresses s @
                [JObj [(''address'', case originalAddress (conns s c) of
                                       None \<Rightarrow> JUndefined | Some a \<Rightarrow> a),
                       (''signature'', JStr (toString_base64 E b))]])
       \<and> (\<forall>s0 req a0 r0. setupConnection E s0 c req = (s, a0, r0)
            \<and> peerPublicKeySignature (conns s0 c) = None
            \<longrightarrow> peerPublicKeySignature (conns s c) = None)
       \<and> (\<forall>n s0 c' raw a0 r0 b. receive n E s0 c' raw = (s, a0, r0)
            \<and> peerPublicKeySignature (conns s0 c) = None
            \<and> peerPublicKeySignature (conns s c) = Some b
            \<longrightarrow> c' = c \<and> (\<exists>message pem. PeerMessage_from E (Txt raw) = Some message
                  \<and> loose_eq E (htype (header message)) (PEER_MESSAGE_TYPES E ''helo'')
                  \<and> get (body message) ''publicKey'' = Some pem
                  \<and> ring_verify E pem b = Some True))"
proof (intro conjI allI impI)
  assume "peerPublicKeySignature (conns s c) = None"
  then show "on_close E s c code =
      (conn_update c (\<lambda>k. k\<lparr>trusted := False, active_c := Some (utc_now E)\<rparr>) s, [], Throw)"
    using assms by (simp add: on_close_def Let_def conn_update_conns)
  then show "discoveryAddresses (fst (on_close E s c code)) = discoveryAddresses s"
    by (simp add: conn_update_def)
next
  fix b assume b: "peerPublicKeySignature (conns s c) = Some b"
  then show "snd (snd (on_close E s c code)) = Return RUndefined"
    using assms by (simp add: on_close_def Let_def conn_update_conns)
  from b show "discoveryAddresses (fst (on_close E s c code)) =
      discoveryAddresses s @
        [JObj [(''address'', case originalAddress (conns s c) of
                               None \<Rightarrow> JUndefined | Some a \<Rightarrow> a),
               (''signature'', JStr (toString_base64 E b))]]"
    using assms by (simp add: on_close_def Let_def conn_update_conns conn_update_def)
next
  fix s0 req a0 r0
  assume "setupConnection E s0 c req = (s, a0, r0) \<and> peerPublicKeySignature (conns s0 c) = None"
  then show "peerPublicKeySignature (conns s c) = None"
    using setupConnection_signature[of E s0 c req s a0 r0 c] by simp
next
  fix n s0 c' raw a0 r0 b
  assume h: "receive n E s0 c' raw = (s, a0, r0) \<and> peerPublicKeySignature (conns s0 c) = None
             \<and> peerPublicKeySignature (conns s c) = Some b"
  then have "c' = c \<and> (\<exists>message pem. PeerMessage_from E (Txt raw) = Some message
           \<and> loose_eq E (htype (header message)) (PEER_MESSAGE_TYPES E ''helo'')
           \<and> get (body message) ''publicKey'' = Some pem
           \<and> ring_verify E pem b = Some True)"
    using receive_signature[of n E s0 c' raw s a0 r0 c b] by blast
  then show "c' = c" and "\<exists>message pem. PeerMessage_from E (Txt raw) = Some message
           \<and> loose_eq E (htype (header message)) (PEER_MESSAGE_TYPES E ''helo'')
           \<and> get (body message) ''publicKey'' = Some pem
           \<and> ring_verify E pem b = Some True" by blast+
qed

text \<open>
  The theorem at the concrete peer, for an abnormal close (code 1006) before any HELO and
  after B's verified HELO.
\<close>

theorem on_close_reenqueue_needs_signature_witness:
  "peerPublicKeySignature (conns peerA_setup 0) = None
   \<and> snd (on_close env0 peerA_setup 0 1006) = ([], Throw)
   \<and> discoveryAddresses (fst (on_close env0 peerA_setup 0 1006)) = []
   \<and> peerPublicKeySignature (conns peerA_trusting 0) = Some ''ring:KB''
   \<and> snd (snd (on_close env0 peerA_trusting 0 1006)) = Return RUndefined
   \<and> discoveryAddresses (fst (on_close env0 peerA_trusting 0 1006)) =
        [JObj [(''address'', JStr ''10.0.0.2''), (''signature'', JStr ''ring:KB'')]]
   \<and> (\<exists>message pem. PeerMessage_from env0 (Txt ''HELO-B'') = Some message
         \<and> loose_eq env0 (htype (header message)) (PEER_MESSAGE_TYPES env0 ''helo'')
         \<and> get (body message) ''publicKey'' = Some pem
         \<and> ring_verify env0 pem ''ring:KB'' = Some True)"
proof -
  have n: "peerPublicKeySignature (conns peerA_setup 0) = None"
    by (simp add: peerA_setup_eval conn0_def)
  have t: "peerPublicKeySignature (conns peerA_trusting 0) = Some ''ring:KB''"
    and o: "originalAddress (conns peerA_trusting 0) = Some (JStr ''10.0.0.2'')"
    by (simp_all add: peerA_trusting_eval conn0_def)
  have code: "(1006::int) \<noteq> 1000" by simp
  note A = on_close_reenqueue_needs_signature [OF code, of peerA_setup 0 env0]
  note B = on_close_reenqueue_needs_signature [OF code, of peerA_trusting 0 env0]
  have r: "receive 0 env0 peerA_setup 0 ''HELO-B'' =
             (peerA_trusting, fst (snd (receive 0 env0 peerA_setup 0 ''HELO-B'')),
              snd (snd (receive 0 env0 peerA_setup 0 ''HELO-B'')))"
    by (simp add: peerA_trusting_def)
  from A n have 1: "snd (on_close env0 peerA_setup 0 1006) = ([], Throw)"
    and 2: "discoveryAddresses (fst (on_close env0 peerA_setup 0 1006)) = []"
    by (simp_all add: peerA_setup_eval conn_update_def)
  from B t o have 3: "snd (snd (on_close env0 peerA_trusting 0 1006)) = Return RUndefined"
    and 4: "discoveryAddresses (fst (on_close env0 peerA_trusting 0 1006)) =
        [JObj [(''address'', JStr ''10.0.0.2''), (''signature'', JStr ''ring:KB'')]]"
    by (simp_all add: peerA_trusting_eval env0_base64)
  from B r n t have 5: "\<exists>message pem. PeerMessage_from env0 (Txt ''HELO-B'') = Some message
         \<and> loose_eq env0 (htype (header message)) (PEER_MESSAGE_TYPES env0 ''helo'')
         \<and> get (body message) ''publicKey'' = Some pem
         \<and> ring_verify env0 pem ''ring:KB'' = Some True"
    by blast
  show ?thesis by (intro conjI n t 1 2 3 4 5)
qed

section \<open>The concrete peer with two connections\<close>

lemma env0_crypto:
  "private_sign env0 (Some x) = Some (''sig:'' @ x)"
  "aes_encrypt env0 (Some k) (Some i) (Some x) = Some (''enc:'' @ x)"
  "JSON_stringify env0 (JStr x) = Some x"
  "Date_toISOString env0 3000 = ''1970-01-01T00:00:03.000Z''"
  "Date_toString env0 3000 = ''Thu Jan 01 1970 00:00:03''"
  by (simp_all add: env0_def)

lemma peerA_second_eval:
  "peers peerA_second =
     [\<lparr>request = None, connection = 0, created = 3000, active = 3000\<rparr>,
      \<lparr>request = None, connection = Suc 0, created = 3000, active = 3000\<rparr>]"
  "conns peerA_second 0 =
     conn0\<lparr>originalAddress := Some (JStr ''10.0.0.2''), originalPort := Some (JNum 5)\<rparr>"
  "conns peerA_second (Suc 0) =
     conn1\<lparr>originalAddress := Some (JStr ''10.0.0.3''), originalPort := Some (JNum 5)\<rparr>"
  "signature peerA_second = ''ring:KA''"
  "requireConfirmation peerA_second = True"
  "discoveryAddresses peerA_second = []"
  by (simp_all add: peerA_second_def setupConnection_def conn_update_def peerA_setup_eval
      conn0_def conn1_def Let_def strip_ffff_def ffff_match_def is_f_def one_line_def
      line_terminator_def env0_simps helo_message_def)

lemma peerA_second_touch:
  "touch_active env0 peerA_second (Suc 0) (peers peerA_second) = peers peerA_second"
  by (simp add: peerA_second_eval conn0_def conn1_def env0_simps)

lemma peerA_second_trusting_eval:
  "peers peerA_second_trusting = peers peerA_second"
  "conns peerA_second_trusting 0 = conns peerA_second 0"
  "conns peerA_second_trusting (Suc 0) =
     conn1\<lparr>originalAddress := Some (JStr ''10.0.0.3''), originalPort := Some (JNum 5),
       trusted := True, peerPublicKey := Some (NodeRSA (JStr ''KC'')),
       peerPublicKeySignature := Some ''ring:KC'', iv := Some (replicate 16 (CHR ''r'')),
       key := Some (replicate 32 (CHR ''r''))\<rparr>"
  "signature peerA_second_trusting = ''ring:KA''"
  "requireConfirmation peerA_second_trusting = True"
  "discoveryAddresses peerA_second_trusting = []"
  by (simp_all add: peerA_second_trusting_def receive_def receive_helo_def helo_trust_def
      isOwnSignature_def getPeerList_def peerA_second_eval peerA_second_touch
      conn_update_def conn0_def conn1_def Let_def env0_simps)

lemma peerA_second_trusting_touch:
  "touch_active env0 peerA_second_trusting (Suc 0)
     (peers peerA_second) = peers peerA_second"
  by (simp add: peerA_second_trusting_eval peerA_second_eval conn0_def conn1_def env0_simps)

lemma peerA_mixed_eval:
  "peers peerA_mixed =
     [\<lparr>request = None, connection = 0, created = 3000, active = 3000\<rparr>,
      \<lparr>request = None, connection = Suc 0, created = 3000, active = 3000\<rparr>]"
  "conns peerA_mixed 0 =
     conn0\<lparr>originalAddress := Some (JStr ''10.0.0.2''), originalPort := Some (JNum 5)\<rparr>"
  "conns peerA_mixed (Suc 0) =
     conn1\<lparr>originalAddress := Some (JStr ''10.0.0.3''), originalPort := Some (JNum 6),
       trusted := True, peerPublicKey := Some (NodeRSA (JStr ''KC'')),
       peerPublicKeySignature := Some ''ring:KC'', iv := Some (replicate 16 (CHR ''r'')),
       key := Some (replicate 32 (CHR ''r'')), peerIv := Some ''ivC'', peerKey := Some ''keyC'',
       requireConfirmation_c := True\<rparr>"
  "signature peerA_mixed = ''ring:KA''"
  "requireConfirmation peerA_mixed = True"
  "discoveryAddresses peerA_mixed = []"
  by (simp_all add: peerA_mixed_def receive_def receive_trusted_def set_listening_def
      peerA_second_trusting_eval peerA_second_trusting_touch peerA_second_eval
      conn_update_def conn0_def conn1_def Let_def env0_simps)





lemma env0_frames_more:
  "PeerMessage_from env0 (Txt ''HELO-C'') = Some heloC"
  "PeerMessage_from env0 (Txt ''TRUSTED-C'') = Some trustedC"
  by (simp_all add: env0_def frames0_def)

section \<open>broadcast on untrusted connections\<close>

lemma sign_encrypt_send_actions:
  "x \<in> set (snd (sign_encrypt_send E k c0 copy)) \<Longrightarrow> \<exists>m. x = SendUTF c0 (Stringified m)"
  by (auto simp: sign_encrypt_send_def Let_def split: option.splits)

lemma broadcast_one_sends:
  assumes "broadcast_one E s c0 msg = (s1, a1, r1)" and "SendUTF c w \<in> set a1"
  shows "c0 = c \<and> (trusted (conns s c) \<or>
           (\<exists>m. msg = PM m \<and> loose_eq E (htype (header m)) (PEER_MESSAGE_TYPES E ''helo'')
                \<and> w = Unserialised (PM m)))"
proof (cases "connected (conns s c0) \<and> trusted (conns s c0)")
  case True
  show ?thesis
  proof (cases "PeerMessage_from E msg")
    case None
    with assms True show ?thesis by (simp add: broadcast_one_def Let_def)
  next
    case (Some copy)
    obtain copy' sent where ses: "sign_encrypt_send E (conns s c0) c0 copy = (copy', sent)"
      by (cases "sign_encrypt_send E (conns s c0) c0 copy")
    with assms True Some have "SendUTF c w \<in> set sent"
      by (auto simp: broadcast_one_def Let_def split: if_splits)
    with sign_encrypt_send_actions[of "SendUTF c w" E "conns s c0" c0 copy] ses
    have "c0 = c" by auto
    with True show ?thesis by simp
  qed
next
  case False
  with assms show ?thesis
    by (auto simp: broadcast_one_def Let_def split: if_splits bmsg.splits)
qed

lemma broadcast_loop_sends:
  assumes "\<not> trusted (conns s c)"
    and "broadcast_loop E msg cs s = (s', a, r)" and "SendUTF c w \<in> set a"
  shows "\<exists>m. msg = PM m \<and> loose_eq E (htype (header m)) (PEER_MESSAGE_TYPES E ''helo'')
              \<and> w = Unserialised (PM m)"
  using assms
proof (induction cs arbitrary: s s' a r)
  case Nil
  then show ?case by simp
next
  case (Cons c0 cs)
  obtain s1 a1 r1 where one: "broadcast_one E s c0 msg = (s1, a1, r1)"
    by (cases "broadcast_one E s c0 msg") auto
  from broadcast_one_frame[OF one] obtain ms
    where "conns s1 c = (conns s c)\<lparr>unconfirmedMessages := ms\<rparr>" by blast
  with Cons.prems(1) have u1: "\<not> trusted (conns s1 c)" by simp
  show ?case
  proof (cases "SendUTF c w \<in> set a1")
    case True
    from broadcast_one_sends[OF one True] Cons.prems(1) show ?thesis by simp
  next
    case False
    obtain s2 a2 r2 where rest: "broadcast_loop E msg cs s1 = (s2, a2, r2)"
      by (cases "broadcast_loop E msg cs s1") auto
    from Cons.prems(2,3) one rest False have "SendUTF c w \<in> set a2"
      by (cases r1) auto
    from Cons.IH[OF u1 rest this] show ?thesis .
  qed
qed

text \<open>
  What \<^verbatim>\<open>broadcast\<close> lets through on a connection \<open>c\<close> that is not trusted. Whatever is
  broadcast, to \<open>c\<close> alone or to all peers, every frame handed to \<open>c\<close> is the message
  itself, unencrypted, and that message is a \<^verbatim>\<open>PeerMessage\<close> whose header type equals
  HELO: nothing else is ever sent on \<open>c\<close>. For a \<^verbatim>\<open>PeerMessage\<close> of any other type the
  turn of the loop for \<open>c\<close> does nothing at all: no action, no change of state, no
  exception.
\<close>

theorem broadcast_untrusted_only_helo:
  assumes "\<not> trusted (conns s c)"
  shows "(\<forall>w. SendUTF c w \<in> set (fst (snd (broadcast E s options))) \<longrightarrow>
            (\<exists>m::PeerMessage. options_message E options = Some (VMsg m)
                \<and> loose_eq E (htype (header m)) (PEER_MESSAGE_TYPES E ''helo'')
                \<and> w = Unserialised (PM m)))
       \<and> (\<forall>m::PeerMessage. \<not> loose_eq E (htype (header m)) (PEER_MESSAGE_TYPES E ''helo'') \<longrightarrow>
            broadcast_one E s c (PM m) = (s, [], Return RUndefined))"
proof (intro conjI allI impI)
  fix w
  assume w: "SendUTF c w \<in> set (fst (snd (broadcast E s options)))"
  let ?targets = "toSendTo s options"
  show "\<exists>m::PeerMessage. options_message E options = Some (VMsg m)
            \<and> loose_eq E (htype (header m)) (PEER_MESSAGE_TYPES E ''helo'')
            \<and> w = Unserialised (PM m)"
  proof (cases "options_message E options")
    case None
    with w show ?thesis by (simp add: broadcast_def split: if_splits)
  next
    case (Some v)
    note om = Some
    show ?thesis
    proof (cases v)
      case (VMsg m)
      obtain s' a r where l: "broadcast_loop E (PM m) ?targets s = (s', a, r)"
        by (cases "broadcast_loop E (PM m) ?targets s") auto
      with w Some VMsg have "SendUTF c w \<in> set a"
        by (simp add: broadcast_def split: if_splits)
      from broadcast_loop_sends[OF assms l this] Some VMsg show ?thesis by simp
    next
      case (VJs j)
      define payload where "payload = (case j of JStr t \<Rightarrow> Some t
                                | _ \<Rightarrow> JSON_stringify E (JObj [(''message'', j)]))"
      show ?thesis
      proof (cases payload)
        case None
        with w Some VJs show ?thesis
          by (simp add: broadcast_def payload_def[symmetric] split: if_splits)
      next
        case (Some t)
        obtain s' a r where l: "broadcast_loop E (Txt t) ?targets s = (s', a, r)"
          by (cases "broadcast_loop E (Txt t) ?targets s") auto
        with w om VJs Some have "SendUTF c w \<in> set a"
          by (simp add: broadcast_def payload_def[symmetric] split: if_splits)
        from broadcast_loop_sends[OF assms l this] show ?thesis by simp
      qed
    qed
  qed
next
  fix m :: PeerMessage
  assume "\<not> loose_eq E (htype (header m)) (PEER_MESSAGE_TYPES E ''helo'')"
  with assms show "broadcast_one E s c (PM m) = (s, [], Return RUndefined)"
    by (simp add: broadcast_one_def Let_def)
qed

text \<open>
  The same at the concrete peer right after \<^verbatim>\<open>setupConnection\<close>: the message \<open>messageM\<close>
  is not sent, the HELO is.
\<close>

lemma peerA_setup_broadcast:
  "snd (broadcast env0 peerA_setup (OptMessage messageM)) = ([], Return RThis)"
  "snd (broadcast env0 peerA_setup (OptMessage heloA)) =
     ([SendUTF 0 (Unserialised (PM heloA))], Return RThis)"
  by (simp_all add: broadcast_def options_message_def options_connection_def toSendTo_def
      broadcast_one_def
      Let_def peerA_setup_eval conn0_def env0_types messageM_def heloA_def)

theorem broadcast_untrusted_only_helo_witness:
  "\<not> trusted (conns peerA_setup 0)
   \<and> broadcast_one env0 peerA_setup 0 (PM messageM) = (peerA_setup, [], Return RUndefined)
   \<and> snd (broadcast env0 peerA_setup (OptMessage messageM)) = ([], Return RThis)
   \<and> snd (broadcast env0 peerA_setup (OptMessage heloA)) =
        ([SendUTF 0 (Unserialised (PM heloA))], Return RThis)
   \<and> (\<exists>m. options_message env0 (OptMessage heloA) = Some (VMsg m)
         \<and> loose_eq env0 (htype (header m)) (PEER_MESSAGE_TYPES env0 ''helo'')
         \<and> Unserialised (PM heloA) = Unserialised (PM m))"
proof -
  have u: "\<not> trusted (conns peerA_setup 0)" by (simp add: peerA_setup_eval conn0_def)
  note T = broadcast_untrusted_only_helo [OF u, of env0]
  have nh: "\<not> loose_eq env0 (htype (header messageM)) (PEER_MESSAGE_TYPES env0 ''helo'')"
    by (simp add: env0_types messageM_def)
  from T [of "OptMessage messageM"] nh
  have 1: "broadcast_one env0 peerA_setup 0 (PM messageM) = (peerA_setup, [], Return RUndefined)"
    by blast
  have "SendUTF 0 (Unserialised (PM heloA))
          \<in> set (fst (snd (broadcast env0 peerA_setup (OptMessage heloA))))"
    by (simp add: peerA_setup_broadcast(2))
  with T [of "OptMessage heloA"]
  have 2: "\<exists>m. options_message env0 (OptMessage heloA) = Some (VMsg m)
         \<and> loose_eq env0 (htype (header m)) (PEER_MESSAGE_TYPES env0 ''helo'')
         \<and> Unserialised (PM heloA) = Unserialised (PM m)"
    by blast
  show ?thesis by (intro conjI u 1 2 peerA_setup_broadcast)
qed

text \<open>
  A message that is a string has no header: on a connected connection that is not trusted
  the type test throws, in every environment, and the loop ends there.
\<close>

lemma broadcast_one_string_untrusted:
  "connected (conns s c) \<Longrightarrow> \<not> trusted (conns s c) \<Longrightarrow>
   broadcast_one E s c (Txt t) = (s, [], Throw)"
  by (simp add: broadcast_one_def Let_def)

lemma broadcast_loop_string_untrusted:
  "connected (conns s c) \<Longrightarrow> \<not> trusted (conns s c) \<Longrightarrow>
   broadcast_loop E (Txt t) (c # cs) s = (s, [], Throw)"
  by (simp add: broadcast_one_string_untrusted)

text \<open>
  Claim C7. For a message that is a \<^verbatim>\<open>PeerMessage\<close> the claim holds (above). For a message
  that is a string it does not: \<^verbatim>\<open>broadcast\<close> keeps a string message as it is, and turns an
  object that is no \<^verbatim>\<open>PeerMessage\<close> into a string; the branch for a trusted connection
  builds a \<^verbatim>\<open>PeerMessage\<close> from it, but the branch for a connected, untrusted connection
  reads \<^verbatim>\<open>message.header.type\<close> of the string. That is a TypeError: the connection is
  not skipped silently, the exception leaves \<^verbatim>\<open>broadcast\<close>, and the connections behind it
  in the table get nothing.

  At the concrete peer whose first connection is connected and not yet trusted and whose
  second one is trusted: the string message throws, with nothing sent and nothing changed;
  the same message as a \<^verbatim>\<open>PeerMessage\<close> passes over the first connection and is sent on the
  second; and the same string is sent when the table holds a trusted connection only.
\<close>

theorem broadcast_untrusted_string_throws:
  "connected (conns peerA_mixed 0) \<and> \<not> trusted (conns peerA_mixed 0)
   \<and> connected (conns peerA_mixed 1) \<and> trusted (conns peerA_mixed 1)
   \<and> broadcast env0 peerA_mixed (OptObject (Some (VJs (JStr ''DATA-X''))) None) =
         (peerA_mixed, [], Throw)
   \<and> snd (broadcast env0 peerA_mixed (OptMessage dataX)) =
         ([SetTimeout (RetryBroadcast 1
             (dataX\<lparr>header := (header dataX)\<lparr>hsignature := JStr ''sig:garbled''\<rparr>,
                    body := JStr ''enc:garbled''\<rparr>)) 30000,
           SendUTF 1 (Stringified
             (dataX\<lparr>header := (header dataX)\<lparr>hsignature := JStr ''sig:garbled''\<rparr>,
                    body := JStr ''enc:garbled''\<rparr>))],
          Return RThis)
   \<and> snd (broadcast env0 peerA_connected (OptObject (Some (VJs (JStr ''DATA-X''))) None)) =
         ([SetTimeout (RetryBroadcast 0
             (dataX\<lparr>header := (header dataX)\<lparr>hsignature := JStr ''sig:garbled''\<rparr>,
                    body := JStr ''enc:garbled''\<rparr>)) 30000,
           SendUTF 0 (Stringified
             (dataX\<lparr>header := (header dataX)\<lparr>hsignature := JStr ''sig:garbled''\<rparr>,
                    body := JStr ''enc:garbled''\<rparr>))],
          Return RThis)"
proof -
  have flags: "connected (conns peerA_mixed 0)" "\<not> trusted (conns peerA_mixed 0)"
    "connected (conns peerA_mixed 1)" "trusted (conns peerA_mixed 1)"
    by (simp_all add: peerA_mixed_eval conn0_def conn1_def)
  have str: "broadcast env0 peerA_mixed (OptObject (Some (VJs (JStr ''DATA-X''))) None) =
         (peerA_mixed, [], Throw)"
    by (simp add: broadcast_def options_message_def options_connection_def toSendTo_def
        broadcast_one_def Let_def peerA_mixed_eval conn0_def conn1_def)
  have msg: "snd (broadcast env0 peerA_mixed (OptMessage dataX)) =
         ([SetTimeout (RetryBroadcast 1
             (dataX\<lparr>header := (header dataX)\<lparr>hsignature := JStr ''sig:garbled''\<rparr>,
                    body := JStr ''enc:garbled''\<rparr>)) 30000,
           SendUTF 1 (Stringified
             (dataX\<lparr>header := (header dataX)\<lparr>hsignature := JStr ''sig:garbled''\<rparr>,
                    body := JStr ''enc:garbled''\<rparr>))],
          Return RThis)"
    by (simp add: broadcast_def options_message_def options_connection_def toSendTo_def
        broadcast_one_def sign_encrypt_send_def Let_def conn_update_def
        peerA_mixed_eval conn0_def conn1_def env0_frames env0_types env0_base64 env0_crypto
        dataX_def)
  have one: "snd (broadcast env0 peerA_connected (OptObject (Some (VJs (JStr ''DATA-X''))) None)) =
         ([SetTimeout (RetryBroadcast 0
             (dataX\<lparr>header := (header dataX)\<lparr>hsignature := JStr ''sig:garbled''\<rparr>,
                    body := JStr ''enc:garbled''\<rparr>)) 30000,
           SendUTF 0 (Stringified
             (dataX\<lparr>header := (header dataX)\<lparr>hsignature := JStr ''sig:garbled''\<rparr>,
                    body := JStr ''enc:garbled''\<rparr>))],
          Return RThis)"
    by (simp add: broadcast_def options_message_def options_connection_def toSendTo_def
        broadcast_one_def sign_encrypt_send_def Let_def conn_update_def
        peerA_connected_eval conn0_def env0_frames env0_types env0_base64 env0_crypto
        dataX_def)
  show ?thesis by (intro conjI flags str msg one)
qed

section \<open>CONFIRM intake\<close>

text \<open>
  The scan of the CONFIRM branch removes the last confirmed entry and nothing else; when no
  entry is confirmed it returns the list as it is, unless it throws.
\<close>

lemma splice_confirmed_result:
  "splice_confirmed E h t xs = Some ys \<Longrightarrow>
   ((\<forall>x\<in>set xs. \<not> confirms E h t x) \<and> ys = xs)
   \<or> (\<exists>pre e post. xs = pre @ e # post \<and> confirms E h t e
         \<and> (\<forall>x\<in>set pre. \<not> confirms E h t x) \<and> ys = pre @ post)"
proof (induction xs arbitrary: ys)
  case Nil
  then show ?case by simp
next
  case (Cons x xs)
  show ?case
  proof (cases x)
    case (Txt u)
    with Cons.prems show ?thesis by simp
  next
    case (PM p)
    show ?thesis
    proof (cases "confirms E h t x")
      case True
      with PM Cons.prems have "ys = xs" by (auto simp: confirms_def split: if_splits option.splits)
      with True have "x # xs = [] @ x # xs \<and> confirms E h t x
          \<and> (\<forall>z\<in>set []. \<not> confirms E h t z) \<and> ys = [] @ xs" by simp
      then show ?thesis by blast
    next
      case False
      with PM Cons.prems obtain ys' where r: "splice_confirmed E h t xs = Some ys'"
        and ys: "ys = x # ys'"
        by (auto simp: confirms_def split: if_splits option.splits)
      from Cons.IH[OF r] show ?thesis
      proof
        assume "(\<forall>z\<in>set xs. \<not> confirms E h t z) \<and> ys' = xs"
        with False ys show ?thesis by simp
      next
        assume "\<exists>pre e post. xs = pre @ e # post \<and> confirms E h t e
                 \<and> (\<forall>z\<in>set pre. \<not> confirms E h t z) \<and> ys' = pre @ post"
        then obtain pre e post where "xs = pre @ e # post" "confirms E h t e"
          "\<forall>z\<in>set pre. \<not> confirms E h t z" "ys' = pre @ post" by blast
        with False ys have "x # xs = (x # pre) @ e # post \<and> confirms E h t e
            \<and> (\<forall>z\<in>set (x # pre). \<not> confirms E h t z) \<and> ys = (x # pre) @ post" by simp
        then show ?thesis by blast
      qed
    qed
  qed
qed

lemma confirm_unconfirmed_result:
  assumes "confirm_unconfirmed E h t ms = Some ms'"
  shows "((\<forall>x\<in>set ms. \<not> confirms E h t x) \<and> ms' = ms)
   \<or> (\<exists>pre e post. ms = pre @ e # post \<and> confirms E h t e
         \<and> (\<forall>x\<in>set post. \<not> confirms E h t x) \<and> ms' = pre @ post)"
proof -
  from assms obtain ys where s: "splice_confirmed E h t (rev ms) = Some ys" and m: "ms' = rev ys"
    by (auto simp: confirm_unconfirmed_def)
  from splice_confirmed_result[OF s] show ?thesis
  proof
    assume "(\<forall>x\<in>set (rev ms). \<not> confirms E h t x) \<and> ys = rev ms"
    with m show ?thesis by simp
  next
    assume "\<exists>pre e post. rev ms = pre @ e # post \<and> confirms E h t e
             \<and> (\<forall>x\<in>set pre. \<not> confirms E h t x) \<and> ys = pre @ post"
    then obtain pre e post where r: "rev ms = pre @ e # post" and c: "confirms E h t e"
      and p: "\<forall>x\<in>set pre. \<not> confirms E h t x" and y: "ys = pre @ post" by blast
    from r have "ms = rev post @ e # rev pre" by (metis rev_rev_ident rev_append rev.simps(2) append_assoc append_Cons append_Nil)
    moreover from m y have "ms' = rev post @ rev pre" by simp
    ultimately show ?thesis using c p by (metis set_rev)
  qed
qed

lemma confirm_unconfirmed_idle:
  assumes "\<forall>x\<in>set ms. \<not> confirms E h t x"
  shows "confirm_unconfirmed E h t ms = None \<or> confirm_unconfirmed E h t ms = Some ms"
proof (cases "confirm_unconfirmed E h t ms")
  case None
  then show ?thesis by simp
next
  case (Some ms')
  from confirm_unconfirmed_result[OF Some] assms have "ms' = ms" by auto
  with Some show ?thesis by simp
qed

lemma receive_confirm_dispatch:
  assumes "raw \<noteq> []"
    and "PeerMessage_from E (Txt raw) = Some message"
    and "\<not> loose_eq E (htype (header message)) (PEER_MESSAGE_TYPES E ''helo'')"
    and "trusted (conns s c)"
    and "\<not> loose_eq E (htype (header message)) (PEER_MESSAGE_TYPES E ''trusted'')"
    and "loose_eq E (htype (header message)) (PEER_MESSAGE_TYPES E ''confirm'')"
    and "requireConfirmation s"
    and "confirm_header message = Some (Some (h, t))"
  shows "receive n E s c raw =
           (case confirm_unconfirmed E h t (unconfirmedMessages (conns s c)) of
              None \<Rightarrow> (s\<lparr>peers := touch_active E s c (peers s)\<rparr>, [], Throw)
            | Some ms \<Rightarrow>
                (conn_update c (\<lambda>k. k\<lparr>unconfirmedMessages := ms\<rparr>)
                   (s\<lparr>peers := touch_active E s c (peers s)\<rparr>), [], Return RUndefined))"
  using assms by (simp add: receive_def receive_confirm_def Let_def split: option.splits)

text \<open>
  Claim C5, as the code has it. On a trusted connection of a peer whose own
  \<^verbatim>\<open>requireConfirmation\<close> is true, a CONFIRM whose \<^verbatim>\<open>confirm\<close> header is an object with a
  string hash \<open>h\<close> and a string timestamp \<open>t\<close> makes \<^verbatim>\<open>receive\<close> scan that connection's
  \<^verbatim>\<open>unconfirmedMessages\<close> from the tail. It acts on nothing else. When the scan returns,
  either no entry matches \<open>(h, t)\<close> and the list is unchanged, or exactly one entry is
  removed: the last one that matches. When the scan throws, the list is unchanged.
  Receiving the same CONFIRM again leaves the list as the first receipt left it, provided
  the list held at most one matching entry; the list can hold several, since
  \<^verbatim>\<open>broadcast\<close> appends without looking for duplicates, and then every receipt removes one
  more.
\<close>

theorem receive_confirm_removes_last_match:
  assumes "raw \<noteq> []"
    and "PeerMessage_from E (Txt raw) = Some message"
    and "\<not> loose_eq E (htype (header message)) (PEER_MESSAGE_TYPES E ''helo'')"
    and "trusted (conns s c)"
    and "\<not> loose_eq E (htype (header message)) (PEER_MESSAGE_TYPES E ''trusted'')"
    and "loose_eq E (htype (header message)) (PEER_MESSAGE_TYPES E ''confirm'')"
    and "requireConfirmation s"
    and "confirm_header message = Some (Some (h, t))"
  shows "fst (snd (receive n E s c raw)) = []
       \<and> (snd (snd (receive n E s c raw)) = Return RUndefined \<longrightarrow>
            ((\<forall>x\<in>set (unconfirmedMessages (conns s c)). \<not> confirms E h t x)
               \<and> unconfirmedMessages (conns (fst (receive n E s c raw)) c)
                   = unconfirmedMessages (conns s c))
            \<or> (\<exists>pre e post. unconfirmedMessages (conns s c) = pre @ e # post
                  \<and> confirms E h t e \<and> (\<forall>x\<in>set post. \<not> confirms E h t x)
                  \<and> unconfirmedMessages (conns (fst (receive n E s c raw)) c) = pre @ post))
       \<and> (snd (snd (receive n E s c raw)) \<noteq> Return RUndefined \<longrightarrow>
            unconfirmedMessages (conns (fst (receive n E s c raw)) c)
              = unconfirmedMessages (conns s c))
       \<and> (length (filter (confirms E h t) (unconfirmedMessages (conns s c))) \<le> 1 \<longrightarrow>
            unconfirmedMessages (conns (fst (receive n E (fst (receive n E s c raw)) c raw)) c)
              = unconfirmedMessages (conns (fst (receive n E s c raw)) c))"
proof -
  let ?ms = "unconfirmedMessages (conns s c)"
  let ?s0 = "s\<lparr>peers := touch_active E s c (peers s)\<rparr>"
  note first = receive_confirm_dispatch[OF assms, of n]
  let ?s1 = "fst (receive n E s c raw)"
  show ?thesis
  proof (cases "confirm_unconfirmed E h t ?ms")
    case None
    with first have r: "receive n E s c raw = (?s0, [], Throw)" by simp
    then have t1: "trusted (conns ?s1 c)" and rc1: "requireConfirmation ?s1"
      and l1: "unconfirmedMessages (conns ?s1 c) = ?ms"
      using assms(4,7) by simp_all
    from receive_confirm_dispatch[OF assms(1-3) t1 assms(5,6) rc1 assms(8), of n] l1 None
    have "unconfirmedMessages (conns (fst (receive n E ?s1 c raw)) c) = ?ms" by simp
    with r show ?thesis by simp
  next
    case (Some ms')
    with first have r: "receive n E s c raw =
        (conn_update c (\<lambda>k. k\<lparr>unconfirmedMessages := ms'\<rparr>) ?s0, [], Return RUndefined)"
      by simp
    then have t1: "trusted (conns ?s1 c)" and rc1: "requireConfirmation ?s1"
      and l1: "unconfirmedMessages (conns ?s1 c) = ms'"
      using assms(4,7) by (simp_all add: conn_update_def)
    note res = confirm_unconfirmed_result[OF Some]
    have idem: "unconfirmedMessages (conns (fst (receive n E ?s1 c raw)) c) = ms'"
      if one: "length (filter (confirms E h t) ?ms) \<le> 1"
    proof -
      have none: "\<forall>x\<in>set ms'. \<not> confirms E h t x"
        using res
      proof
        assume "(\<forall>x\<in>set ?ms. \<not> confirms E h t x) \<and> ms' = ?ms"
        then show ?thesis by simp
      next
        assume "\<exists>pre e post. ?ms = pre @ e # post \<and> confirms E h t e
                 \<and> (\<forall>x\<in>set post. \<not> confirms E h t x) \<and> ms' = pre @ post"
        then obtain pre e post where sp: "?ms = pre @ e # post" and ce: "confirms E h t e"
          and po: "\<forall>x\<in>set post. \<not> confirms E h t x" and m: "ms' = pre @ post" by blast
        from one sp ce have "filter (confirms E h t) pre = []" by simp
        then have "\<forall>x\<in>set pre. \<not> confirms E h t x" by (simp add: filter_empty_conv)
        with po m show ?thesis by auto
      qed
      from confirm_unconfirmed_idle[OF none]
           receive_confirm_dispatch[OF assms(1-3) t1 assms(5,6) rc1 assms(8), of n] l1
      show ?thesis by (auto simp: conn_update_def)
    qed
    from r res l1 idem show ?thesis by simp
  qed
qed

text \<open>The concrete peer after one and after two broadcasts of the same message.\<close>

lemmas broadcast_eval = broadcast_def options_message_def options_connection_def toSendTo_def
  broadcast_one_def sign_encrypt_send_def Let_def conn_update_def
  env0_frames env0_types env0_base64 env0_crypto

lemma peerA_sent_once_eval:
  "peers peerA_sent_once = [\<lparr>request = None, connection = 0, created = 3000, active = 3000\<rparr>]"
  "conns peerA_sent_once 0 = (conns peerA_connected 0)\<lparr>unconfirmedMessages := [PM messageM]\<rparr>"
  "requireConfirmation peerA_sent_once = True"
  by (simp_all add: peerA_sent_once_def broadcast_eval peerA_connected_eval conn0_def messageM_def)

lemma peerA_sent_twice_eval:
  "peers peerA_sent_twice = [\<lparr>request = None, connection = 0, created = 3000, active = 3000\<rparr>]"
  "conns peerA_sent_twice 0 =
     (conns peerA_connected 0)\<lparr>unconfirmedMessages := [PM messageM, PM messageM]\<rparr>"
  "requireConfirmation peerA_sent_twice = True"
  by (simp_all add: peerA_sent_twice_def broadcast_eval peerA_sent_once_eval peerA_connected_eval
      conn0_def messageM_def)

lemma confirmM_header:
  "confirm_header confirmM = Some (Some (''h0'', ''1970-01-01T00:00:03.000Z''))"
  by (simp add: confirm_header_def confirmM_def)

lemma confirmM_dispatch:
  "\<not> loose_eq env0 (htype (header confirmM)) (PEER_MESSAGE_TYPES env0 ''helo'')"
  "\<not> loose_eq env0 (htype (header confirmM)) (PEER_MESSAGE_TYPES env0 ''trusted'')"
  "loose_eq env0 (htype (header confirmM)) (PEER_MESSAGE_TYPES env0 ''confirm'')"
  by (simp_all add: env0_types confirmM_def)

lemma confirmM_confirms_messageM:
  "confirms env0 ''h0'' ''1970-01-01T00:00:03.000Z'' (PM messageM)"
  by (simp add: confirms_def js_toISOString_def messageM_def env0_crypto)

lemma confirmM_scan:
  "confirm_unconfirmed env0 ''h0'' ''1970-01-01T00:00:03.000Z'' [PM messageM, PM messageM]
     = Some [PM messageM]"
  "confirm_unconfirmed env0 ''h0'' ''1970-01-01T00:00:03.000Z'' [PM messageM] = Some []"
  "confirm_unconfirmed env0 ''h0'' ''1970-01-01T00:00:03.000Z'' [] = Some []"
  by (simp_all add: confirm_unconfirmed_def js_toISOString_def messageM_def env0_crypto)

lemma peerA_confirm_lists:
  assumes "trusted (conns s 0)" and "requireConfirmation s"
  shows "unconfirmedMessages (conns (fst (receive n env0 s 0 ''CONFIRM-M'')) 0) =
           (case confirm_unconfirmed env0 ''h0'' ''1970-01-01T00:00:03.000Z''
                   (unconfirmedMessages (conns s 0)) of
              None \<Rightarrow> unconfirmedMessages (conns s 0) | Some ms \<Rightarrow> ms)"
    and "trusted (conns (fst (receive n env0 s 0 ''CONFIRM-M'')) 0)"
    and "requireConfirmation (fst (receive n env0 s 0 ''CONFIRM-M''))"
  using receive_confirm_dispatch[OF _ env0_frames(5) confirmM_dispatch(1) assms(1)
      confirmM_dispatch(2,3) assms(2) confirmM_header, of n] assms
  by (simp_all add: conn_update_def split: option.splits)

text \<open>
  Claim C5 as the specification states it fails. The connected peer broadcasts the same
  message object twice; the connection's list then holds it twice. The CONFIRM for its
  (hash, timestamp) removes one entry, and the same CONFIRM received a second time
  removes the other: the second receipt changes the list.
\<close>

theorem receive_confirm_twice_removes_two:
  "peerA_sent_twice =
     fst (broadcast env0 (fst (broadcast env0 peerA_connected (OptMessage messageM)))
            (OptMessage messageM))
   \<and> unconfirmedMessages (conns peerA_sent_twice 0) = [PM messageM, PM messageM]
   \<and> unconfirmedMessages (conns (fst (receive 0 env0 peerA_sent_twice 0 ''CONFIRM-M'')) 0)
        = [PM messageM]
   \<and> unconfirmedMessages
        (conns (fst (receive 0 env0 (fst (receive 0 env0 peerA_sent_twice 0 ''CONFIRM-M''))
                       0 ''CONFIRM-M'')) 0)
        = []"
proof -
  have t: "trusted (conns peerA_sent_twice 0)" and rc: "requireConfirmation peerA_sent_twice"
    and l: "unconfirmedMessages (conns peerA_sent_twice 0) = [PM messageM, PM messageM]"
    by (simp_all add: peerA_sent_twice_eval peerA_connected_eval conn0_def)
  note one = peerA_confirm_lists[OF t rc, of 0]
  note two = peerA_confirm_lists[OF one(2,3), of 0]
  from one(1) l have 1: "unconfirmedMessages
      (conns (fst (receive 0 env0 peerA_sent_twice 0 ''CONFIRM-M'')) 0) = [PM messageM]"
    by (simp add: confirmM_scan)
  with two(1) have 2: "unconfirmedMessages
        (conns (fst (receive 0 env0 (fst (receive 0 env0 peerA_sent_twice 0 ''CONFIRM-M''))
                       0 ''CONFIRM-M'')) 0) = []"
    by (simp add: confirmM_scan)
  have d: "peerA_sent_twice =
     fst (broadcast env0 (fst (broadcast env0 peerA_connected (OptMessage messageM)))
            (OptMessage messageM))"
    by (simp add: peerA_sent_twice_def peerA_sent_once_def)
  show ?thesis by (intro conjI d l 1 2)
qed

text \<open>
  The theorem at the concrete peer after one broadcast: the CONFIRM empties the list, and
  the same CONFIRM again leaves it empty.
\<close>

theorem receive_confirm_removes_last_match_witness:
  "PeerMessage_from env0 (Txt ''CONFIRM-M'') = Some confirmM
   \<and> trusted (conns peerA_sent_once 0) \<and> requireConfirmation peerA_sent_once
   \<and> confirm_header confirmM = Some (Some (''h0'', ''1970-01-01T00:00:03.000Z''))
   \<and> unconfirmedMessages (conns peerA_sent_once 0) = [] @ PM messageM # []
   \<and> confirms env0 ''h0'' ''1970-01-01T00:00:03.000Z'' (PM messageM)
   \<and> fst (snd (receive 0 env0 peerA_sent_once 0 ''CONFIRM-M'')) = []
   \<and> unconfirmedMessages (conns (fst (receive 0 env0 peerA_sent_once 0 ''CONFIRM-M'')) 0) = []
   \<and> length (filter (confirms env0 ''h0'' ''1970-01-01T00:00:03.000Z'')
                (unconfirmedMessages (conns peerA_sent_once 0))) = 1
   \<and> unconfirmedMessages
        (conns (fst (receive 0 env0 (fst (receive 0 env0 peerA_sent_once 0 ''CONFIRM-M''))
                       0 ''CONFIRM-M'')) 0)
        = unconfirmedMessages (conns (fst (receive 0 env0 peerA_sent_once 0 ''CONFIRM-M'')) 0)"
proof -
  have t: "trusted (conns peerA_sent_once 0)" and rc: "requireConfirmation peerA_sent_once"
    and l: "unconfirmedMessages (conns peerA_sent_once 0) = [PM messageM]"
    by (simp_all add: peerA_sent_once_eval peerA_connected_eval conn0_def)
  note T = receive_confirm_removes_last_match [OF _ env0_frames(5) confirmM_dispatch(1) t
      confirmM_dispatch(2,3) rc confirmM_header, of 0]
  have one: "length (filter (confirms env0 ''h0'' ''1970-01-01T00:00:03.000Z'')
                (unconfirmedMessages (conns peerA_sent_once 0))) = 1"
    by (simp add: l confirmM_confirms_messageM)
  from peerA_confirm_lists(1)[OF t rc, of 0] l
  have e: "unconfirmedMessages (conns (fst (receive 0 env0 peerA_sent_once 0 ''CONFIRM-M'')) 0) = []"
    by (simp add: confirmM_scan)
  from T one show ?thesis
    using env0_frames(5) t rc confirmM_header l confirmM_confirms_messageM e by simp
qed

section \<open>The retry timer of broadcast\<close>


text \<open>
  One turn of the loop of \<^verbatim>\<open>broadcast\<close> on a trusted connection, the loop as seen from one
  connection, and the scan of the retry timer.
\<close>

lemma frames_on_simps [simp]:
  "frames_on c [] = []"
  "frames_on c (a # acts) = frame_on c a @ frames_on c acts"
  "frames_on c (xs @ ys) = frames_on c xs @ frames_on c ys"
  by (simp_all add: frames_on_def)

lemma timers_on_simps [simp]:
  "timers_on c [] = []"
  "timers_on c (a # acts) = timer_on c a @ timers_on c acts"
  "timers_on c (xs @ ys) = timers_on c xs @ timers_on c ys"
  by (simp_all add: timers_on_def)












text \<open>The message and the connected peer, evaluated.\<close>

lemma sentM_eval:
  "header sentM = (header messageM)\<lparr>hsignature := JStr ''sig:hello''\<rparr>"
  "body sentM = JStr ''enc:hello''"
  "hash (header sentM) = JStr ''h0''" "timestamp (header sentM) = JDate 3000"
  "htype (header sentM) = JNum 4"
  "sentM\<lparr>header := (header sentM)\<lparr>hsignature := JStr ''sig:enc:hello''\<rparr>,
          body := JStr ''enc:enc:hello''\<rparr> = resentM"
  "messageM\<lparr>header := (header messageM)\<lparr>hsignature := JStr ''sig:hello''\<rparr>,
            body := JStr ''enc:hello''\<rparr> = sentM"
  by (simp_all add: sentM_def resentM_def messageM_def)









section \<open>Discovery: a candidate without a port\<close>

lemma inDiscoveryAddresses_append:
  "inDiscoveryAddresses E (s\<lparr>discoveryAddresses := discoveryAddresses s @ xs\<rparr>) d =
     (inDiscoveryAddresses E s d \<or> list_ex (\<lambda>q. JSON_stringify E q = JSON_stringify E d) xs)"
  by (simp add: inDiscoveryAddresses_def)

lemma own_signature_queue:
  "own_signature E (s\<lparr>discoveryAddresses := q\<rparr>) = own_signature E s"
  by (simp add: own_signature_def)

lemma isConnectedTo_queue:
  "isConnectedTo E (s\<lparr>discoveryAddresses := q\<rparr>) d = isConnectedTo E s d"
  by (simp add: isConnectedTo_def own_signature_queue cong: option.case_cong)

lemma isOwnSignature_queue:
  "isOwnSignature E (s\<lparr>discoveryAddresses := q\<rparr>) v = isOwnSignature E s v"
  by (simp add: isOwnSignature_def own_signature_queue cong: jsv.case_cong option.case_cong)

lemma isOwnSignature_signature_value:
  "signature_value g \<Longrightarrow> \<exists>b. isOwnSignature E s g = Some b"
  by (cases g) (auto simp: signature_value_def isOwnSignature_def)

lemma isConnectedTo_by_signature:
  "get d ''signature'' = Some g \<Longrightarrow> get d' ''signature'' = Some g \<Longrightarrow>
   isConnectedTo E s d = isConnectedTo E s d'"
  by (simp add: isConnectedTo_def)

lemma port_candidate_signature: "get (port_candidate E pr h g x) ''signature'' = Some g"
  by (simp add: port_candidate_def)

lemma enqueue_candidate_spec:
  assumes "isConnectedTo E s d = Some c" and "get d ''signature'' = Some g"
    and "isOwnSignature E s g = Some own"
  shows "enqueue_candidate E s d =
           (if \<not> inDiscoveryAddresses E s d \<and> \<not> c \<and> \<not> own
            then s\<lparr>discoveryAddresses := discoveryAddresses s @ [d]\<rparr> else s, True)"
  using assms by (simp add: enqueue_candidate_def Let_def)

text \<open>The loop over a list of candidates that all carry the signature g.\<close>

lemma expand_range_spec:
  assumes "\<And>x. get (mk x) ''signature'' = Some g"
    and "\<And>x. isConnectedTo E s (mk x) = Some c"
    and "isOwnSignature E s g = Some own"
  shows "\<exists>added.
           expand_range E mk ports s =
             (s\<lparr>discoveryAddresses := discoveryAddresses s @ added\<rparr>, True)
         \<and> subseq added (map (\<lambda>i. mk (JNum i)) ports)
         \<and> (c \<or> own \<longrightarrow> added = [])
         \<and> (\<not> (c \<or> own) \<longrightarrow>
              (\<forall>i\<in>set ports. inDiscoveryAddresses E
                  (s\<lparr>discoveryAddresses := discoveryAddresses s @ added\<rparr>) (mk (JNum i)))
              \<and> (\<forall>d\<in>set added. \<not> inDiscoveryAddresses E s d))"
  using assms(2,3)
proof (induction ports arbitrary: s)
  case Nil
  have "expand_range E mk [] s = (s\<lparr>discoveryAddresses := discoveryAddresses s @ []\<rparr>, True)"
    by simp
  then show ?case by (intro exI[of _ "[]"]) simp
next
  case (Cons i ports)
  let ?d = "mk (JNum i)"
  note enq = enqueue_candidate_spec[OF Cons.prems(1)[of "JNum i"] assms(1)[of "JNum i"] Cons.prems(2)]
  show ?case
  proof (cases "\<not> inDiscoveryAddresses E s ?d \<and> \<not> c \<and> \<not> own")
    case False
    from Cons.IH[OF Cons.prems] obtain added where
      r: "expand_range E mk ports s = (s\<lparr>discoveryAddresses := discoveryAddresses s @ added\<rparr>, True)"
      and sub: "subseq added (map (\<lambda>i. mk (JNum i)) ports)"
      and sk: "c \<or> own \<longrightarrow> added = []"
      and nsk: "\<not> (c \<or> own) \<longrightarrow>
              (\<forall>i\<in>set ports. inDiscoveryAddresses E
                  (s\<lparr>discoveryAddresses := discoveryAddresses s @ added\<rparr>) (mk (JNum i)))
              \<and> (\<forall>d\<in>set added. \<not> inDiscoveryAddresses E s d)"
      by blast
    from enq False r
    have 1: "expand_range E mk (i # ports) s =
               (s\<lparr>discoveryAddresses := discoveryAddresses s @ added\<rparr>, True)" by simp
    have 2: "subseq added (map (\<lambda>i. mk (JNum i)) (i # ports))" using sub by (auto intro: list_emb.intros)
    have 3: "\<not> (c \<or> own) \<longrightarrow>
              (\<forall>j\<in>set (i # ports). inDiscoveryAddresses E
                  (s\<lparr>discoveryAddresses := discoveryAddresses s @ added\<rparr>) (mk (JNum j)))
              \<and> (\<forall>d\<in>set added. \<not> inDiscoveryAddresses E s d)"
      using False nsk by (auto simp: inDiscoveryAddresses_append)
    from 1 2 sk 3 show ?thesis by blast
  next
    case True
    let ?s1 = "s\<lparr>discoveryAddresses := discoveryAddresses s @ [?d]\<rparr>"
    have c1: "\<And>x. isConnectedTo E ?s1 (mk x) = Some c"
      using Cons.prems(1) by (simp add: isConnectedTo_queue)
    have o1: "isOwnSignature E ?s1 g = Some own"
      using Cons.prems(2) by (simp add: isOwnSignature_queue)
    from Cons.IH[OF c1 o1] obtain added where
      r: "expand_range E mk ports ?s1 =
            (?s1\<lparr>discoveryAddresses := discoveryAddresses ?s1 @ added\<rparr>, True)"
      and sub: "subseq added (map (\<lambda>i. mk (JNum i)) ports)"
      and nsk: "\<not> (c \<or> own) \<longrightarrow>
              (\<forall>i\<in>set ports. inDiscoveryAddresses E
                  (?s1\<lparr>discoveryAddresses := discoveryAddresses ?s1 @ added\<rparr>) (mk (JNum i)))
              \<and> (\<forall>d\<in>set added. \<not> inDiscoveryAddresses E ?s1 d)"
      by blast
    have st: "?s1\<lparr>discoveryAddresses := discoveryAddresses ?s1 @ added\<rparr>
                = s\<lparr>discoveryAddresses := discoveryAddresses s @ (?d # added)\<rparr>" by simp
    from enq True r st
    have 1: "expand_range E mk (i # ports) s =
               (s\<lparr>discoveryAddresses := discoveryAddresses s @ (?d # added)\<rparr>, True)" by simp
    have 2: "subseq (?d # added) (map (\<lambda>i. mk (JNum i)) (i # ports))" using sub by simp
    have 3: "c \<or> own \<longrightarrow> ?d # added = []" using True by simp
    have here: "inDiscoveryAddresses E
                  (s\<lparr>discoveryAddresses := discoveryAddresses s @ (?d # added)\<rparr>) ?d"
      by (simp add: inDiscoveryAddresses_append)
    have mono: "\<And>x. inDiscoveryAddresses E s x \<Longrightarrow> inDiscoveryAddresses E ?s1 x"
      by (simp add: inDiscoveryAddresses_append)
    have 4: "\<not> (c \<or> own) \<longrightarrow>
              (\<forall>j\<in>set (i # ports). inDiscoveryAddresses E
                  (s\<lparr>discoveryAddresses := discoveryAddresses s @ (?d # added)\<rparr>) (mk (JNum j)))
              \<and> (\<forall>d\<in>set (?d # added). \<not> inDiscoveryAddresses E s d)"
      using nsk True here mono st by auto
    from 1 2 3 4 show ?thesis by blast
  qed
qed

lemma expand_ports_spec:
  assumes "\<And>x. get (mk x) ''signature'' = Some g"
    and "\<And>x. isConnectedTo E s (mk x) = Some c"
    and "isOwnSignature E s g = Some own"
  shows "\<exists>added.
           expand_ports E mk s = (s\<lparr>discoveryAddresses := discoveryAddresses s @ added\<rparr>, True)
         \<and> subseq added (map mk (expansion_ports s))
         \<and> (c \<or> own \<longrightarrow> added = [])
         \<and> (\<not> (c \<or> own) \<longrightarrow>
              (\<forall>d\<in>set (map mk (expansion_ports s)). inDiscoveryAddresses E
                  (s\<lparr>discoveryAddresses := discoveryAddresses s @ added\<rparr>) d)
              \<and> (\<forall>d\<in>set added. \<not> inDiscoveryAddresses E s d))"
proof (cases "\<exists>lo hi. discoveryRange s = Some [lo, hi] \<and> lo \<le> hi")
  case True
  then obtain lo hi where r: "discoveryRange s = Some [lo, hi]" and le: "lo \<le> hi" by blast
  then have e: "expand_ports E mk s = expand_range E mk [lo..hi] s"
    and p: "map mk (expansion_ports s) = map (\<lambda>i. mk (JNum i)) [lo..hi]"
    by (simp_all add: expand_ports_def expansion_ports_def comp_def)
  from expand_range_spec[of mk g E s c own "[lo..hi]", OF assms] show ?thesis
    unfolding e p by simp
next
  case False
  then have e: "expand_ports E mk s = enqueue_candidate E s (mk (port s))"
    and p: "expansion_ports s = [port s]"
    by (auto simp: expand_ports_def expansion_ports_def split: option.splits list.splits)
  let ?d = "mk (port s)"
  note enq = enqueue_candidate_spec[OF assms(2)[of "port s"] assms(1)[of "port s"] assms(3)]
  show ?thesis
  proof (cases "\<not> inDiscoveryAddresses E s ?d \<and> \<not> c \<and> \<not> own")
    case True
    with enq e p show ?thesis
      by (intro exI[of _ "[?d]"]) (simp add: inDiscoveryAddresses_append)
  next
    case False
    with enq e p show ?thesis
      by (intro exI[of _ "[]"]) auto
  qed
qed

lemma candidate_step_portless:
  assumes "get p ''address'' = Some (JStr a)" and "\<not> hasPort (strip_ffff a)"
    and "get p ''signature'' = Some g" and "signature_value g"
  shows "candidate_step E s p =
           (case expand_ports E (expansion_of E (strip_ffff a) g) s of
              (s', True) \<Rightarrow> Expanded s' | (s', False) \<Rightarrow> Failed s')"
proof -
  have "expansion_of E (strip_ffff a) g =
          (if hasProtocol (strip_ffff a)
           then port_candidate E (u_protocol (url_parse E (strip_ffff a)))
                  (js_or (js_or (u_hostname (url_parse E (strip_ffff a)))
                                (u_host (url_parse E (strip_ffff a))))
                         (u_href (url_parse E (strip_ffff a)))) g
           else port_candidate E (JStr ''wss:'') (u_href (url_parse E (strip_ffff a))) g)"
    by (rule ext) (simp add: expansion_of_def Let_def)
  with assms show ?thesis
    by (simp add: candidate_step_def host_and_port_def Let_def)
qed

lemma expansion_of_signature: "get (expansion_of E address g x) ''signature'' = Some g"
  by (simp add: expansion_of_def Let_def port_candidate_signature)

text \<open>
  A discovery pass changes nothing of the peer but the queue, and what it returns, when it
  returns, is \<^verbatim>\<open>undefined\<close>.
\<close>

lemma enqueue_candidate_queue:
  "\<exists>q. fst (enqueue_candidate E s d) = s\<lparr>discoveryAddresses := q\<rparr>"
proof -
  have keep: "s = s\<lparr>discoveryAddresses := discoveryAddresses s\<rparr>" by simp
  show ?thesis
    by (auto simp: enqueue_candidate_def Let_def split: option.splits intro: exI[of _ "discoveryAddresses s"])
qed

lemma expand_range_queue:
  "\<exists>q. fst (expand_range E mk ports s) = s\<lparr>discoveryAddresses := q\<rparr>"
proof (induction ports arbitrary: s)
  case Nil
  show ?case by (auto intro: exI[of _ "discoveryAddresses s"])
next
  case (Cons i ports)
  obtain s' ok where e: "enqueue_candidate E s (mk (JNum i)) = (s', ok)"
    by (cases "enqueue_candidate E s (mk (JNum i))")
  with enqueue_candidate_queue[of E s "mk (JNum i)"] obtain q where q: "s' = s\<lparr>discoveryAddresses := q\<rparr>"
    by auto
  from Cons.IH[of s'] obtain q' where "fst (expand_range E mk ports s') = s'\<lparr>discoveryAddresses := q'\<rparr>"
    by blast
  with e q show ?case by (cases ok) auto
qed

lemma expand_ports_queue:
  "\<exists>q. fst (expand_ports E mk s) = s\<lparr>discoveryAddresses := q\<rparr>"
  using expand_range_queue enqueue_candidate_queue
  by (simp add: expand_ports_def split: option.splits list.splits)

lemma candidate_step_queue:
  "candidate_step E s p = Expanded s' \<Longrightarrow> \<exists>q. s' = s\<lparr>discoveryAddresses := q\<rparr>"
  "candidate_step E s p = Dialling s' a \<Longrightarrow> s' = s"
  "candidate_step E s p = Failed s' \<Longrightarrow> \<exists>q. s' = s\<lparr>discoveryAddresses := q\<rparr>"
proof -
  have keep: "\<exists>q. s = s\<lparr>discoveryAddresses := q\<rparr>"
    by (rule exI[of _ "discoveryAddresses s"]) simp
  show "candidate_step E s p = Expanded s' \<Longrightarrow> \<exists>q. s' = s\<lparr>discoveryAddresses := q\<rparr>"
    using expand_ports_queue keep
    by (auto simp: candidate_step_def Let_def step_of_pair
        split: option.splits jsv.splits if_splits)
  show "candidate_step E s p = Dialling s' a \<Longrightarrow> s' = s"
    by (auto simp: candidate_step_def Let_def step_of_pair
        split: option.splits jsv.splits if_splits)
  show "candidate_step E s p = Failed s' \<Longrightarrow> \<exists>q. s' = s\<lparr>discoveryAddresses := q\<rparr>"
    using expand_ports_queue keep
    by (auto simp: candidate_step_def Let_def step_of_pair
        split: option.splits jsv.splits if_splits)
qed

lemma discoverOne_queue:
  "discoverOne n E s = (s', a, r) \<Longrightarrow> \<exists>q. s' = s\<lparr>discoveryAddresses := q\<rparr>"
proof (induction n arbitrary: s s' a r)
  case 0
  then show ?case by (auto simp: discoverOne.simps intro: exI[of _ "discoveryAddresses s"])
next
  case (Suc n)
  have nxt: "\<And>s s' a r. discover_next n E s = (s', a, r) \<Longrightarrow> \<exists>q. s' = s\<lparr>discoveryAddresses := q\<rparr>"
  proof -
    fix s s' :: peer and a r
    assume "discover_next n E s = (s', a, r)"
    then show "\<exists>q. s' = s\<lparr>discoveryAddresses := q\<rparr>"
      using Suc.IH[of s s' a r]
      by (auto simp: discover_next.simps split: if_splits intro: exI[of _ "discoveryAddresses s"])
  qed
  obtain p queue where q: "discoveryAddresses s = p # queue \<or> discoveryAddresses s = []"
    by (cases "discoveryAddresses s") auto
  show ?case
  proof (cases "discoveryAddresses s")
    case Nil
    with Suc.prems show ?thesis
      by (auto simp: discoverOne.simps intro: exI[of _ "[]"])
  next
    case (Cons p queue)
    let ?s0 = "s\<lparr>discoveryAddresses := queue\<rparr>"
    show ?thesis
    proof (cases "isConnectedTo E ?s0 p")
      case None
      with Cons Suc.prems show ?thesis by (auto simp: discoverOne.simps Let_def)
    next
      case (Some c)
      obtain s1 a1 r1 where f: "(if c then discover_next n E ?s0 else (?s0, [], Return RUndefined)) = (s1, a1, r1)"
        by (cases "if c then discover_next n E ?s0 else (?s0, [], Return RUndefined)") auto
      then have q1: "\<exists>q. s1 = s\<lparr>discoveryAddresses := q\<rparr>"
        using nxt[of ?s0 s1 a1 r1] by (cases c) auto
      show ?thesis
      proof (cases r1)
        case (Return v)
        show ?thesis
        proof (cases "candidate_step E s1 p")
          case (Expanded s2)
          from candidate_step_queue(1)[OF Expanded] q1 have q2: "\<exists>q. s2 = s\<lparr>discoveryAddresses := q\<rparr>"
            by auto
          obtain s3 a3 r3 where n3: "discover_next n E s2 = (s3, a3, r3)"
            by (cases "discover_next n E s2") auto
          from nxt[OF n3] q2 have "\<exists>q. s3 = s\<lparr>discoveryAddresses := q\<rparr>" by auto
          moreover from Suc.prems Cons Some f Return Expanded n3 have "s' = s3"
            by (cases r3) (auto simp: discoverOne.simps Let_def)
          ultimately show ?thesis by simp
        next
          case (Dialling s2 act)
          from candidate_step_queue(2)[OF Dialling] have "s2 = s1" .
          moreover from Suc.prems Cons Some f Return Dialling have "s' = s2"
            by (auto simp: discoverOne.simps Let_def)
          ultimately show ?thesis using q1 by simp
        next
          case (Failed s2)
          from candidate_step_queue(3)[OF Failed] q1 have "\<exists>q. s2 = s\<lparr>discoveryAddresses := q\<rparr>"
            by auto
          moreover from Suc.prems Cons Some f Return Failed have "s' = s2"
            by (auto simp: discoverOne.simps Let_def)
          ultimately show ?thesis by simp
        qed
      next
        case Throw
        with Suc.prems Cons Some f have "s' = s1" by (auto simp: discoverOne.simps Let_def)
        with q1 show ?thesis by simp
      next
        case OutOfFuel
        with Suc.prems Cons Some f have "s' = s1" by (auto simp: discoverOne.simps Let_def)
        with q1 show ?thesis by simp
      qed
    qed
  qed
qed

lemma discoverOne_returns:
  "discoverOne n E s = (s', a, Return r) \<Longrightarrow> r = RUndefined"
  by (cases n)
     (auto simp: discoverOne.simps Let_def
       split: list.splits option.splits prod.splits completion.splits step.splits if_splits)

lemma discover_next_returns:
  "discover_next n E s = (s', a, Return r) \<Longrightarrow> r = RUndefined"
  using discoverOne_returns by (auto simp: discover_next.simps split: if_splits)

lemma discover_next_collapse:
  "(case discover_next n E s of
      (s3, a3, Return r3) \<Rightarrow> (s3, a1 @ a3, Return RUndefined)
    | (s3, a3, r3) \<Rightarrow> (s3, a1 @ a3, r3))
   = (case discover_next n E s of (s3, a3, r3) \<Rightarrow> (s3, a1 @ a3, r3))"
proof -
  obtain s3 a3 r3 where n3: "discover_next n E s = (s3, a3, r3)"
    by (cases "discover_next n E s") auto
  show ?thesis using discover_next_returns[of n E s s3 a3] n3 by (cases r3) auto
qed

lemma candidate_step_with_port:
  assumes "get p ''address'' = Some (JStr a)" and "hasPort (strip_ffff a)"
  shows "candidate_step E s p =
           (case host_and_port E (hasProtocol (strip_ffff a)) True (url_parse E (strip_ffff a)) of
              None \<Rightarrow> Failed s
            | Some (hst, prt) \<Rightarrow>
                Dialling s (ClientConnect
                  (url_format E (if hasProtocol (strip_ffff a)
                                 then u_protocol (url_parse E (strip_ffff a)) else JStr ''wss:'')
                     hst prt)
                  (strip_ffff a) prt))"
  using assms by (simp add: candidate_step_def Let_def split: option.splits)

text \<open>
  Claim C8, as the code has it. Let the head \<open>p\<close> of the discovery queue have a string
  address that, after the IPv4 prefix is stripped, does not end in a colon and digits (the
  test \<^verbatim>\<open>discoverOne\<close> makes for a port), and a signature that is absent, \<^verbatim>\<open>null\<close> or a
  string. Then:

  \<^item> in whatever state \<open>s1\<close> the expansion runs, \<^verbatim>\<open>discoverOne\<close> does not dial \<open>p\<close>: its
    step for \<open>p\<close> only appends candidates to the queue. The appended candidates are, in
    order and each at most once, candidates for the ports of \<open>expansion_ports\<close> (the
    configured range \<open>[lo, hi]\<close> when \<open>lo \<le> hi\<close>, else the peer's own port), each carrying
    the signature of \<open>p\<close>. When \<open>p\<close>'s signature is already connected or is the peer's own,
    none is appended; otherwise none of the appended ones was queued before, and
    afterwards the candidate of every such port is queued;

  \<^item> when \<open>p\<close>'s signature is not connected, the rest of the call is the processing of
    the queue the expansion left: \<^verbatim>\<open>discovered\<close> is emitted when that queue is empty, and
    otherwise \<^verbatim>\<open>discoverOne\<close> runs on it and takes its head, whether or not a pass is
    marked as running;

  \<^item> when \<open>p\<close>'s signature is connected, \<^verbatim>\<open>next()\<close> has run once before the expansion (the
    \<^verbatim>\<open>isConnectedTo\<close> test does not return from the function); the expansion then appends
    nothing, and \<^verbatim>\<open>next()\<close> runs again on the queue as the first run left it.
\<close>

theorem discoverOne_expands_portless:
  assumes "discoveryAddresses s = p # queue"
    and "get p ''address'' = Some (JStr a)" and "\<not> hasPort (strip_ffff a)"
    and "get p ''signature'' = Some g" and "signature_value g"
  shows "(\<forall>s1::peer. \<exists>added.
            candidate_step E s1 p =
              Expanded (s1\<lparr>discoveryAddresses := discoveryAddresses s1 @ added\<rparr>)
          \<and> subseq added (map (expansion_of E (strip_ffff a) g) (expansion_ports s1))
          \<and> (isConnectedTo E s1 p = Some True \<or> isOwnSignature E s1 g = Some True
               \<longrightarrow> added = [])
          \<and> (\<not> (isConnectedTo E s1 p = Some True \<or> isOwnSignature E s1 g = Some True)
               \<longrightarrow> (\<forall>d\<in>set (map (expansion_of E (strip_ffff a) g) (expansion_ports s1)).
                       inDiscoveryAddresses E
                         (s1\<lparr>discoveryAddresses := discoveryAddresses s1 @ added\<rparr>) d)
                 \<and> (\<forall>d\<in>set added. \<not> inDiscoveryAddresses E s1 d)))
       \<and> (isConnectedTo E (s\<lparr>discoveryAddresses := queue\<rparr>) p = Some False \<longrightarrow>
            (\<forall>s2. candidate_step E (s\<lparr>discoveryAddresses := queue\<rparr>) p = Expanded s2 \<longrightarrow>
               discoverOne (Suc n) E s =
                 (if discoveryAddresses s2 = []
                  then (s2, [Emit ''discovered'' None None], Return RUndefined)
                  else discoverOne n E s2)))
       \<and> (isConnectedTo E (s\<lparr>discoveryAddresses := queue\<rparr>) p = Some True \<longrightarrow>
            discoverOne (Suc n) E s =
              (case (if queue = []
                     then (s\<lparr>discoveryAddresses := queue\<rparr>,
                           [Emit ''discovered'' None None], Return RUndefined)
                     else discoverOne n E (s\<lparr>discoveryAddresses := queue\<rparr>)) of
                 (s1, a1, Return r) \<Rightarrow>
                   (case (if discoveryAddresses s1 = []
                          then (s1, [Emit ''discovered'' None None], Return RUndefined)
                          else discoverOne n E s1) of
                      (s3, a3, r3) \<Rightarrow> (s3, a1 @ a3, r3))
               | (s1, a1, r1) \<Rightarrow> (s1, a1, r1)))"
proof (intro conjI allI impI)
  let ?mk = "expansion_of E (strip_ffff a) g"
  let ?s0 = "s\<lparr>discoveryAddresses := queue\<rparr>"
  have spec: "\<exists>added.
           expand_ports E ?mk s1 =
             (s1\<lparr>discoveryAddresses := discoveryAddresses s1 @ added\<rparr>, True)
         \<and> subseq added (map ?mk (expansion_ports s1))
         \<and> (isConnectedTo E s1 p = Some True \<or> isOwnSignature E s1 g = Some True
               \<longrightarrow> added = [])
         \<and> (\<not> (isConnectedTo E s1 p = Some True \<or> isOwnSignature E s1 g = Some True) \<longrightarrow>
              (\<forall>d\<in>set (map ?mk (expansion_ports s1)). inDiscoveryAddresses E
                  (s1\<lparr>discoveryAddresses := discoveryAddresses s1 @ added\<rparr>) d)
              \<and> (\<forall>d\<in>set added. \<not> inDiscoveryAddresses E s1 d))" for s1 :: peer
  proof -
    obtain c where c: "isConnectedTo E s1 p = Some c"
      using assms(4) by (simp add: isConnectedTo_def)
    obtain own where o: "isOwnSignature E s1 g = Some own"
      using isOwnSignature_signature_value[OF assms(5)] by blast
    have cs: "\<And>x. isConnectedTo E s1 (?mk x) = Some c"
      using isConnectedTo_by_signature[OF expansion_of_signature assms(4)] c by simp
    from expand_ports_spec[of ?mk g E s1 c own, OF expansion_of_signature cs o] c o
    show ?thesis by simp
  qed
  have step: "\<exists>added.
            candidate_step E s1 p =
              Expanded (s1\<lparr>discoveryAddresses := discoveryAddresses s1 @ added\<rparr>)
          \<and> subseq added (map ?mk (expansion_ports s1))
          \<and> (isConnectedTo E s1 p = Some True \<or> isOwnSignature E s1 g = Some True
               \<longrightarrow> added = [])
          \<and> (\<not> (isConnectedTo E s1 p = Some True \<or> isOwnSignature E s1 g = Some True)
               \<longrightarrow> (\<forall>d\<in>set (map ?mk (expansion_ports s1)).
                       inDiscoveryAddresses E
                         (s1\<lparr>discoveryAddresses := discoveryAddresses s1 @ added\<rparr>) d)
                 \<and> (\<forall>d\<in>set added. \<not> inDiscoveryAddresses E s1 d))" for s1 :: peer
  proof -
    from spec[of s1] obtain added where
      e: "expand_ports E ?mk s1 = (s1\<lparr>discoveryAddresses := discoveryAddresses s1 @ added\<rparr>, True)"
      and rest: "subseq added (map ?mk (expansion_ports s1))"
        "isConnectedTo E s1 p = Some True \<or> isOwnSignature E s1 g = Some True \<longrightarrow> added = []"
        "\<not> (isConnectedTo E s1 p = Some True \<or> isOwnSignature E s1 g = Some True) \<longrightarrow>
              (\<forall>d\<in>set (map ?mk (expansion_ports s1)). inDiscoveryAddresses E
                  (s1\<lparr>discoveryAddresses := discoveryAddresses s1 @ added\<rparr>) d)
              \<and> (\<forall>d\<in>set added. \<not> inDiscoveryAddresses E s1 d)"
      by blast
    from candidate_step_portless[OF assms(2-5), of E s1] e
    have "candidate_step E s1 p =
            Expanded (s1\<lparr>discoveryAddresses := discoveryAddresses s1 @ added\<rparr>)" by simp
    with rest show ?thesis by blast
  qed
  {
    fix s1 :: peer
    from step[of s1] show "\<exists>added.
            candidate_step E s1 p =
              Expanded (s1\<lparr>discoveryAddresses := discoveryAddresses s1 @ added\<rparr>)
          \<and> subseq added (map ?mk (expansion_ports s1))
          \<and> (isConnectedTo E s1 p = Some True \<or> isOwnSignature E s1 g = Some True
               \<longrightarrow> added = [])
          \<and> (\<not> (isConnectedTo E s1 p = Some True \<or> isOwnSignature E s1 g = Some True)
               \<longrightarrow> (\<forall>d\<in>set (map ?mk (expansion_ports s1)).
                       inDiscoveryAddresses E
                         (s1\<lparr>discoveryAddresses := discoveryAddresses s1 @ added\<rparr>) d)
                 \<and> (\<forall>d\<in>set added. \<not> inDiscoveryAddresses E s1 d))" .
  }
  {
    fix s2
    assume nc: "isConnectedTo E ?s0 p = Some False"
      and ex: "candidate_step E ?s0 p = Expanded s2"
    from assms(1) nc ex
    have "discoverOne (Suc n) E s =
            (case discover_next n E s2 of (s3, a3, r3) \<Rightarrow> (s3, [] @ a3, r3))"
      by (simp add: discoverOne.simps Let_def discover_next_collapse)
    then show "discoverOne (Suc n) E s =
                 (if discoveryAddresses s2 = []
                  then (s2, [Emit ''discovered'' None None], Return RUndefined)
                  else discoverOne n E s2)"
      by (simp add: discover_next.simps split: prod.splits)
  }
  {
    assume co: "isConnectedTo E ?s0 p = Some True"
    let ?first = "if queue = []
                  then (?s0, [Emit ''discovered'' None None], Return RUndefined)
                  else discoverOne n E ?s0"
    have first: "discover_next n E ?s0 = ?first" by (simp add: discover_next.simps)
    obtain s1 a1 r1 where f: "?first = (s1, a1, r1)" by (cases ?first) auto
    show "discoverOne (Suc n) E s =
              (case ?first of
                 (s1, a1, Return r) \<Rightarrow>
                   (case (if discoveryAddresses s1 = []
                          then (s1, [Emit ''discovered'' None None], Return RUndefined)
                          else discoverOne n E s1) of
                      (s3, a3, r3) \<Rightarrow> (s3, a1 @ a3, r3))
               | (s1, a1, r1) \<Rightarrow> (s1, a1, r1))"
    proof (cases r1)
      case (Return v)
      from first f have "discover_next n E ?s0 = (s1, a1, r1)" by simp
      then obtain q where q: "s1 = ?s0\<lparr>discoveryAddresses := q\<rparr>"
        using discoverOne_queue[of n E ?s0 s1 a1 r1]
        by (auto simp: discover_next.simps split: if_splits)
      then have "isConnectedTo E s1 p = Some True"
        using co by (simp add: isConnectedTo_queue)
      with step[of s1] have cs: "candidate_step E s1 p = Expanded s1" by auto
      from assms(1) co first f Return cs
      have "discoverOne (Suc n) E s =
              (case discover_next n E s1 of (s3, a3, r3) \<Rightarrow> (s3, a1 @ a3, r3))"
        by (simp add: discoverOne.simps Let_def discover_next_collapse)
      with f Return show ?thesis by (simp add: discover_next.simps)
    next
      case Throw
      with assms(1) co first f show ?thesis by (simp add: discoverOne.simps Let_def)
    next
      case OutOfFuel
      with assms(1) co first f show ?thesis by (simp add: discoverOne.simps Let_def)
    qed
  }
qed

text \<open>The concrete environment on the addresses used below.\<close>

lemma env0_url:
  "url_parse env0 ''hostb'' =
     \<lparr>u_protocol = JNull, u_hostname = JNull, u_host = JNull, u_href = JStr ''hostb'',
      u_port = JNull\<rparr>"
  "url_parse env0 ''::1'' =
     \<lparr>u_protocol = JNull, u_hostname = JNull, u_host = JNull, u_href = JStr ''::1'',
      u_port = JNull\<rparr>"
  "url_parse env0 ''wss://hostb:3'' =
     \<lparr>u_protocol = JStr ''wss:'', u_hostname = JStr ''hostb'', u_host = JStr ''hostb:3'',
      u_href = JStr ''wss://hostb:3'', u_port = JStr ''3''\<rparr>"
  "url_format env0 (JStr ''wss:'') (JStr ''hostb'') (JNum 3) = ''wss://hostb:3''"
  "url_format env0 (JStr ''wss:'') (JStr ''hostb'') (JNum 4) = ''wss://hostb:4''"
  "url_format env0 (JStr ''wss:'') (JStr ''hostb'') (JNum 5) = ''wss://hostb:5''"
  "url_format env0 (JStr ''wss:'') (JStr ''hostb'') (JStr ''3'') = ''wss://hostb:3''"
  "JSON_stringify env0 (JObj [(k1, JStr x), (k2, JNull)]) = Some (x @ ''|undefined'')"
  by (simp_all add: env0_def digit_text_def)

lemma address_tests:
  "strip_ffff ''hostb'' = ''hostb''"
  "\<not> hasPort ''hostb''" "\<not> hasProtocol ''hostb''"
  "strip_ffff ''wss://hostb:3'' = ''wss://hostb:3''"
  "hasPort ''wss://hostb:3''" "hasProtocol ''wss://hostb:3''"
  "strip_ffff ''::1'' = ''::1''"
  "hasPort ''::1''" "\<not> hasProtocol ''::1''"
  by (simp_all add: strip_ffff_def ffff_match_def hasPort_def hasProtocol_def is_digit_def
      one_line_def line_terminator_def Let_def)

lemma peerA_discovering_eval:
  "discoveryAddresses peerA_discovering =
     [JObj [(''address'', JStr ''hostb''), (''signature'', JNull)]]"
  "discovering peerA_discovering"
  "peerA_queued\<lparr>discovering := True, discoveryAddresses := q\<rparr> =
     peerA_discovering\<lparr>discoveryAddresses := q\<rparr>"
  by (simp_all add: peerA_discovering_def peerA_queued_def)

lemma peerA_discovering_expansion:
  "map (expansion_of env0 ''hostb'' JNull) (expansion_ports peerA_discovering) =
     [JObj [(''address'', JStr ''wss://hostb:3''), (''signature'', JNull)],
      JObj [(''address'', JStr ''wss://hostb:4''), (''signature'', JNull)],
      JObj [(''address'', JStr ''wss://hostb:5''), (''signature'', JNull)]]"
  by (simp add: expansion_ports_def peerA_discovering_def peerA_queued_def peerA_def
      expansion_of_def Let_def address_tests env0_url port_candidate_def)

lemma peerA_discovering_expand:
  "expand_ports env0 (expansion_of env0 ''hostb'' JNull)
     (peerA_discovering\<lparr>discoveryAddresses := []\<rparr>) =
     (peerA_discovering\<lparr>discoveryAddresses :=
        [JObj [(''address'', JStr ''wss://hostb:3''), (''signature'', JNull)],
         JObj [(''address'', JStr ''wss://hostb:4''), (''signature'', JNull)],
         JObj [(''address'', JStr ''wss://hostb:5''), (''signature'', JNull)]]\<rparr>, True)"
  by (simp add: expand_ports_def peerA_discovering_def peerA_queued_def peerA_def
      expansion_of_def Let_def
      address_tests env0_url port_candidate_def enqueue_candidate_def inDiscoveryAddresses_def
      isConnectedTo_def isOwnSignature_def own_signature_def env0_base64)

text \<open>
  The theorem at the concrete peer during a pass, with the candidate \<open>hostb\<close> queued and
  the range \<open>[3, 5]\<close>: three candidates are appended, and the call goes on to dial the
  first of them, which has become the head of the queue. The same from \<^verbatim>\<open>discover\<close>.
\<close>

theorem discoverOne_expands_portless_witness:
  "discoveryAddresses peerA_discovering =
     [JObj [(''address'', JStr ''hostb''), (''signature'', JNull)]]
   \<and> discovering peerA_discovering
   \<and> \<not> hasPort (strip_ffff ''hostb'') \<and> signature_value JNull
   \<and> map (expansion_of env0 ''hostb'' JNull) (expansion_ports peerA_discovering) =
       [JObj [(''address'', JStr ''wss://hostb:3''), (''signature'', JNull)],
        JObj [(''address'', JStr ''wss://hostb:4''), (''signature'', JNull)],
        JObj [(''address'', JStr ''wss://hostb:5''), (''signature'', JNull)]]
   \<and> candidate_step env0 (peerA_discovering\<lparr>discoveryAddresses := []\<rparr>)
         (JObj [(''address'', JStr ''hostb''), (''signature'', JNull)]) =
       Expanded (peerA_discovering\<lparr>discoveryAddresses :=
         [JObj [(''address'', JStr ''wss://hostb:3''), (''signature'', JNull)],
          JObj [(''address'', JStr ''wss://hostb:4''), (''signature'', JNull)],
          JObj [(''address'', JStr ''wss://hostb:5''), (''signature'', JNull)]]\<rparr>)
   \<and> discoverOne 2 env0 peerA_discovering =
       (peerA_discovering\<lparr>discoveryAddresses :=
          [JObj [(''address'', JStr ''wss://hostb:4''), (''signature'', JNull)],
           JObj [(''address'', JStr ''wss://hostb:5''), (''signature'', JNull)]]\<rparr>,
        [ClientConnect ''wss://hostb:3'' ''wss://hostb:3'' (JStr ''3'')],
        Return RUndefined)
   \<and> discover 2 env0 peerA_queued =
       (peerA_discovering\<lparr>discoveryAddresses :=
          [JObj [(''address'', JStr ''wss://hostb:4''), (''signature'', JNull)],
           JObj [(''address'', JStr ''wss://hostb:5''), (''signature'', JNull)]]\<rparr>,
        [Emit ''discovering'' None None,
         ClientConnect ''wss://hostb:3'' ''wss://hostb:3'' (JStr ''3'')],
        Return RUndefined)"
proof -
  let ?p = "JObj [(''address'', JStr ''hostb''), (''signature'', JNull)]"
  let ?d3 = "JObj [(''address'', JStr ''wss://hostb:3''), (''signature'', JNull)]"
  let ?d4 = "JObj [(''address'', JStr ''wss://hostb:4''), (''signature'', JNull)]"
  let ?d5 = "JObj [(''address'', JStr ''wss://hostb:5''), (''signature'', JNull)]"
  let ?s0 = "peerA_discovering\<lparr>discoveryAddresses := []\<rparr>"
  have q: "discoveryAddresses peerA_discovering = ?p # []"
    by (simp add: peerA_discovering_eval)
  have a: "get ?p ''address'' = Some (JStr ''hostb'')" and g: "get ?p ''signature'' = Some JNull"
    by simp_all
  have np: "\<not> hasPort (strip_ffff ''hostb'')" by (simp add: address_tests)
  have sv: "signature_value JNull" by (simp add: signature_value_def)
  note T = discoverOne_expands_portless [OF q a np g sv, of env0 "Suc 0"]
  have nc: "isConnectedTo env0 ?s0 ?p = Some False"
    by (simp add: isConnectedTo_def own_signature_def env0_base64 peerA_discovering_def
        peerA_queued_def peerA_def)
  have cs: "candidate_step env0 ?s0 ?p =
       Expanded (peerA_discovering\<lparr>discoveryAddresses := [?d3, ?d4, ?d5]\<rparr>)"
    using candidate_step_portless[OF a np g sv, of env0 ?s0]
    by (simp add: address_tests peerA_discovering_expand)
  have dial: "discoverOne (Suc 0) env0 (peerA_discovering\<lparr>discoveryAddresses := [?d3, ?d4, ?d5]\<rparr>) =
       (peerA_discovering\<lparr>discoveryAddresses := [?d4, ?d5]\<rparr>,
        [ClientConnect ''wss://hostb:3'' ''wss://hostb:3'' (JStr ''3'')], Return RUndefined)"
    by (simp add: discoverOne.simps Let_def isConnectedTo_def own_signature_def env0_base64
        peerA_discovering_def peerA_queued_def peerA_def candidate_step_def address_tests
        env0_url host_and_port_def js_or_def)
  from T nc cs have "discoverOne (Suc (Suc 0)) env0 peerA_discovering =
       (if discoveryAddresses (peerA_discovering\<lparr>discoveryAddresses := [?d3, ?d4, ?d5]\<rparr>) = []
        then (peerA_discovering\<lparr>discoveryAddresses := [?d3, ?d4, ?d5]\<rparr>,
              [Emit ''discovered'' None None], Return RUndefined)
        else discoverOne (Suc 0) env0 (peerA_discovering\<lparr>discoveryAddresses := [?d3, ?d4, ?d5]\<rparr>))"
    by blast
  with dial have d: "discoverOne 2 env0 peerA_discovering =
       (peerA_discovering\<lparr>discoveryAddresses := [?d4, ?d5]\<rparr>,
        [ClientConnect ''wss://hostb:3'' ''wss://hostb:3'' (JStr ''3'')], Return RUndefined)"
    by (simp add: numeral_2_eq_2)
  have "peerA_queued\<lparr>discovering := True\<rparr> = peerA_discovering"
    by (simp add: peerA_discovering_def)
  with d have dd: "discover 2 env0 peerA_queued =
       (peerA_discovering\<lparr>discoveryAddresses := [?d4, ?d5]\<rparr>,
        [Emit ''discovering'' None None,
         ClientConnect ''wss://hostb:3'' ''wss://hostb:3'' (JStr ''3'')],
        Return RUndefined)"
    by (simp add: discover_def peerA_queued_def)
  from q have q': "discoveryAddresses peerA_discovering = [?p]" by simp
  show ?thesis
    by (intro conjI q' peerA_discovering_eval(2) np sv peerA_discovering_expansion cs d dd)
qed

text \<open>
  Claim C8 as the specification states it, for every address without a port, fails for an
  address that has no port and still ends in a colon and digits, as an IPv6 literal does.
  The loopback address \<open>::1\<close> passes the port test, so \<^verbatim>\<open>discoverOne\<close> takes it for an
  address with a port and does not expand it. \<^verbatim>\<open>url.parse\<close> finds no scheme in it, and
  \<^verbatim>\<open>tmp.protocol.toString()\<close> throws on \<^verbatim>\<open>null\<close>: no candidate is appended, and the next
  queue head is not processed.
\<close>

theorem discoverOne_ipv6_not_expanded:
  "\<not> hasProtocol (strip_ffff ''::1'') \<and> hasPort (strip_ffff ''::1'')
   \<and> discoverOne 2 env0 peerA_v6 =
       (peerA_v6\<lparr>discoveryAddresses :=
          [JObj [(''address'', JStr ''wss://hostb:3''), (''signature'', JNull)]]\<rparr>,
        [], Throw)"
proof -
  have "discoverOne (Suc (Suc 0)) env0 peerA_v6 =
       (peerA_v6\<lparr>discoveryAddresses :=
          [JObj [(''address'', JStr ''wss://hostb:3''), (''signature'', JNull)]]\<rparr>,
        [], Throw)"
    by (simp add: discoverOne.simps Let_def isConnectedTo_def own_signature_def env0_base64
        peerA_v6_def peerA_def candidate_step_def address_tests
        env0_url host_and_port_def js_toString_def)
  then show ?thesis by (simp add: address_tests numeral_2_eq_2)
qed

text \<open>
  Whatever \<^verbatim>\<open>url.parse\<close> makes of it, a candidate whose address passes the port test is
  never expanded: its step is a dial of that address, or an exception, and the queue
  stays as it is.
\<close>

theorem candidate_with_port_not_expanded:
  assumes "get p ''address'' = Some (JStr a)" and "hasPort (strip_ffff a)"
  shows "candidate_step E s p = Failed s
         \<or> (\<exists>url prt. candidate_step E s p = Dialling s (ClientConnect url (strip_ffff a) prt))"
  using candidate_step_with_port[OF assms, of E s]
  by (auto split: option.splits)

text \<open>The same at the candidate \<open>wss://hostb:3\<close>, which is dialled.\<close>

theorem candidate_with_port_not_expanded_witness:
  "hasPort (strip_ffff ''wss://hostb:3'')
   \<and> candidate_step env0 peerA
         (JObj [(''address'', JStr ''wss://hostb:3''), (''signature'', JNull)]) =
       Dialling peerA (ClientConnect ''wss://hostb:3'' ''wss://hostb:3'' (JStr ''3''))"
proof -
  let ?d3 = "JObj [(''address'', JStr ''wss://hostb:3''), (''signature'', JNull)]"
  have a: "get ?d3 ''address'' = Some (JStr ''wss://hostb:3'')" by simp
  have hp: "hasPort (strip_ffff ''wss://hostb:3'')" by (simp add: address_tests)
  have ev: "candidate_step env0 peerA ?d3 = Failed peerA \<or> candidate_step env0 peerA ?d3 =
       Dialling peerA (ClientConnect ''wss://hostb:3'' ''wss://hostb:3'' (JStr ''3''))"
    by (simp add: candidate_step_def Let_def address_tests env0_url host_and_port_def js_or_def)
  from candidate_with_port_not_expanded [OF a hp, of env0 peerA]
  have "candidate_step env0 peerA ?d3 \<noteq> Failed peerA \<longrightarrow>
          (\<exists>url prt. candidate_step env0 peerA ?d3 =
             Dialling peerA (ClientConnect url (strip_ffff ''wss://hostb:3'') prt))"
    by blast
  moreover have "candidate_step env0 peerA ?d3 \<noteq> Failed peerA"
    by (simp add: candidate_step_def Let_def address_tests env0_url host_and_port_def js_or_def)
  ultimately have "\<exists>url prt. candidate_step env0 peerA ?d3 =
             Dialling peerA (ClientConnect url (strip_ffff ''wss://hostb:3'') prt)"
    by blast
  with ev hp show ?thesis by auto
qed

end
